theory Spec2Isabelle
  imports Complex_Main
begin

section \<open>Data model (types/GameTypes.ts)\<close>

text \<open>
  JavaScript numbers are modelled as follows: grid coordinates, grid dimensions, segment
  ages and the score are integers (\<open>int\<close>), speed, game time, latencies and the profiler's
  ratios are real numbers. The rounding of a result to a double is written out where the
  score is computed (\<open>roundToDouble\<close> below, used by \<open>calculateScoreIncrease\<close>); the other
  computations on real numbers are exact.
  The fields \<open>x\<close> and \<open>y\<close> of a Position are called \<open>px\<close> and \<open>py\<close>.
\<close>

record Position =
  px :: int
  py :: int

datatype Direction = UP | DOWN | LEFT | RIGHT

record SnakeSegment =
  position :: Position
  direction :: Direction
  age :: int

datatype GameStatus = INIT | PLAYING | PAUSED | GAME_OVER

record GridSize =
  width :: int
  height :: int

record GameState =
  snake :: "SnakeSegment list"
  food :: Position
  score :: int
  gameStatus :: GameStatus
  speed :: real
  gridSize :: GridSize
  gameTime :: real

text \<open>Exceptions of the source: the \<open>Error\<close> thrown by the food model when no cell is free,
  and the \<open>TypeError\<close> of reading a property of \<open>undefined\<close>. \<open>NotANumber\<close> is no exception:
  it marks the one computation below whose JavaScript result is \<open>NaN\<close>, which a real number
  cannot carry.\<close>

datatype error = NoValidPosition | TypeError | NotANumber

section \<open>Rounding to a double\<close>

text \<open>
  A JavaScript number is an IEEE 754 double: a sign, a significand of 53 bits and a power
  of two. The result of an arithmetic operation is the exact result rounded to the nearest
  double, a tie going to the even significand. \<open>normalise\<close> scales a positive number into
  the range of the significand, from \<open>2 ^ 52\<close> up to \<open>2 ^ 53\<close>, counting the exponent; its
  fuel covers the exponents of all doubles. Overflow to \<open>Infinity\<close> and the subnormal
  numbers next to zero are not modelled.
\<close>

fun normalise :: "nat \<Rightarrow> real \<Rightarrow> int \<Rightarrow> real \<times> int" where
  "normalise 0 m e = (m, e)"
| "normalise (Suc fuel) m e =
     (if 2 ^ 53 \<le> m then normalise fuel (m / 2) (e + 1)
      else if m < 2 ^ 52 then normalise fuel (m * 2) (e - 1)
      else (m, e))"

definition roundHalfEven :: "real \<Rightarrow> int" where
  "roundHalfEven m =
     (let f = \<lfloor>m\<rfloor>; r = m - of_int f
      in if r < 1 / 2 then f else if 1 / 2 < r then f + 1 else if even f then f else f + 1)"

definition roundToDouble :: "real \<Rightarrow> real" where
  "roundToDouble x =
     (if x = 0 then 0
      else let (m, e) = normalise 2200 \<bar>x\<bar> 0
           in sgn x * of_int (roundHalfEven m) * 2 powi e)"

section \<open>Game state manager (engine/GameStateManager.ts)\<close>

definition INITIAL_SNAKE_LENGTH :: nat where "INITIAL_SNAKE_LENGTH = 3"
definition INITIAL_SPEED :: real where "INITIAL_SPEED = 1.0"
definition GRID_WIDTH :: int where "GRID_WIDTH = 20"
definition GRID_HEIGHT :: int where "GRID_HEIGHT = 20"

text \<open>\<open>generateRandomFoodPosition\<close>: a do-while loop that draws two random numbers per round
  until the cell is not occupied. The draws of \<open>Math.random()\<close> are supplied as a list of
  pairs; \<open>None\<close> means that the loop is still running when the supplied draws are used up.\<close>

definition drawPosition :: "real \<times> real \<Rightarrow> Position" where
  "drawPosition d = \<lparr> px = \<lfloor>fst d * real_of_int GRID_WIDTH\<rfloor>, py = \<lfloor>snd d * real_of_int GRID_HEIGHT\<rfloor> \<rparr>"

definition occupiedPositions :: "SnakeSegment list \<Rightarrow> Position set" where
  "occupiedPositions sn = set (map position sn)"

fun generateRandomFoodPosition :: "SnakeSegment list \<Rightarrow> (real \<times> real) list \<Rightarrow> Position option" where
  "generateRandomFoodPosition sn [] = None"
| "generateRandomFoodPosition sn (d # ds) =
     (if drawPosition d \<in> occupiedPositions sn then generateRandomFoodPosition sn ds
      else Some (drawPosition d))"

definition initialSnake :: "SnakeSegment list" where
  "initialSnake =
     (let centerX = GRID_WIDTH div 2; centerY = GRID_HEIGHT div 2
      in map (\<lambda>i. \<lparr> position = \<lparr> px = centerX - int i, py = centerY \<rparr>, direction = RIGHT, age = int i \<rparr>)
           [0 ..< INITIAL_SNAKE_LENGTH])"

definition createInitialState :: "(real \<times> real) list \<Rightarrow> GameState option" where
  "createInitialState draws =
     (case generateRandomFoodPosition initialSnake draws of
        None \<Rightarrow> None
      | Some f \<Rightarrow> Some \<lparr> snake = initialSnake, food = f, score = 0, gameStatus = INIT,
                        speed = INITIAL_SPEED,
                        gridSize = \<lparr> width = GRID_WIDTH, height = GRID_HEIGHT \<rparr>,
                        gameTime = 0 \<rparr>)"

definition validTransitions :: "GameStatus \<Rightarrow> GameStatus list" where
  "validTransitions from =
     (case from of
        INIT \<Rightarrow> [PLAYING]
      | PLAYING \<Rightarrow> [PAUSED, GAME_OVER]
      | PAUSED \<Rightarrow> [PLAYING, GAME_OVER]
      | GAME_OVER \<Rightarrow> [INIT])"

definition isValidTransition :: "GameStatus \<Rightarrow> GameStatus \<Rightarrow> bool" where
  "isValidTransition from to = (to \<in> set (validTransitions from))"

text \<open>The mutators return the boolean result together with the updated state.\<close>

definition transitionTo :: "GameStatus \<Rightarrow> GameState \<Rightarrow> bool \<times> GameState" where
  "transitionTo newStatus gs =
     (if \<not> isValidTransition (gameStatus gs) newStatus then (False, gs)
      else (True, gs\<lparr>gameStatus := newStatus\<rparr>))"

definition startGame :: "GameState \<Rightarrow> bool \<times> GameState" where
  "startGame gs = (if gameStatus gs \<noteq> INIT then (False, gs) else transitionTo PLAYING gs)"

definition pauseGame :: "GameState \<Rightarrow> bool \<times> GameState" where
  "pauseGame gs = (if gameStatus gs \<noteq> PLAYING then (False, gs) else transitionTo PAUSED gs)"

definition resumeGame :: "GameState \<Rightarrow> bool \<times> GameState" where
  "resumeGame gs = (if gameStatus gs \<noteq> PAUSED then (False, gs) else transitionTo PLAYING gs)"

definition endGame :: "GameState \<Rightarrow> bool \<times> GameState" where
  "endGame gs = transitionTo GAME_OVER gs"

text \<open>\<open>resetGame\<close> builds a fresh initial state, which runs the random food loop.\<close>

definition resetGame :: "(real \<times> real) list \<Rightarrow> GameState \<Rightarrow> (bool \<times> GameState) option" where
  "resetGame draws gs =
     (case transitionTo INIT gs of
        (True, gs') \<Rightarrow> (case createInitialState draws of
                          None \<Rightarrow> None
                        | Some fresh \<Rightarrow> Some (True, fresh))
      | (False, gs') \<Rightarrow> Some (False, gs'))"

definition updateGameTime :: "real \<Rightarrow> GameState \<Rightarrow> GameState" where
  "updateGameTime deltaTime gs =
     (if gameStatus gs = PLAYING then gs\<lparr>gameTime := gameTime gs + deltaTime\<rparr> else gs)"

definition getNextPosition :: "Position \<Rightarrow> Direction \<Rightarrow> Position" where
  "getNextPosition p d =
     (case d of
        UP \<Rightarrow> p\<lparr>py := py p - 1\<rparr>
      | DOWN \<Rightarrow> p\<lparr>py := py p + 1\<rparr>
      | LEFT \<Rightarrow> p\<lparr>px := px p - 1\<rparr>
      | RIGHT \<Rightarrow> p\<lparr>px := px p + 1\<rparr>)"

definition oppositeDirections :: "Direction \<Rightarrow> Direction" where
  "oppositeDirections d = (case d of UP \<Rightarrow> DOWN | DOWN \<Rightarrow> UP | LEFT \<Rightarrow> RIGHT | RIGHT \<Rightarrow> LEFT)"

text \<open>\<open>changeDirection\<close> reads \<open>snake[0].direction\<close>: on an empty snake this is a TypeError.\<close>

definition changeDirection :: "Direction \<Rightarrow> GameState \<Rightarrow> error + bool \<times> GameState" where
  "changeDirection newDirection gs =
     (if gameStatus gs \<noteq> PLAYING then Inr (False, gs)
      else case snake gs of
             [] \<Rightarrow> Inl TypeError
           | h # rest \<Rightarrow>
               if oppositeDirections (direction h) = newDirection then Inr (False, gs)
               else Inr (True, gs\<lparr>snake := h\<lparr>direction := newDirection\<rparr> # rest\<rparr>))"

definition setSpeed :: "real \<Rightarrow> GameState \<Rightarrow> GameState" where
  "setSpeed v gs = gs\<lparr>speed := max 0.1 (min 5.0 v)\<rparr>"

definition spawnFoodAt :: "Position \<Rightarrow> GameState \<Rightarrow> bool \<times> GameState" where
  "spawnFoodAt p gs =
     (let isOccupied = list_ex (\<lambda>s. px (position s) = px p \<and> py (position s) = py p) (snake gs)
      in if isOccupied \<or> px p < 0 \<or> px p \<ge> GRID_WIDTH \<or> py p < 0 \<or> py p \<ge> GRID_HEIGHT
         then (False, gs)
         else (True, gs\<lparr>food := p\<rparr>))"

text \<open>The five transition operations, as one dispatcher, with the status each one aims at.\<close>

datatype TransitionOp = StartGame | PauseGame | ResumeGame | EndGame | ResetGame

definition runTransition :: "TransitionOp \<Rightarrow> (real \<times> real) list \<Rightarrow> GameState \<Rightarrow> (bool \<times> GameState) option" where
  "runTransition op draws gs =
     (case op of
        StartGame \<Rightarrow> Some (startGame gs)
      | PauseGame \<Rightarrow> Some (pauseGame gs)
      | ResumeGame \<Rightarrow> Some (resumeGame gs)
      | EndGame \<Rightarrow> Some (endGame gs)
      | ResetGame \<Rightarrow> resetGame draws gs)"

definition targetStatus :: "TransitionOp \<Rightarrow> GameStatus" where
  "targetStatus op =
     (case op of StartGame \<Rightarrow> PLAYING | PauseGame \<Rightarrow> PAUSED | ResumeGame \<Rightarrow> PLAYING
               | EndGame \<Rightarrow> GAME_OVER | ResetGame \<Rightarrow> INIT)"

text \<open>The operation documented for a pair: \<open>startGame\<close> is INIT to PLAYING, \<open>resumeGame\<close> is
  PAUSED to PLAYING, \<open>pauseGame\<close> goes to PAUSED, \<open>endGame\<close> to \<open>GAME_OVER\<close>, \<open>resetGame\<close> to INIT.\<close>

definition correspondingOp :: "GameStatus \<Rightarrow> GameStatus \<Rightarrow> TransitionOp" where
  "correspondingOp from to =
     (case to of
        PLAYING \<Rightarrow> (if from = PAUSED then ResumeGame else StartGame)
      | PAUSED \<Rightarrow> PauseGame
      | GAME_OVER \<Rightarrow> EndGame
      | INIT \<Rightarrow> ResetGame)"

section \<open>Collision detector (engine/CollisionDetector.ts)\<close>

definition wouldCollideWithSnake :: "Position \<Rightarrow> SnakeSegment list \<Rightarrow> bool" where
  "wouldCollideWithSnake p sn = list_ex (\<lambda>s. px (position s) = px p \<and> py (position s) = py p) sn"

definition isPositionValid :: "Position \<Rightarrow> GridSize \<Rightarrow> bool" where
  "isPositionValid p g = (px p \<ge> 0 \<and> px p < width g \<and> py p \<ge> 0 \<and> py p < height g)"

definition calculateDistance :: "Position \<Rightarrow> Position \<Rightarrow> int" where
  "calculateDistance pos1 pos2 = \<bar>px pos1 - px pos2\<bar> + \<bar>py pos1 - py pos2\<bar>"

text \<open>\<open>getValidAdjacentPositions\<close>, called without the optional position: the cells next to
  the head, in the order UP, DOWN, LEFT, RIGHT.\<close>

definition getValidAdjacentPositions :: "GameState \<Rightarrow> error + Position list" where
  "getValidAdjacentPositions gs =
     (case snake gs of
        [] \<Rightarrow> Inl TypeError
      | h # rest \<Rightarrow>
          Inr (filter (\<lambda>newPos. isPositionValid newPos (gridSize gs)
                              \<and> \<not> wouldCollideWithSnake newPos (snake gs))
                 (map (\<lambda>dir. \<lparr> px = px (position h) + fst dir, py = py (position h) + snd dir \<rparr>)
                    [(0, -1), (0, 1), (-1, 0), (1, 0)])))"

definition assessDangerLevel :: "GameState \<Rightarrow> error + real" where
  "assessDangerLevel gs =
     (case getValidAdjacentPositions gs of
        Inl e \<Rightarrow> Inl e
      | Inr validMoves \<Rightarrow>
          (case snake gs of
             [] \<Rightarrow> Inl TypeError
           | h # rest \<Rightarrow>
               let maxMoves = 4 :: real;
                   availableMoves = real (length validMoves);
                   movementDanger = 1 - availableMoves / maxMoves;
                   wallProximity = min (min (px (position h)) (py (position h)))
                                       (min (width (gridSize gs) - 1 - px (position h))
                                            (height (gridSize gs) - 1 - py (position h)));
                   wallDanger = (if wallProximity \<le> 1 then 0.3 else 0 :: real)
               in Inr (min 1 (movementDanger + wallDanger))))"

section \<open>Food manager (engine/FoodManager.ts)\<close>

datatype Difficulty = easy | medium | hard

record FoodConsumptionResult =
  consumed :: bool
  scoreIncrease :: int
  newFoodPosition :: "Position option"

text \<open>Reading \<open>xs[i]\<close> in JavaScript gives \<open>undefined\<close> (here \<open>None\<close>) outside the array.\<close>

definition js_index :: "'a list \<Rightarrow> int \<Rightarrow> 'a option" where
  "js_index xs i = (if 0 \<le> i \<and> i < int (length xs) then Some (xs ! nat i) else None)"

text \<open>\<open>calculateScoreIncrease\<close>: \<open>Math.floor((gameState.speed - 1) * 5)\<close> floors a double,
  the rounded product of the rounded difference. The quotient \<open>snake.length / 10\<close> is
  rounded as well, but a quotient of an array length by 10 that is not a whole number lies
  at least 1 / 10 away from the next one, so its floor is the integer quotient.\<close>

definition calculateScoreIncrease :: "GameState \<Rightarrow> int" where
  "calculateScoreIncrease gs =
     (let baseScore = 10;
          lengthBonus = (int (length (snake gs)) div 10) * 5;
          speedBonus = \<lfloor>roundToDouble (roundToDouble (speed gs - 1) * 5)\<rfloor>
      in baseScore + lengthBonus + speedBonus)"

definition getAllValidPositions :: "GameState \<Rightarrow> Position list" where
  "getAllValidPositions gs =
     concat (map (\<lambda>cx. concat (map (\<lambda>cy.
                if \<not> wouldCollideWithSnake \<lparr> px = cx, py = cy \<rparr> (snake gs)
                then [\<lparr> px = cx, py = cy \<rparr>] else [])
              [0 .. height (gridSize gs) - 1]))
        [0 .. width (gridSize gs) - 1])"

text \<open>\<open>selectPositionByDifficulty\<close>: \<open>rnd\<close> is the value of the one call of \<open>Math.random()\<close>.
  The stable sort by distance is \<open>sort_key\<close>. Reading \<open>.position\<close> of an entry outside the
  array is a TypeError.\<close>

definition selectPositionByDifficulty :: "Position list \<Rightarrow> Position \<Rightarrow> Difficulty \<Rightarrow> real \<Rightarrow> error + Position" where
  "selectPositionByDifficulty validPositions snakeHead difficulty rnd =
     (let positionsWithDistance =
            sort_key snd (map (\<lambda>pos. (pos, calculateDistance snakeHead pos)) validPositions);
          totalPositions = real (length positionsWithDistance);
          selectedIndex =
            (case difficulty of
               easy \<Rightarrow> \<lfloor>rnd * max 1 (totalPositions * 0.3)\<rfloor>
             | medium \<Rightarrow>
                 (let middleStart = \<lfloor>totalPositions * 0.3\<rfloor>;
                      middleRange = max 1 (totalPositions * 0.4)
                  in middleStart + \<lfloor>rnd * middleRange\<rfloor>)
             | hard \<Rightarrow>
                 (let farStart = \<lfloor>totalPositions * 0.7\<rfloor>
                  in farStart + \<lfloor>rnd * (totalPositions - real_of_int farStart)\<rfloor>))
      in case js_index positionsWithDistance selectedIndex of
           None \<Rightarrow> Inl TypeError
         | Some entry \<Rightarrow> Inr (fst entry))"

text \<open>\<open>generateOptimalFoodPosition\<close>: the result \<open>Inr None\<close> is the \<open>undefined\<close> that the
  default branch returns when its index is outside the array.\<close>

definition generateOptimalFoodPosition :: "GameState \<Rightarrow> Difficulty option \<Rightarrow> real \<Rightarrow> error + Position option" where
  "generateOptimalFoodPosition gs aiPreference rnd =
     (let validPositions = getAllValidPositions gs
      in if length validPositions = 0 then Inl NoValidPosition
         else case aiPreference of
                Some difficulty \<Rightarrow>
                  (case snake gs of
                     [] \<Rightarrow> Inl TypeError
                   | h # rest \<Rightarrow>
                       (case selectPositionByDifficulty validPositions (position h) difficulty rnd of
                          Inl e \<Rightarrow> Inl e
                        | Inr p \<Rightarrow> Inr (Some p)))
              | None \<Rightarrow> Inr (js_index validPositions \<lfloor>rnd * real (length validPositions)\<rfloor>))"

definition checkFoodConsumption :: "GameState \<Rightarrow> real \<Rightarrow> error + FoodConsumptionResult" where
  "checkFoodConsumption gs rnd =
     (case snake gs of
        [] \<Rightarrow> Inl TypeError
      | h # rest \<Rightarrow>
          let foodConsumed = (px (position h) = px (food gs) \<and> py (position h) = py (food gs))
          in if \<not> foodConsumed
             then Inr \<lparr> consumed = False, scoreIncrease = 0, newFoodPosition = None \<rparr>
             else case generateOptimalFoodPosition gs None rnd of
                    Inl e \<Rightarrow> Inl e
                  | Inr newPos \<Rightarrow>
                      Inr \<lparr> consumed = True, scoreIncrease = calculateScoreIncrease gs,
                            newFoodPosition = newPos \<rparr>)"

definition isValidFoodPosition :: "Position \<Rightarrow> GameState \<Rightarrow> bool" where
  "isValidFoodPosition p gs =
     (if \<not> isPositionValid p (gridSize gs) then False
      else if wouldCollideWithSnake p (snake gs) then False
      else True)"

section \<open>\<open>GameStateManager.moveSnake\<close>\<close>

text \<open>\<open>snake.forEach((segment, index) => segment.age = index)\<close>\<close>

definition updateAges :: "SnakeSegment list \<Rightarrow> SnakeSegment list" where
  "updateAges sn = map (\<lambda>(index, segment). segment\<lparr>age := int index\<rparr>) (enumerate 0 sn)"

text \<open>\<open>moveSnake\<close> mutates the state in place, so an exception leaves the state as it is at
  the throw: the error result carries that state. \<open>onFoodConsumed\<close> is the optional callback.
  It is handed the manager's own state object, outside any \<open>try\<close>: it may change that state
  before it answers, and it may throw. A callback is therefore a function from the state it
  is given to the exception it throws or the position it returns, each with the state as
  the callback leaves it. (A callback that keeps the reference for later, or that puts
  another array in place of the snake array, is not covered.) \<open>rnd\<close> is the random number
  drawn by the food model's default placement.\<close>

type_synonym FoodCallback = "GameState \<Rightarrow> error \<times> GameState + Position \<times> GameState"

definition moveSnake :: "FoodCallback option \<Rightarrow> real \<Rightarrow> GameState \<Rightarrow> error \<times> GameState + GameState" where
  "moveSnake onFoodConsumed rnd gs =
     (if gameStatus gs \<noteq> PLAYING then Inr gs
      else case snake gs of
             [] \<Rightarrow> Inl (TypeError, gs)
           | h # rest \<Rightarrow>
               let newHead = \<lparr> position = getNextPosition (position h) (direction h),
                               direction = direction h, age = 0 \<rparr>;
                   gs1 = gs\<lparr>snake := newHead # snake gs\<rparr>
               in case checkFoodConsumption gs1 rnd of
                    Inl e \<Rightarrow> Inl (e, gs1)
                  | Inr consumptionResult \<Rightarrow>
                      if consumed consumptionResult then
                        let gs' = gs1\<lparr>score := score gs1 + scoreIncrease consumptionResult\<rparr>
                        in case onFoodConsumed of
                             Some callback \<Rightarrow>
                               (case callback gs' of
                                  Inl thrown \<Rightarrow> Inl thrown
                                | Inr (p, g) \<Rightarrow> Inr (g\<lparr>food := p, snake := updateAges (snake g)\<rparr>))
                           | None \<Rightarrow>
                               (case newFoodPosition consumptionResult of
                                  Some p \<Rightarrow> Inr (gs'\<lparr>food := p, snake := updateAges (snake gs')\<rparr>)
                                | None \<Rightarrow> Inr (gs'\<lparr>snake := updateAges (snake gs')\<rparr>))
                      else Inr (gs1\<lparr>snake := updateAges (butlast (snake gs1))\<rparr>))"

section \<open>Example states\<close>

definition exampleSnake :: "SnakeSegment list" where
  "exampleSnake =
     [\<lparr> position = \<lparr> px = 10, py = 10 \<rparr>, direction = RIGHT, age = 0 \<rparr>,
      \<lparr> position = \<lparr> px = 9, py = 10 \<rparr>, direction = RIGHT, age = 1 \<rparr>,
      \<lparr> position = \<lparr> px = 8, py = 10 \<rparr>, direction = RIGHT, age = 2 \<rparr>]"

definition exampleState :: "GameStatus \<Rightarrow> real \<Rightarrow> GameState" where
  "exampleState st v =
     \<lparr> snake = exampleSnake, food = \<lparr> px = 11, py = 10 \<rparr>, score = 0, gameStatus = st,
       speed = v, gridSize = \<lparr> width = 20, height = 20 \<rparr>, gameTime = 0 \<rparr>"

text \<open>The example state with the head turned to face \<open>d\<close>.\<close>

definition headingState :: "Direction \<Rightarrow> GameStatus \<Rightarrow> GameState" where
  "headingState d st =
     (exampleState st 1)\<lparr>snake := (hd exampleSnake)\<lparr>direction := d\<rparr> # tl exampleSnake\<rparr>"

definition exampleAfterMove :: "int \<Rightarrow> real \<Rightarrow> Position \<Rightarrow> GameState" where
  "exampleAfterMove sc v f =
     \<lparr> snake = [\<lparr> position = \<lparr> px = 11, py = 10 \<rparr>, direction = RIGHT, age = 0 \<rparr>,
                \<lparr> position = \<lparr> px = 10, py = 10 \<rparr>, direction = RIGHT, age = 1 \<rparr>,
                \<lparr> position = \<lparr> px = 9, py = 10 \<rparr>, direction = RIGHT, age = 2 \<rparr>,
                \<lparr> position = \<lparr> px = 8, py = 10 \<rparr>, direction = RIGHT, age = 3 \<rparr>],
       food = f, score = sc, gameStatus = PLAYING,
       speed = v, gridSize = \<lparr> width = 20, height = 20 \<rparr>, gameTime = 0 \<rparr>"

text \<open>The degenerate board of the specification: a 2 x 2 grid filled by a snake of four
  segments; and the 3 x 3 board of the unit test, with four free cells.\<close>

definition fullGridState :: GameState where
  "fullGridState =
     \<lparr> snake = [\<lparr> position = \<lparr> px = 0, py = 0 \<rparr>, direction = LEFT, age = 0 \<rparr>,
                \<lparr> position = \<lparr> px = 1, py = 0 \<rparr>, direction = LEFT, age = 1 \<rparr>,
                \<lparr> position = \<lparr> px = 1, py = 1 \<rparr>, direction = UP, age = 2 \<rparr>,
                \<lparr> position = \<lparr> px = 0, py = 1 \<rparr>, direction = RIGHT, age = 3 \<rparr>],
       food = \<lparr> px = 0, py = 0 \<rparr>, score = 0, gameStatus = PLAYING,
       speed = 1, gridSize = \<lparr> width = 2, height = 2 \<rparr>, gameTime = 0 \<rparr>"

definition smallGridState :: GameState where
  "smallGridState =
     \<lparr> snake = [\<lparr> position = \<lparr> px = 0, py = 0 \<rparr>, direction = RIGHT, age = 0 \<rparr>,
                \<lparr> position = \<lparr> px = 1, py = 0 \<rparr>, direction = RIGHT, age = 1 \<rparr>,
                \<lparr> position = \<lparr> px = 2, py = 0 \<rparr>, direction = RIGHT, age = 2 \<rparr>,
                \<lparr> position = \<lparr> px = 0, py = 1 \<rparr>, direction = RIGHT, age = 3 \<rparr>,
                \<lparr> position = \<lparr> px = 1, py = 1 \<rparr>, direction = RIGHT, age = 4 \<rparr>],
       food = \<lparr> px = 2, py = 2 \<rparr>, score = 0, gameStatus = PLAYING,
       speed = 1, gridSize = \<lparr> width = 3, height = 3 \<rparr>, gameTime = 0 \<rparr>"

section \<open>Player profiler (ai/PlayerProfiler.ts)\<close>

text \<open>
  Field names that occur in two interfaces of the source are told apart here: the direction
  of a \<open>PlayerInput\<close> is \<open>inputDirection\<close>, the \<open>inputLatency\<close> array of the behaviour metrics
  is \<open>inputLatencies\<close>. The value of each \<open>performance.now()\<close> call is a parameter \<open>now\<close>.
\<close>

record PlayerInput =
  inputDirection :: Direction
  timestamp :: real
  inputLatency :: real

record PlayerBehaviorMetrics =
  inputLatencies :: "real list"
  movementPatterns :: "Direction list"
  collisionNearMisses :: int
  foodCollectionEfficiency :: real
  sessionDuration :: real

record CollisionRecord =
  collisionTimestamp :: real
  collisionType :: string
  collisionPosition :: Position

record FoodCollectionRecord =
  collectionTimestamp :: real
  efficiency :: real

record DecisionPoint =
  decisionPointTimestamp :: real
  options :: nat
  choice :: Direction

record PlayerProfiler =
  reactionTimes :: "real list"
  errorFrequency :: real
  riskTolerance :: real
  skillProgression :: real
  sessionStartTime :: real
  behaviorMetrics :: PlayerBehaviorMetrics
  movementHistory :: "Direction list"
  collisionHistory :: "CollisionRecord list"
  foodCollectionHistory :: "FoodCollectionRecord list"
  decisionPoints :: "DecisionPoint list"

definition MAX_HISTORY_SIZE :: nat where "MAX_HISTORY_SIZE = 100"
definition REACTION_TIME_WINDOW :: nat where "REACTION_TIME_WINDOW = 50"
definition RISK_ANALYSIS_WINDOW :: nat where "RISK_ANALYSIS_WINDOW = 20"

text \<open>\<open>xs.slice(-n)\<close>: the last \<open>n\<close> elements; \<open>xs.shift()\<close> drops the first one.\<close>

definition sliceLast :: "nat \<Rightarrow> 'a list \<Rightarrow> 'a list" where
  "sliceLast n xs = drop (length xs - n) xs"

definition newPlayerProfiler :: "real \<Rightarrow> PlayerProfiler" where
  "newPlayerProfiler now =
     \<lparr> reactionTimes = [], errorFrequency = 0, riskTolerance = 0.5, skillProgression = 0,
       sessionStartTime = now,
       behaviorMetrics = \<lparr> inputLatencies = [], movementPatterns = [], collisionNearMisses = 0,
                            foodCollectionEfficiency = 0, sessionDuration = 0 \<rparr>,
       movementHistory = [], collisionHistory = [], foodCollectionHistory = [],
       decisionPoints = [] \<rparr>"

definition averageReactionTime :: "PlayerProfiler \<Rightarrow> real" where
  "averageReactionTime p =
     (if length (reactionTimes p) = 0 then 0
      else sum_list (reactionTimes p) / real (length (reactionTimes p)))"

text \<open>\<open>calculateStressLevel\<close>: the two local counters are threaded through the four blocks.\<close>

definition calculateStressLevel :: "PlayerProfiler \<Rightarrow> real" where
  "calculateStressLevel p =
     (let (stressFactors1, factorCount1) =
            (if length (reactionTimes p) \<ge> 5 then
               (let recentAvg = sum_list (sliceLast 5 (reactionTimes p)) / 5;
                    overallAvg = averageReactionTime p
                in ((if recentAvg < overallAvg * 0.8 then 0.3 else 0), 1))
             else (0, 0 :: nat));
          recentInputs = sliceLast 10 (inputLatencies (behaviorMetrics p));
          (stressFactors2, factorCount2) =
            (if length recentInputs \<ge> 5 then
               (let avgInterval = sum_list recentInputs / real (length recentInputs)
                in (stressFactors1 + (if avgInterval < 150 then 0.4 else 0), factorCount1 + 1))
             else (stressFactors1, factorCount1));
          stressFactors3 = stressFactors2 + errorFrequency p * 0.5;
          factorCount3 = factorCount2 + 1;
          recentNearMisses = collisionNearMisses (behaviorMetrics p);
          stressFactors4 = stressFactors3 + (if recentNearMisses > 3 then 0.3 else 0);
          factorCount4 = factorCount3 + 1
      in if factorCount4 > 0 then min 1 (stressFactors4 / real factorCount4) else 0)"

definition profilerIsValidPosition :: "Position \<Rightarrow> GameState \<Rightarrow> bool" where
  "profilerIsValidPosition p gs =
     (if px p < 0 \<or> px p \<ge> width (gridSize gs) \<or> py p < 0 \<or> py p \<ge> height (gridSize gs)
      then False
      else \<not> list_ex (\<lambda>s. px (position s) = px p \<and> py (position s) = py p) (snake gs))"

text \<open>\<open>getAvailableMoves\<close> reads \<open>head.position\<close>: a TypeError on an empty snake.\<close>

definition getAvailableMoves :: "GameState \<Rightarrow> error + Direction list" where
  "getAvailableMoves gs =
     (case snake gs of
        [] \<Rightarrow> Inl TypeError
      | h # rest \<Rightarrow>
          Inr (filter (\<lambda>d. profilerIsValidPosition (getNextPosition (position h) d) gs)
                 [UP, DOWN, LEFT, RIGHT]))"

definition getDistanceToWall :: "Position \<Rightarrow> GridSize \<Rightarrow> int" where
  "getDistanceToWall p g =
     min (min (px p) (py p)) (min (width g - 1 - px p) (height g - 1 - py p))"

text \<open>\<open>getDistanceToSnakeBody\<close>: the minimum over the body, 10 when there is no body.\<close>

definition getDistanceToSnakeBody :: "Position \<Rightarrow> SnakeSegment list \<Rightarrow> int" where
  "getDistanceToSnakeBody p sn =
     (case map (\<lambda>s. \<bar>px p - px (position s)\<bar> + \<bar>py p - py (position s)\<bar>) (tl sn) of
        [] \<Rightarrow> 10
      | d # ds \<Rightarrow> fold min ds d)"

definition countEscapeRoutes :: "Position \<Rightarrow> GameState \<Rightarrow> nat" where
  "countEscapeRoutes p gs =
     length (filter (\<lambda>d. profilerIsValidPosition (getNextPosition p d) gs) [UP, DOWN, LEFT, RIGHT])"

definition calculateDirectionRisk :: "Direction \<Rightarrow> GameState \<Rightarrow> error + real" where
  "calculateDirectionRisk d gs =
     (case snake gs of
        [] \<Rightarrow> Inl TypeError
      | h # rest \<Rightarrow>
          let nextPosition = getNextPosition (position h) d;
              distanceToWall = getDistanceToWall nextPosition (gridSize gs);
              risk1 = (if distanceToWall \<le> 1 then 0.4 else if distanceToWall \<le> 2 then 0.2 else 0 :: real);
              distanceToSelf = getDistanceToSnakeBody nextPosition (snake gs);
              risk2 = risk1 + (if distanceToSelf \<le> 1 then 0.5 else if distanceToSelf \<le> 2 then 0.3 else 0);
              escapeRoutes = countEscapeRoutes nextPosition gs;
              risk3 = risk2 + (if escapeRoutes \<le> 1 then 0.3 else if escapeRoutes \<le> 2 then 0.1 else 0)
          in Inr (min 1 risk3))"

definition updateRiskTolerance :: "real \<Rightarrow> nat \<Rightarrow> PlayerProfiler \<Rightarrow> PlayerProfiler" where
  "updateRiskTolerance chosenRisk availableOptions p =
     (let riskWeight = 0.1;
          adjustment = (chosenRisk - 0.5) * riskWeight
      in p\<lparr>riskTolerance := max 0 (min 1 (riskTolerance p + adjustment))\<rparr>)"

text \<open>The mutators of the profiler work in place; an exception leaves the profiler as it
  is at the throw, and the error result carries that state.\<close>

definition analyzeDecisionRisk :: "PlayerInput \<Rightarrow> GameState \<Rightarrow> real \<Rightarrow> PlayerProfiler \<Rightarrow> error \<times> PlayerProfiler + PlayerProfiler" where
  "analyzeDecisionRisk playerInput gs now p =
     (case getAvailableMoves gs of
        Inl e \<Rightarrow> Inl (e, p)
      | Inr availableMoves \<Rightarrow>
          let pushed = decisionPoints p @ [\<lparr> decisionPointTimestamp = now,
                                             options = length availableMoves,
                                             choice = inputDirection playerInput \<rparr>];
              p1 = p\<lparr>decisionPoints :=
                       (if length pushed > RISK_ANALYSIS_WINDOW then tl pushed else pushed)\<rparr>
          in case calculateDirectionRisk (inputDirection playerInput) gs of
               Inl e \<Rightarrow> Inl (e, p1)
             | Inr riskLevel \<Rightarrow> Inr (updateRiskTolerance riskLevel (length availableMoves) p1))"

definition updateSkillProgression :: "GameState \<Rightarrow> PlayerProfiler \<Rightarrow> PlayerProfiler" where
  "updateSkillProgression gs p =
     (let factor_score = real_of_int (score gs) / 1000;
          factor_snakeLength = real (length (snake gs)) / 20;
          factor_gameTime = min 1 (gameTime gs / 300000);
          factor_efficiency = foodCollectionEfficiency (behaviorMetrics p);
          factor_consistency = 1 - errorFrequency p
      in p\<lparr>skillProgression :=
             factor_score * 0.3 + factor_snakeLength * 0.25 + factor_gameTime * 0.15
             + factor_efficiency * 0.2 + factor_consistency * 0.1\<rparr>)"

definition recordInput :: "PlayerInput \<Rightarrow> GameState \<Rightarrow> real \<Rightarrow> PlayerProfiler \<Rightarrow> error \<times> PlayerProfiler + PlayerProfiler" where
  "recordInput playerInput gs now p =
     (let rt = reactionTimes p @ [inputLatency playerInput];
          il = inputLatencies (behaviorMetrics p) @ [inputLatency playerInput];
          (rt', il') = (if length rt > REACTION_TIME_WINDOW then (tl rt, tl il) else (rt, il));
          mh = movementHistory p @ [inputDirection playerInput];
          mp = movementPatterns (behaviorMetrics p) @ [inputDirection playerInput];
          (mh', mp') = (if length mh > MAX_HISTORY_SIZE then (tl mh, tl mp) else (mh, mp));
          p1 = p\<lparr>reactionTimes := rt', movementHistory := mh',
                 behaviorMetrics := (behaviorMetrics p)\<lparr>inputLatencies := il', movementPatterns := mp'\<rparr>\<rparr>
      in case analyzeDecisionRisk playerInput gs now p1 of
           Inl e \<Rightarrow> Inl e
         | Inr p2 \<Rightarrow> Inr (updateSkillProgression gs p2))"

text \<open>\<open>calculateErrorFrequency\<close> reads the clock itself (\<open>currentTime\<close>).\<close>

definition calculateErrorFrequency :: "real \<Rightarrow> PlayerProfiler \<Rightarrow> real" where
  "calculateErrorFrequency currentTime p =
     (let recentCollisions = sliceLast 10 (collisionHistory p);
          timeWindow = 30000;
          recentErrors = filter (\<lambda>c. currentTime - collisionTimestamp c < timeWindow) recentCollisions
      in min 1 (real (length recentErrors) / 5))"

definition recordCollision :: "string \<Rightarrow> Position \<Rightarrow> real \<Rightarrow> real \<Rightarrow> PlayerProfiler \<Rightarrow> PlayerProfiler" where
  "recordCollision ctype cpos now currentTime p =
     (let p1 = p\<lparr>collisionHistory := collisionHistory p @
                    [\<lparr> collisionTimestamp = now, collisionType = ctype, collisionPosition = cpos \<rparr>]\<rparr>;
          p2 = p1\<lparr>errorFrequency := calculateErrorFrequency currentTime p1\<rparr>
      in if ctype = ''near_miss''
         then p2\<lparr>behaviorMetrics := (behaviorMetrics p2)\<lparr>collisionNearMisses :=
                    collisionNearMisses (behaviorMetrics p2) + 1\<rparr>\<rparr>
         else p2)"

text \<open>\<open>calculateFoodCollectionEfficiency\<close> divides by \<open>optimalMoves\<close>, which is 0 when the head
  is on the food. In JavaScript the quotient is then \<open>Infinity\<close>, \<open>-Infinity\<close> or \<open>NaN\<close>, and the
  clamps turn these into 0, 1 and \<open>NaN\<close>; the model writes these three results out.\<close>

definition calculateFoodCollectionEfficiency :: "GameState \<Rightarrow> real \<Rightarrow> error + real" where
  "calculateFoodCollectionEfficiency gs timeTaken =
     (case snake gs of
        [] \<Rightarrow> Inl TypeError
      | h # rest \<Rightarrow>
          let optimalMoves = real_of_int (\<bar>px (position h) - px (food gs)\<bar> + \<bar>py (position h) - py (food gs)\<bar>);
              actualTime = timeTaken / 1000
          in if optimalMoves = 0
             then (if actualTime > 0 then Inr 0 else if actualTime < 0 then Inr 1 else Inl NotANumber)
             else let timeEfficiency = max 0 (1 - (actualTime - optimalMoves) / optimalMoves)
                  in Inr (min 1 timeEfficiency))"

definition calculateAverageEfficiency :: "PlayerProfiler \<Rightarrow> real" where
  "calculateAverageEfficiency p =
     (if length (foodCollectionHistory p) = 0 then 0
      else let recentHistory = sliceLast 10 (foodCollectionHistory p)
           in sum_list (map efficiency recentHistory) / real (length recentHistory))"

definition recordFoodCollection :: "GameState \<Rightarrow> real \<Rightarrow> real \<Rightarrow> PlayerProfiler \<Rightarrow> error \<times> PlayerProfiler + PlayerProfiler" where
  "recordFoodCollection gs timeTaken now p =
     (case calculateFoodCollectionEfficiency gs timeTaken of
        Inl e \<Rightarrow> Inl (e, p)
      | Inr eff \<Rightarrow>
          let p1 = p\<lparr>foodCollectionHistory := foodCollectionHistory p @
                        [\<lparr> collectionTimestamp = now, efficiency = eff \<rparr>]\<rparr>
          in Inr (p1\<lparr>behaviorMetrics := (behaviorMetrics p1)\<lparr>foodCollectionEfficiency :=
                        calculateAverageEfficiency p1\<rparr>\<rparr>))"

definition resetProfiler :: "real \<Rightarrow> PlayerProfiler \<Rightarrow> PlayerProfiler" where
  "resetProfiler now p = newPlayerProfiler now"

definition getBehaviorMetrics :: "real \<Rightarrow> PlayerProfiler \<Rightarrow> PlayerBehaviorMetrics \<times> PlayerProfiler" where
  "getBehaviorMetrics now p =
     (let p1 = p\<lparr>behaviorMetrics := (behaviorMetrics p)\<lparr>sessionDuration := now - sessionStartTime p\<rparr>\<rparr>
      in (behaviorMetrics p1, p1))"

text \<open>Profiler states reachable through its public methods. The state left behind by a
  method that throws is reachable as well.\<close>

inductive profilerReachable :: "PlayerProfiler \<Rightarrow> bool" where
  constructed: "profilerReachable (newPlayerProfiler now)"
| input: "profilerReachable p \<Longrightarrow> recordInput playerInput gs now p = Inr p' \<Longrightarrow> profilerReachable p'"
| input_thrown: "profilerReachable p \<Longrightarrow> recordInput playerInput gs now p = Inl (e, p')
                 \<Longrightarrow> profilerReachable p'"
| collision: "profilerReachable p \<Longrightarrow> profilerReachable (recordCollision ctype cpos now currentTime p)"
| food_collection: "profilerReachable p \<Longrightarrow> recordFoodCollection gs timeTaken now p = Inr p'
                 \<Longrightarrow> profilerReachable p'"
| metrics_read: "profilerReachable p \<Longrightarrow> profilerReachable (snd (getBehaviorMetrics now p))"
| reset: "profilerReachable p \<Longrightarrow> profilerReachable (resetProfiler now p)"

text \<open>What the public methods keep true of the profiler.\<close>

definition profilerInvariant :: "PlayerProfiler \<Rightarrow> bool" where
  "profilerInvariant p =
     (0 \<le> errorFrequency p \<and> errorFrequency p \<le> 1
      \<and> inputLatencies (behaviorMetrics p) = reactionTimes p
      \<and> 0 \<le> collisionNearMisses (behaviorMetrics p)
      \<and> (collisionHistory p = [] \<longrightarrow>
            errorFrequency p = 0 \<and> collisionNearMisses (behaviorMetrics p) = 0))"

definition exampleInput :: PlayerInput where
  "exampleInput = \<lparr> inputDirection = UP, timestamp = 1100, inputLatency = 150 \<rparr>"

section \<open>AI game director (ai/AIGameDirector.ts)\<close>

text \<open>
  The director keeps a reference to the profiler; here the profiler is passed to each
  function and handed back when the function changes it. \<open>toFixed2\<close> stands for the built-in
  \<open>Number.prototype.toFixed(2)\<close> and is a parameter. The clock reads of one call are taken to
  return one value, \<open>now\<close>. The \<open>type\<close> and \<open>timestamp\<close> of a decision
  are called \<open>decisionType\<close> and \<open>decisionTimestamp\<close>.
\<close>

datatype Verbosity = minimal | detailed | verbose

record AIConfiguration =
  adaptationSensitivity :: real
  maxSpeedIncrease :: real
  minSpeedDecrease :: real
  recoveryThreshold :: real
  masteryThreshold :: real
  explanationVerbosity :: Verbosity

datatype DecisionType = SPEED_ADJUSTMENT | FOOD_PLACEMENT | RECOVERY_TRIGGER

record PlayerMetrics =
  reactionTime :: real
  stressLevel :: real
  skillLevel :: real

record GameContext =
  contextScore :: int
  contextSnakeLength :: int
  contextGameTime :: real

record AIDecision =
  decisionTimestamp :: real
  decisionType :: DecisionType
  reasoning :: string
  playerMetrics :: PlayerMetrics
  gameContext :: GameContext

record AIGameDirector =
  decisionHistory :: "AIDecision list"
  configuration :: AIConfiguration
  lastAnalysisTime :: real
  currentDifficultyLevel :: real
  recoveryModeActive :: bool
  lastSpeedAdjustment :: real
  consecutiveGoodPerformance :: int
  consecutivePoorPerformance :: int

definition ANALYSIS_INTERVAL :: real where "ANALYSIS_INTERVAL = 1000"
definition MAX_DECISION_HISTORY :: nat where "MAX_DECISION_HISTORY = 100"

definition defaultConfiguration :: AIConfiguration where
  "defaultConfiguration =
     \<lparr> adaptationSensitivity = 0.7, maxSpeedIncrease = 3.0, minSpeedDecrease = 0.3,
       recoveryThreshold = 0.6, masteryThreshold = 0.7, explanationVerbosity = detailed \<rparr>"

definition newAIGameDirector :: "AIConfiguration \<Rightarrow> AIGameDirector" where
  "newAIGameDirector config =
     \<lparr> decisionHistory = [], configuration = config, lastAnalysisTime = 0,
       currentDifficultyLevel = 1.0, recoveryModeActive = False, lastSpeedAdjustment = 0,
       consecutiveGoodPerformance = 0, consecutivePoorPerformance = 0 \<rparr>"

text \<open>\<open>String.prototype.toLowerCase\<close> on the ASCII letters, and \<open>String.prototype.includes\<close>
  (here \<open>stringIncludes\<close>).\<close>

definition toLowerCase :: "string \<Rightarrow> string" where
  "toLowerCase s =
     map (\<lambda>c. let n = (of_char c :: nat) in if 65 \<le> n \<and> n \<le> 90 then char_of (n + 32) else c) s"

fun startsWith :: "string \<Rightarrow> string \<Rightarrow> bool" where
  "startsWith s [] = True"
| "startsWith [] (c # cs) = False"
| "startsWith (d # ds) (c # cs) = (d = c \<and> startsWith ds cs)"

fun stringIncludes :: "string \<Rightarrow> string \<Rightarrow> bool" where
  "stringIncludes [] t = (t = [])"
| "stringIncludes (c # cs) t = (startsWith (c # cs) t \<or> stringIncludes cs t)"

definition categorizeDecision :: "string \<Rightarrow> DecisionType" where
  "categorizeDecision decision =
     (if stringIncludes (toLowerCase decision) ''speed'' then SPEED_ADJUSTMENT
      else if stringIncludes (toLowerCase decision) ''food'' \<or> stringIncludes (toLowerCase decision) ''placement''
           then FOOD_PLACEMENT
      else if stringIncludes (toLowerCase decision) ''recovery'' then RECOVERY_TRIGGER
      else SPEED_ADJUSTMENT)"

text \<open>\<open>logDecision\<close>: the console output is not modelled.\<close>

definition logDecision :: "string \<Rightarrow> string \<Rightarrow> real \<Rightarrow> PlayerProfiler \<Rightarrow> AIGameDirector \<Rightarrow> AIGameDirector" where
  "logDecision decision reason now profiler d =
     (let aiDecision = \<lparr> decisionTimestamp = now,
                          decisionType = categorizeDecision decision,
                          reasoning = reason,
                          playerMetrics = \<lparr> reactionTime = averageReactionTime profiler,
                                            stressLevel = calculateStressLevel profiler,
                                            skillLevel = skillProgression profiler \<rparr>,
                          gameContext = \<lparr> contextScore = 0, contextSnakeLength = 0,
                                          contextGameTime = 0 \<rparr> \<rparr>;
          pushed = decisionHistory d @ [aiDecision]
      in d\<lparr>decisionHistory :=
             (if length pushed > MAX_DECISION_HISTORY then tl pushed else pushed)\<rparr>)"

datatype Trend = improving | stable | declining

text \<open>The fields of the analysis payload that the decision functions read:
  \<open>analysis.profile.stressLevel\<close>, \<open>analysis.performance.overall\<close>, \<open>analysis.risk\<close> and
  \<open>analysis.trend\<close>.\<close>

record Analysis =
  profileStressLevel :: real
  performanceOverall :: real
  risk :: real
  trend :: Trend

definition assessPerformance :: "GameState \<Rightarrow> PlayerProfiler \<Rightarrow> real" where
  "assessPerformance gs profiler =
     (let scorePerMinute = (if gameTime gs > 0 then real_of_int (score gs) / (gameTime gs / 60000) else 0);
          efficiencyScore = skillProgression profiler;
          consistencyScore = 1 - errorFrequency profiler
      in (scorePerMinute * 0.4 + efficiencyScore * 0.4 + consistencyScore * 0.2) / 100)"

definition assessRiskLevel :: "GameState \<Rightarrow> PlayerProfiler \<Rightarrow> error + real" where
  "assessRiskLevel gs profiler =
     (case assessDangerLevel gs of
        Inl e \<Rightarrow> Inl e
      | Inr dangerLevel \<Rightarrow>
          Inr (min 1 (dangerLevel * 0.5 + calculateStressLevel profiler * 0.3
                        + errorFrequency profiler * 0.2)))"

text \<open>\<open>xs.slice(-6, -3)\<close>: the three elements before the last three.\<close>

definition assessPerformanceTrend :: "AIGameDirector \<Rightarrow> Trend" where
  "assessPerformanceTrend d =
     (let recentDecisions = sliceLast 10 (decisionHistory d)
      in if length recentDecisions < 3 then stable
         else let recentPerformance = map (\<lambda>x. skillLevel (playerMetrics x)) (sliceLast 3 recentDecisions);
                  olderPerformance = map (\<lambda>x. skillLevel (playerMetrics x))
                                       (take (length (sliceLast 6 recentDecisions) - 3) (sliceLast 6 recentDecisions))
              in if length olderPerformance = 0 then stable
                 else let recentAvg = sum_list recentPerformance / real (length recentPerformance);
                          olderAvg = sum_list olderPerformance / real (length olderPerformance);
                          improvement = (recentAvg - olderAvg) / max 0.1 olderAvg
                      in if improvement > 0.1 then improving
                         else if improvement < - 0.1 then declining
                         else stable)"

text \<open>\<open>performBehaviorAnalysis\<close>: \<open>getAnalysisReport\<close> runs first (it stores the session
  duration in the profiler), then the game statistics, whose danger assessment throws on an
  empty snake, then performance, risk and trend.\<close>

definition performBehaviorAnalysis :: "GameState \<Rightarrow> real \<Rightarrow> PlayerProfiler \<Rightarrow> AIGameDirector \<Rightarrow> error \<times> PlayerProfiler + Analysis \<times> PlayerProfiler" where
  "performBehaviorAnalysis gs now profiler d =
     (let reportStress = calculateStressLevel profiler;
          profiler1 = snd (getBehaviorMetrics now profiler)
      in case assessDangerLevel gs of
           Inl e \<Rightarrow> Inl (e, profiler1)
         | Inr dangerLevel \<Rightarrow>
             (case assessRiskLevel gs profiler1 of
                Inl e \<Rightarrow> Inl (e, profiler1)
              | Inr r \<Rightarrow>
                  Inr (\<lparr> profileStressLevel = reportStress,
                          performanceOverall = assessPerformance gs profiler1,
                          risk = r,
                          trend = assessPerformanceTrend d \<rparr>, profiler1)))"

definition evaluateRecoveryMode :: "(real \<Rightarrow> string) \<Rightarrow> Analysis \<Rightarrow> real \<Rightarrow> PlayerProfiler \<Rightarrow> AIGameDirector \<Rightarrow> AIGameDirector" where
  "evaluateRecoveryMode toFixed2 analysis now profiler d =
     (let shouldActivateRecovery =
            (risk analysis > recoveryThreshold (configuration d)
             \<or> profileStressLevel analysis > 0.7
             \<or> consecutivePoorPerformance d \<ge> 3)
      in if shouldActivateRecovery \<and> \<not> recoveryModeActive d then
           logDecision ''Recovery mode activated''
             (''High risk ('' @ toFixed2 (risk analysis) @ '') or stress (''
                @ toFixed2 (profileStressLevel analysis) @ '') detected'')
             now profiler (d\<lparr>recoveryModeActive := True\<rparr>)
         else if \<not> shouldActivateRecovery \<and> recoveryModeActive d then
           logDecision ''Recovery mode deactivated'' ''Player performance stabilized''
             now profiler (d\<lparr>recoveryModeActive := False\<rparr>)
         else d)"

definition evaluateSpeedAdjustment :: "(real \<Rightarrow> string) \<Rightarrow> GameState \<Rightarrow> Analysis \<Rightarrow> real \<Rightarrow> PlayerProfiler \<Rightarrow> AIGameDirector \<Rightarrow> AIGameDirector" where
  "evaluateSpeedAdjustment toFixed2 gs analysis now profiler d =
     (let currentSpeed = speed gs;
          (targetSpeed, reason) =
            (if performanceOverall analysis > masteryThreshold (configuration d)
                \<and> trend analysis = improving \<and> \<not> recoveryModeActive d
             then (min (maxSpeedIncrease (configuration d))
                       (currentSpeed + adaptationSensitivity (configuration d) * 0.2),
                   ''Performance mastery detected ('' @ toFixed2 (performanceOverall analysis)
                     @ '') - increasing challenge'')
             else if recoveryModeActive d \<or> performanceOverall analysis < 0.3
                     \<or> trend analysis = declining
             then (max (minSpeedDecrease (configuration d))
                       (currentSpeed - adaptationSensitivity (configuration d) * 0.15),
                   ''Performance issues detected - reducing speed for recovery'')
             else (currentSpeed, ''''))
      in if \<bar>targetSpeed - currentSpeed\<bar> > 0.1
         then logDecision (''Speed adjusted to '' @ toFixed2 targetSpeed) reason now profiler
                (d\<lparr>lastSpeedAdjustment := targetSpeed\<rparr>)
         else d)"

definition updateDifficultyLevel :: "(real \<Rightarrow> string) \<Rightarrow> Analysis \<Rightarrow> real \<Rightarrow> PlayerProfiler \<Rightarrow> AIGameDirector \<Rightarrow> AIGameDirector" where
  "updateDifficultyLevel toFixed2 analysis now profiler d =
     (let performanceScore = performanceOverall analysis;
          targetDifficulty =
            (if recoveryModeActive d then max 0.5 (currentDifficultyLevel d - 0.2)
             else min 2.0 (0.5 + performanceScore * 1.5))
      in if \<bar>targetDifficulty - currentDifficultyLevel d\<bar> > 0.1
         then logDecision (''Difficulty level adjusted to '' @ toFixed2 targetDifficulty)
                (''Based on performance score: '' @ toFixed2 performanceScore) now profiler
                (d\<lparr>currentDifficultyLevel := targetDifficulty\<rparr>)
         else d)"

definition updatePerformanceStreaks :: "Analysis \<Rightarrow> AIGameDirector \<Rightarrow> AIGameDirector" where
  "updatePerformanceStreaks analysis d =
     (let isGoodPerformance = (performanceOverall analysis > 0.6 \<and> risk analysis < 0.4);
          isPoorPerformance = (performanceOverall analysis < 0.3 \<or> risk analysis > 0.7)
      in if isGoodPerformance
         then d\<lparr>consecutiveGoodPerformance := consecutiveGoodPerformance d + 1,
                consecutivePoorPerformance := 0\<rparr>
         else if isPoorPerformance
         then d\<lparr>consecutivePoorPerformance := consecutivePoorPerformance d + 1,
                consecutiveGoodPerformance := 0\<rparr>
         else d\<lparr>consecutiveGoodPerformance := max 0 (consecutiveGoodPerformance d - 1),
                consecutivePoorPerformance := max 0 (consecutivePoorPerformance d - 1)\<rparr>)"

definition makeAdaptationDecisions :: "(real \<Rightarrow> string) \<Rightarrow> GameState \<Rightarrow> Analysis \<Rightarrow> real \<Rightarrow> PlayerProfiler \<Rightarrow> AIGameDirector \<Rightarrow> AIGameDirector" where
  "makeAdaptationDecisions toFixed2 gs analysis now profiler d =
     (let d1 = evaluateRecoveryMode toFixed2 analysis now profiler d;
          d2 = evaluateSpeedAdjustment toFixed2 gs analysis now profiler d1;
          d3 = updateDifficultyLevel toFixed2 analysis now profiler d2
      in updatePerformanceStreaks analysis d3)"

text \<open>\<open>analyzePlayerBehavior\<close>: nothing happens within \<open>ANALYSIS_INTERVAL\<close> of the last pass. A
  pass records the input, analyses and decides. An exception leaves profiler and director
  as they are at the throw.\<close>

definition analyzePlayerBehavior :: "(real \<Rightarrow> string) \<Rightarrow> GameState \<Rightarrow> PlayerInput \<Rightarrow> real \<Rightarrow> PlayerProfiler \<times> AIGameDirector \<Rightarrow> error \<times> PlayerProfiler \<times> AIGameDirector + PlayerProfiler \<times> AIGameDirector" where
  "analyzePlayerBehavior toFixed2 gs playerInput now st =
     (let profiler = fst st; d = snd st; currentTime = now
      in if currentTime - lastAnalysisTime d < ANALYSIS_INTERVAL then Inr st
         else case recordInput playerInput gs now profiler of
                Inl (e, profiler1) \<Rightarrow> Inl (e, profiler1, d)
              | Inr profiler1 \<Rightarrow>
                  (case performBehaviorAnalysis gs now profiler1 d of
                     Inl (e, profiler2) \<Rightarrow> Inl (e, profiler2, d)
                   | Inr (analysis, profiler2) \<Rightarrow>
                       Inr (profiler2,
                            (makeAdaptationDecisions toFixed2 gs analysis now profiler2 d)
                              \<lparr>lastAnalysisTime := currentTime\<rparr>)))"

text \<open>The specification's words for the decision log, to compare the code with: the log is
  append-only and bounded (an append past 100 entries evicts the oldest), and a change of
  recovery mode is logged as a recovery decision with its reason.\<close>

definition appendDecision :: "AIDecision \<Rightarrow> AIDecision list \<Rightarrow> AIDecision list" where
  "appendDecision dec hist = (if length (hist @ [dec]) > 100 then tl (hist @ [dec]) else hist @ [dec])"

definition expectedRecoveryDecision :: "bool \<Rightarrow> string \<Rightarrow> string \<Rightarrow> real \<Rightarrow> PlayerProfiler \<Rightarrow> AIDecision" where
  "expectedRecoveryDecision activated riskText stressText now profiler =
     \<lparr> decisionTimestamp = now,
       decisionType = RECOVERY_TRIGGER,
       reasoning = (if activated
                    then ''High risk ('' @ riskText @ '') or stress ('' @ stressText @ '') detected''
                    else ''Player performance stabilized''),
       playerMetrics = \<lparr> reactionTime = averageReactionTime profiler,
                         stressLevel = calculateStressLevel profiler,
                         skillLevel = skillProgression profiler \<rparr>,
       gameContext = \<lparr> contextScore = 0, contextSnakeLength = 0, contextGameTime = 0 \<rparr> \<rparr>"

text \<open>An example pass: a director whose poor streak has reached 3, a fresh profiler, the
  example state, one input at time 5000.\<close>

definition strugglingDirector :: AIGameDirector where
  "strugglingDirector = (newAIGameDirector defaultConfiguration)\<lparr>consecutivePoorPerformance := 3\<rparr>"

definition showNumber :: "real \<Rightarrow> string" where
  "showNumber v = ''#''"

definition examplePass :: "PlayerProfiler \<times> AIGameDirector" where
  "examplePass =
     (case analyzePlayerBehavior showNumber (exampleState PLAYING 1) exampleInput 5000
             (newPlayerProfiler 1000, strugglingDirector) of
        Inr st \<Rightarrow> st
      | Inl (e, st) \<Rightarrow> st)"

text \<open>The gate condition of \<open>evaluateRecoveryMode\<close>, on the analysis payload.\<close>

definition shouldRecover :: "Analysis \<Rightarrow> AIGameDirector \<Rightarrow> bool" where
  "shouldRecover a d = (risk a > recoveryThreshold (configuration d) \<or> profileStressLevel a > 0.7
                        \<or> consecutivePoorPerformance d \<ge> 3)"

section \<open>Object references: \<open>GameStateManager.getGameState\<close>\<close>

text \<open>
  \<open>getGameState\<close> returns \<open>{ ...this.gameState }\<close>: a new object whose fields hold the same
  values as the manager's state object, and a field that holds an object or an array holds
  the same reference. To see what a caller can reach through the snapshot, the objects are
  placed in a store: one table per kind of object, addresses allocated in order. A game
  state object holds numbers and the status directly, and references to its snake array,
  its food position and its grid size; the array holds references to segment objects, each
  with a reference to its position object.
\<close>

type_synonym addr = nat

record SegmentObject =
  segPosition :: addr
  segDirection :: Direction
  segAge :: int

record GameStateObject =
  snakeRef :: addr
  foodRef :: addr
  scoreField :: int
  gameStatusField :: GameStatus
  speedField :: real
  gridSizeRef :: addr
  gameTimeField :: real

record Store =
  positionObjects :: "addr \<Rightarrow> Position option"
  gridSizeObjects :: "addr \<Rightarrow> GridSize option"
  segmentObjects :: "addr \<Rightarrow> SegmentObject option"
  arrayObjects :: "addr \<Rightarrow> addr list option"
  gameStateObjects :: "addr \<Rightarrow> GameStateObject option"
  nextFree :: addr

definition emptyStore :: Store where
  "emptyStore =
     \<lparr> positionObjects = (\<lambda>a. None), gridSizeObjects = (\<lambda>a. None), segmentObjects = (\<lambda>a. None),
       arrayObjects = (\<lambda>a. None), gameStateObjects = (\<lambda>a. None), nextFree = 0 \<rparr>"

text \<open>Object and array literals allocate.\<close>

definition allocPosition :: "Position \<Rightarrow> Store \<Rightarrow> addr \<times> Store" where
  "allocPosition p st =
     (nextFree st, st\<lparr>positionObjects := (positionObjects st)(nextFree st \<mapsto> p),
                      nextFree := nextFree st + 1\<rparr>)"

definition allocGridSize :: "GridSize \<Rightarrow> Store \<Rightarrow> addr \<times> Store" where
  "allocGridSize g st =
     (nextFree st, st\<lparr>gridSizeObjects := (gridSizeObjects st)(nextFree st \<mapsto> g),
                      nextFree := nextFree st + 1\<rparr>)"

definition allocSegment :: "SnakeSegment \<Rightarrow> Store \<Rightarrow> addr \<times> Store" where
  "allocSegment seg st =
     (let (pa, st1) = allocPosition (position seg) st
      in (nextFree st1,
          st1\<lparr>segmentObjects := (segmentObjects st1)(nextFree st1 \<mapsto>
                  \<lparr> segPosition = pa, segDirection = direction seg, segAge = age seg \<rparr>),
              nextFree := nextFree st1 + 1\<rparr>))"

fun allocSegments :: "SnakeSegment list \<Rightarrow> Store \<Rightarrow> addr list \<times> Store" where
  "allocSegments [] st = ([], st)"
| "allocSegments (seg # segs) st =
     (let (a, st1) = allocSegment seg st;
          (as, st2) = allocSegments segs st1
      in (a # as, st2))"

definition allocArray :: "addr list \<Rightarrow> Store \<Rightarrow> addr \<times> Store" where
  "allocArray refs st =
     (nextFree st, st\<lparr>arrayObjects := (arrayObjects st)(nextFree st \<mapsto> refs),
                      nextFree := nextFree st + 1\<rparr>)"

text \<open>The object graph that \<open>createInitialState\<close> builds for a state value.\<close>

definition storeGameState :: "GameState \<Rightarrow> Store \<Rightarrow> addr \<times> Store" where
  "storeGameState gs st =
     (let (refs, st1) = allocSegments (snake gs) st;
          (sa, st2) = allocArray refs st1;
          (fa, st3) = allocPosition (food gs) st2;
          (ga, st4) = allocGridSize (gridSize gs) st3
      in (nextFree st4,
          st4\<lparr>gameStateObjects := (gameStateObjects st4)(nextFree st4 \<mapsto>
                  \<lparr> snakeRef = sa, foodRef = fa, scoreField = score gs,
                    gameStatusField = gameStatus gs, speedField = speed gs,
                    gridSizeRef = ga, gameTimeField = gameTime gs \<rparr>),
              nextFree := nextFree st4 + 1\<rparr>))"

text \<open>The state value that an address stands for: every reference followed.\<close>

definition readSegment :: "Store \<Rightarrow> addr \<Rightarrow> SnakeSegment option" where
  "readSegment st a =
     (case segmentObjects st a of
        None \<Rightarrow> None
      | Some so \<Rightarrow>
          (case positionObjects st (segPosition so) of
             None \<Rightarrow> None
           | Some p \<Rightarrow> Some \<lparr> position = p, direction = segDirection so, age = segAge so \<rparr>))"

fun readSegments :: "Store \<Rightarrow> addr list \<Rightarrow> SnakeSegment list option" where
  "readSegments st [] = Some []"
| "readSegments st (a # as) =
     (case readSegment st a of
        None \<Rightarrow> None
      | Some seg \<Rightarrow> (case readSegments st as of None \<Rightarrow> None | Some segs \<Rightarrow> Some (seg # segs)))"

definition readGameState :: "addr \<Rightarrow> Store \<Rightarrow> GameState option" where
  "readGameState a st =
     (case gameStateObjects st a of
        None \<Rightarrow> None
      | Some obj \<Rightarrow>
          (case arrayObjects st (snakeRef obj) of
             None \<Rightarrow> None
           | Some refs \<Rightarrow>
               (case readSegments st refs of
                  None \<Rightarrow> None
                | Some sn \<Rightarrow>
                    (case positionObjects st (foodRef obj) of
                       None \<Rightarrow> None
                     | Some f \<Rightarrow>
                         (case gridSizeObjects st (gridSizeRef obj) of
                            None \<Rightarrow> None
                          | Some g \<Rightarrow>
                              Some \<lparr> snake = sn, food = f, score = scoreField obj,
                                     gameStatus = gameStatusField obj, speed = speedField obj,
                                     gridSize = g, gameTime = gameTimeField obj \<rparr>)))))"

text \<open>\<open>getGameState\<close>: \<open>manager\<close> is the address of \<open>this.gameState\<close>. The spread copies the
  fields into a new object.\<close>

definition getGameState :: "addr \<Rightarrow> Store \<Rightarrow> (addr \<times> Store) option" where
  "getGameState manager st =
     (case gameStateObjects st manager of
        None \<Rightarrow> None
      | Some obj \<Rightarrow>
          Some (nextFree st,
                st\<lparr>gameStateObjects := (gameStateObjects st)(nextFree st \<mapsto> obj),
                   nextFree := nextFree st + 1\<rparr>))"

text \<open>What a caller can do with the returned value \<open>snapshot\<close>: assign to its own fields
  (any new contents \<open>obj\<close> of the snapshot object), call \<open>snapshot.snake.pop()\<close>, or assign
  \<open>snapshot.snake[i].position.x = v\<close>.\<close>

definition snapshotAssign :: "addr \<Rightarrow> GameStateObject \<Rightarrow> Store \<Rightarrow> Store" where
  "snapshotAssign snapshot obj st = st\<lparr>gameStateObjects := (gameStateObjects st)(snapshot \<mapsto> obj)\<rparr>"

definition snapshotSnakePop :: "addr \<Rightarrow> Store \<Rightarrow> Store" where
  "snapshotSnakePop snapshot st =
     (case gameStateObjects st snapshot of
        None \<Rightarrow> st
      | Some obj \<Rightarrow>
          (case arrayObjects st (snakeRef obj) of
             None \<Rightarrow> st
           | Some refs \<Rightarrow> st\<lparr>arrayObjects := (arrayObjects st)(snakeRef obj \<mapsto> butlast refs)\<rparr>))"

definition snapshotSetSegmentX :: "addr \<Rightarrow> nat \<Rightarrow> int \<Rightarrow> Store \<Rightarrow> Store" where
  "snapshotSetSegmentX snapshot i v st =
     (case gameStateObjects st snapshot of
        None \<Rightarrow> st
      | Some obj \<Rightarrow>
          (case arrayObjects st (snakeRef obj) of
             None \<Rightarrow> st
           | Some refs \<Rightarrow>
               if i < length refs then
                 (case segmentObjects st (refs ! i) of
                    None \<Rightarrow> st
                  | Some so \<Rightarrow>
                      (case positionObjects st (segPosition so) of
                         None \<Rightarrow> st
                       | Some p \<Rightarrow>
                           st\<lparr>positionObjects := (positionObjects st)(segPosition so \<mapsto> p\<lparr>px := v\<rparr>)\<rparr>))
               else st))"

text \<open>The example: the manager's state object for the example state, and its snapshot.\<close>

definition managerAddr :: addr where
  "managerAddr = fst (storeGameState (exampleState PLAYING 1) emptyStore)"

definition managerStore :: Store where
  "managerStore = snd (storeGameState (exampleState PLAYING 1) emptyStore)"

definition snapshotAddr :: addr where
  "snapshotAddr = (case getGameState managerAddr managerStore of Some r \<Rightarrow> fst r | None \<Rightarrow> 0)"

definition snapshotStore :: Store where
  "snapshotStore = (case getGameState managerAddr managerStore of Some r \<Rightarrow> snd r | None \<Rightarrow> managerStore)"

text \<open>Two stores agree below an address when every table holds the same there.\<close>

definition storeAgrees :: "addr \<Rightarrow> Store \<Rightarrow> Store \<Rightarrow> bool" where
  "storeAgrees n st st' =
     (\<forall>a<n. positionObjects st' a = positionObjects st a
           \<and> gridSizeObjects st' a = gridSizeObjects st a
           \<and> segmentObjects st' a = segmentObjects st a
           \<and> arrayObjects st' a = arrayObjects st a
           \<and> gameStateObjects st' a = gameStateObjects st a)"

section \<open>Director: food placement (ai/AIGameDirector.ts, engine/FoodManager.ts)\<close>

record FoodPlacementStats =
  totalValidPositions :: nat
  averageDistanceToHead :: real
  closestDistance :: int
  farthestDistance :: int
  dangerousPositions :: nat

text \<open>\<open>getFoodPlacementStats\<close> reads \<open>head.position\<close> once per valid position: a TypeError on
  an empty snake when some cell is free.\<close>

definition getFoodPlacementStats :: "GameState \<Rightarrow> error + FoodPlacementStats" where
  "getFoodPlacementStats gs =
     (let validPositions = getAllValidPositions gs
      in if length validPositions = 0
         then Inr \<lparr> totalValidPositions = 0, averageDistanceToHead = 0, closestDistance = 0,
                    farthestDistance = 0, dangerousPositions = 0 \<rparr>
         else case snake gs of
                [] \<Rightarrow> Inl TypeError
              | h # rest \<Rightarrow>
                  let distances = map (\<lambda>pos. calculateDistance (position h) pos) validPositions
                  in Inr \<lparr> totalValidPositions = length validPositions,
                           averageDistanceToHead = real_of_int (sum_list distances) / real (length distances),
                           closestDistance = fold min (tl distances) (hd distances),
                           farthestDistance = fold max (tl distances) (hd distances),
                           dangerousPositions =
                             length (filter (\<lambda>pos. case assessDangerLevel (gs\<lparr>food := pos\<rparr>) of
                                                     Inl e \<Rightarrow> False
                                                   | Inr v \<Rightarrow> v > 0.5) validPositions) \<rparr>)"

record FoodSuggestion =
  suggestedPosition :: "Position option"
  suggestionReasoning :: string
  suggestedDifficulty :: Difficulty

definition suggestFoodPlacement :: "GameState \<Rightarrow> real \<Rightarrow> error + FoodSuggestion" where
  "suggestFoodPlacement gs rnd =
     (case getFoodPlacementStats gs of
        Inl e \<Rightarrow> Inl e
      | Inr stats \<Rightarrow>
          (case assessDangerLevel gs of
             Inl e \<Rightarrow> Inl e
           | Inr dangerLevel \<Rightarrow>
               let (difficulty, reason) =
                     (if dangerLevel > 0.7 \<or> totalValidPositions stats < 10
                      then (easy, ''Player in high danger - providing easier food placement for recovery'')
                      else if length (snake gs) > 15 \<or> speed gs > 2.0
                      then (hard, ''Player showing mastery - increasing challenge with distant food placement'')
                      else (medium, ''Balanced difficulty - moderate food placement distance''))
               in case generateOptimalFoodPosition gs (Some difficulty) rnd of
                    Inl e \<Rightarrow> Inl e
                  | Inr pos \<Rightarrow> Inr \<lparr> suggestedPosition = pos, suggestionReasoning = reason,
                                        suggestedDifficulty = difficulty \<rparr>))"

definition validateGameState :: "GameState \<Rightarrow> bool" where
  "validateGameState gs =
     (length (snake gs) > 0 \<and> width (gridSize gs) > 0 \<and> height (gridSize gs) > 0)"

definition validateFoodPosition :: "Position \<Rightarrow> GameState \<Rightarrow> bool" where
  "validateFoodPosition p gs =
     (px p \<ge> 0 \<and> py p \<ge> 0 \<and> px p < width (gridSize gs) \<and> py p < height (gridSize gs)
      \<and> \<not> list_ex (\<lambda>s. px (position s) = px p \<and> py (position s) = py p) (snake gs))"

text \<open>\<open>getFallbackFoodPosition\<close>: the centre if it is valid, else the first valid cell of a
  scan by rows, else (0, 0).\<close>

definition getFallbackFoodPosition :: "GameState \<Rightarrow> Position" where
  "getFallbackFoodPosition gs =
     (let centerX = width (gridSize gs) div 2;
          centerY = height (gridSize gs) div 2;
          centerPos = \<lparr> px = centerX, py = centerY \<rparr>
      in if validateFoodPosition centerPos gs then centerPos
         else case filter (\<lambda>pos. validateFoodPosition pos gs)
                     (concat (map (\<lambda>cy. map (\<lambda>cx. \<lparr> px = cx, py = cy \<rparr>)
                                           [0 .. width (gridSize gs) - 1])
                                [0 .. height (gridSize gs) - 1])) of
                pos # others \<Rightarrow> pos
              | [] \<Rightarrow> \<lparr> px = 0, py = 0 \<rparr>)"

definition difficultyName :: "Difficulty \<Rightarrow> string" where
  "difficultyName d = (case d of easy \<Rightarrow> ''easy'' | medium \<Rightarrow> ''medium'' | hard \<Rightarrow> ''hard'')"

text \<open>\<open>calculateOptimalFoodPlacement\<close>: the whole body is inside \<open>try\<close>, and every exception
  ends in the fallback. \<open>rnd1\<close> and \<open>rnd2\<close> are the random numbers drawn for the suggestion
  and for the final position; \<open>numberToString\<close> stands for the conversion of a number in a
  template literal.\<close>

definition calculateOptimalFoodPlacement :: "(real \<Rightarrow> string) \<Rightarrow> (int \<Rightarrow> string) \<Rightarrow> real \<Rightarrow> real \<Rightarrow> real \<Rightarrow> PlayerProfiler \<Rightarrow> AIGameDirector \<Rightarrow> GameState \<Rightarrow> Position \<times> AIGameDirector" where
  "calculateOptimalFoodPlacement toFixed2 numberToString rnd1 rnd2 now profiler d gs =
     (if \<not> validateGameState gs then (getFallbackFoodPosition gs, d)
      else case suggestFoodPlacement gs rnd1 of
             Inl e \<Rightarrow> (getFallbackFoodPosition gs, d)
           | Inr suggestion \<Rightarrow>
               let (finalDifficulty, reason) =
                     (if recoveryModeActive d
                      then (easy, ''Recovery mode active - providing easier food placement'')
                      else if consecutiveGoodPerformance d \<ge> 5
                      then (hard, ''Consecutive good performance (''
                                    @ numberToString (consecutiveGoodPerformance d)
                                    @ '') - increasing challenge'')
                      else if currentDifficultyLevel d > 1.5
                      then (hard, ''High difficulty level ('' @ toFixed2 (currentDifficultyLevel d)
                                    @ '') - maintaining challenge'')
                      else (suggestedDifficulty suggestion, suggestionReasoning suggestion))
               in case generateOptimalFoodPosition gs (Some finalDifficulty) rnd2 of
                    Inl e \<Rightarrow> (getFallbackFoodPosition gs, d)
                  | Inr None \<Rightarrow> (getFallbackFoodPosition gs, d)
                  | Inr (Some pos) \<Rightarrow>
                      if \<not> validateFoodPosition pos gs then (getFallbackFoodPosition gs, d)
                      else (pos,
                            logDecision (''Food placed at ('' @ numberToString (px pos) @ '', ''
                                           @ numberToString (py pos) @ '') with ''
                                           @ difficultyName finalDifficulty @ '' difficulty'')
                              reason now profiler d))"

text \<open>
  The callback that \<open>GameController\<close> installs: it records the food collection with the
  profiler (\<open>timeTaken\<close> and \<open>now1\<close> are the two clock readings there) and answers with the
  director's placement. It reads the state it is given and changes the profiler and the
  director only; what \<open>moveSnake\<close> sees of it is the position, or the TypeError of the
  profiler on a snake without a head. The profiler result marked \<open>NotANumber\<close> is no
  exception, and the placement does not read what the profiler recorded.
\<close>

definition foodPlacementCallback :: "(real \<Rightarrow> string) \<Rightarrow> (int \<Rightarrow> string) \<Rightarrow> real \<Rightarrow> real \<Rightarrow> real \<Rightarrow> real \<Rightarrow> real \<Rightarrow> PlayerProfiler \<Rightarrow> AIGameDirector \<Rightarrow> FoodCallback" where
  "foodPlacementCallback toFixed2 numberToString rnd1 rnd2 timeTaken now1 now2 profiler d gs =
     (case recordFoodCollection gs timeTaken now1 profiler of
        Inl (TypeError, p1) \<Rightarrow> Inl (TypeError, gs)
      | Inl (e, p1) \<Rightarrow>
          Inr (fst (calculateOptimalFoodPlacement toFixed2 numberToString rnd1 rnd2 now2 p1 d gs), gs)
      | Inr p1 \<Rightarrow>
          Inr (fst (calculateOptimalFoodPlacement toFixed2 numberToString rnd1 rnd2 now2 p1 d gs), gs))"

section \<open>States reachable through the manager's public operations\<close>

text \<open>
  \<open>reachable thrown s\<close>: the manager holds \<open>s\<close> after some sequence of its public operations
  from construction on, \<open>moveSnake\<close> running with no callback (its random draw in [0, 1)) or
  with the callback that \<open>GameController\<close> installs. With \<open>thrown = False\<close> every call of the
  sequence has returned normally; with \<open>thrown = True\<close> a \<open>moveSnake\<close> call may also have
  thrown, leaving the state as it was at the throw.
\<close>

inductive reachable :: "bool \<Rightarrow> GameState \<Rightarrow> bool" where
  initial: "createInitialState draws = Some s \<Longrightarrow> reachable thrown s"
| transition: "reachable thrown s \<Longrightarrow> runTransition op draws s = Some (b, s')
               \<Longrightarrow> reachable thrown s'"
| move_default: "reachable thrown s \<Longrightarrow> 0 \<le> rnd \<Longrightarrow> rnd < 1
                 \<Longrightarrow> moveSnake None rnd s = Inr s' \<Longrightarrow> reachable thrown s'"
| move_callback: "reachable thrown s
                 \<Longrightarrow> moveSnake (Some (foodPlacementCallback toFixed2 numberToString rnd1 rnd2
                                         timeTaken now1 now2 profiler d)) rnd s = Inr s'
                 \<Longrightarrow> reachable thrown s'"
| move_default_thrown: "reachable True s \<Longrightarrow> 0 \<le> rnd \<Longrightarrow> rnd < 1
                 \<Longrightarrow> moveSnake None rnd s = Inl (e, s') \<Longrightarrow> reachable True s'"
| move_callback_thrown: "reachable True s
                 \<Longrightarrow> moveSnake (Some (foodPlacementCallback toFixed2 numberToString rnd1 rnd2
                                         timeTaken now1 now2 profiler d)) rnd s = Inl (e, s')
                 \<Longrightarrow> reachable True s'"
| spawn: "reachable thrown s \<Longrightarrow> spawnFoodAt p s = (b, s') \<Longrightarrow> reachable thrown s'"
| set_speed: "reachable thrown s \<Longrightarrow> reachable thrown (setSpeed v s)"
| change_direction: "reachable thrown s \<Longrightarrow> changeDirection d s = Inr (b, s')
                     \<Longrightarrow> reachable thrown s'"
| game_time: "reachable thrown s \<Longrightarrow> reachable thrown (updateGameTime deltaTime s)"

text \<open>The invariant of the data model: the food lies on no snake segment.\<close>

definition foodOffSnake :: "GameState \<Rightarrow> bool" where
  "foodOffSnake s = (food s \<notin> set (map position (snake s)))"

text \<open>A function from states to positions respects the snake when, on every state that has
  a free cell, it answers with a cell that the food model accepts for that state.\<close>

definition placesFoodOffSnake :: "(GameState \<Rightarrow> Position) \<Rightarrow> bool" where
  "placesFoodOffSnake f =
     (\<forall>g. getAllValidPositions g \<noteq> [] \<longrightarrow> isValidFoodPosition (f g) g)"

text \<open>A callback leaves the state alone when, on every state whose snake has a head, it
  returns a position and the state as it was given.\<close>

definition leavesState :: "FoodCallback \<Rightarrow> bool" where
  "leavesState callback = (\<forall>g. snake g \<noteq> [] \<longrightarrow> (\<exists>p. callback g = Inr (p, g)))"

section \<open>A game that fills the board\<close>

text \<open>
  The board of the manager is 20 by 20 and the snake starts on the cells (10, 10), (9, 10)
  and (8, 10), heading RIGHT. \<open>fullBoardPath\<close> leads the head from there over every other
  cell once: along row 10 to the right border, down the last column, through the rows
  19 to 11 by turns to the left and to the right, up the first column into row 10 and along
  it to (7, 10), through the rows 9 to 0 of the columns 0 to 7, and through the columns
  8 to 19 of the rows 0 to 9 by turns down and up, ending in the corner (19, 0).
\<close>

definition fullBoardPath :: "Direction list" where
  "fullBoardPath =
     replicate 9 RIGHT @ replicate 9 DOWN @ replicate 19 LEFT
     @ concat (replicate 4 (UP # replicate 18 RIGHT @ UP # replicate 18 LEFT))
     @ UP # replicate 7 RIGHT @ UP # replicate 7 LEFT
     @ concat (replicate 4 (UP # replicate 7 RIGHT @ UP # replicate 7 LEFT))
     @ UP # replicate 7 RIGHT
     @ RIGHT # replicate 9 DOWN
     @ concat (replicate 5 (RIGHT # replicate 9 UP @ RIGHT # replicate 9 DOWN))
     @ RIGHT # replicate 9 UP"

text \<open>
  \<open>walk cells heading ds\<close> follows the directions \<open>ds\<close> from the cells that the snake covers
  (the head first) and the direction its head faces, the snake growing by one cell with
  every step. A step in direction \<open>d\<close> is taken when \<open>changeDirection\<close> accepts \<open>d\<close>, the cell
  ahead is a cell of the grid that the snake does not cover, and a further cell stays free.
\<close>

fun walk :: "Position list \<Rightarrow> Direction \<Rightarrow> Direction list \<Rightarrow> (Position list \<times> Direction) option" where
  "walk cells heading [] = Some (cells, heading)"
| "walk cells heading (d # ds) =
     (case cells of
        [] \<Rightarrow> None
      | h # rest \<Rightarrow>
          let c = getNextPosition h d
          in if oppositeDirections heading \<noteq> d
                \<and> isPositionValid c \<lparr> width = GRID_WIDTH, height = GRID_HEIGHT \<rparr>
                \<and> c \<notin> set cells
                \<and> int (length cells) + 1 < GRID_WIDTH * GRID_HEIGHT
             then walk (c # cells) d ds
             else None)"

text \<open>\<open>snakeCovers cells heading s\<close>: the state \<open>s\<close> is reached with every call returning
  normally, the game is running on the manager's board, the snake covers \<open>cells\<close> (the head
  first) and its head faces \<open>heading\<close>.\<close>

definition snakeCovers :: "Position list \<Rightarrow> Direction \<Rightarrow> GameState \<Rightarrow> bool" where
  "snakeCovers cells heading s =
     (reachable False s \<and> gameStatus s = PLAYING
      \<and> gridSize s = \<lparr> width = GRID_WIDTH, height = GRID_HEIGHT \<rparr>
      \<and> map position (snake s) = cells
      \<and> map direction (take 1 (snake s)) = [heading])"

text \<open>The cells that the snake covers after all steps of the path but the last.\<close>

definition nearlyFullCells :: "Position list" where
  "nearlyFullCells =
     (case walk (map position initialSnake) RIGHT (butlast fullBoardPath) of
        Some (cells, heading) \<Rightarrow> cells
      | None \<Rightarrow> [])"

section \<open>Properties\<close>

subsection \<open>State machine and direction changes\<close>

lemma generateRandomFoodPosition_returns:
  "\<exists>d\<in>set draws. drawPosition d \<notin> occupiedPositions sn \<Longrightarrow>
   \<exists>p. generateRandomFoodPosition sn draws = Some p \<and> p \<notin> occupiedPositions sn"
  by (induction draws) auto

lemma createInitialState_returns:
  assumes "\<exists>d\<in>set draws. drawPosition d \<notin> occupiedPositions initialSnake"
  shows "\<exists>s. createInitialState draws = Some s \<and> gameStatus s = INIT \<and> snake s = initialSnake
            \<and> food s \<notin> occupiedPositions initialSnake"
proof -
  from generateRandomFoodPosition_returns [OF assms]
  obtain p where "generateRandomFoodPosition initialSnake draws = Some p" "p \<notin> occupiedPositions initialSnake"
    by blast
  then show ?thesis by (simp add: createInitialState_def)
qed

text \<open>
  C3. From a state with status \<open>from\<close>, for a target status \<open>to\<close>: if the pair is in the
  table \<open>INIT\<close> to \<open>PLAYING\<close>, \<open>PLAYING\<close> to \<open>PAUSED\<close> or \<open>GAME_OVER\<close>, \<open>PAUSED\<close> to \<open>PLAYING\<close> or
  \<open>GAME_OVER\<close>, \<open>GAME_OVER\<close> to \<open>INIT\<close>, the operation documented for the pair returns true and the status
  becomes \<open>to\<close>; otherwise every operation that aims at \<open>to\<close> returns false and leaves the
  whole game state unchanged. (\<open>resetGame\<close> rebuilds the initial state, whose random food
  loop ends once a draw misses the initial snake.)
\<close>

theorem C3_transition_table:
  assumes "gameStatus gs = from"
      and "\<exists>d\<in>set draws. drawPosition d \<notin> occupiedPositions initialSnake"
  shows "if (from, to) \<in> {(INIT, PLAYING), (PLAYING, PAUSED), (PLAYING, GAME_OVER),
                           (PAUSED, PLAYING), (PAUSED, GAME_OVER), (GAME_OVER, INIT)}
         then (\<exists>gs'. runTransition (correspondingOp from to) draws gs = Some (True, gs')
                     \<and> gameStatus gs' = to)
         else (\<forall>op. targetStatus op = to \<longrightarrow> runTransition op draws gs = Some (False, gs))"
proof -
  from createInitialState_returns [OF assms(2)]
  obtain s where s: "createInitialState draws = Some s" "gameStatus s = INIT" by blast
  show ?thesis
  proof (cases "(from, to) \<in> {(INIT, PLAYING), (PLAYING, PAUSED), (PLAYING, GAME_OVER),
                           (PAUSED, PLAYING), (PAUSED, GAME_OVER), (GAME_OVER, INIT)}")
    case True
    then show ?thesis using assms(1) s
      by (auto simp: runTransition_def correspondingOp_def startGame_def pauseGame_def
          resumeGame_def endGame_def resetGame_def transitionTo_def isValidTransition_def
          validTransitions_def)
  next
    case False
    have "\<forall>op. targetStatus op = to \<longrightarrow> runTransition op draws gs = Some (False, gs)"
    proof (intro allI impI)
      fix op assume that: "targetStatus op = to"
      show "runTransition op draws gs = Some (False, gs)"
      using that False assms(1)
      by (cases op; cases "from")
         (auto simp: runTransition_def targetStatus_def startGame_def pauseGame_def
          resumeGame_def endGame_def resetGame_def transitionTo_def isValidTransition_def
          validTransitions_def)
    qed
    then show ?thesis by (subst if_not_P [OF False])
  qed
qed

theorem C3_transition_table_witness:
  "gameStatus (exampleState GAME_OVER 1) = GAME_OVER
   \<and> (\<exists>d\<in>set [(0.56, 0.52)]. drawPosition d \<notin> occupiedPositions initialSnake)
   \<and> (\<exists>gs'. runTransition ResetGame [(0.56, 0.52)] (exampleState GAME_OVER 1) = Some (True, gs')
              \<and> gameStatus gs' = INIT)
   \<and> runTransition PauseGame [(0.56, 0.52)] (exampleState GAME_OVER 1)
       = Some (False, exampleState GAME_OVER 1)"
proof -
  have a: "gameStatus (exampleState GAME_OVER 1) = GAME_OVER"
    by (simp add: exampleState_def)
  have b: "\<exists>d\<in>set [(0.56, 0.52)]. drawPosition d \<notin> occupiedPositions initialSnake"
    by (simp add: drawPosition_def occupiedPositions_def initialSnake_def GRID_WIDTH_def
        GRID_HEIGHT_def INITIAL_SNAKE_LENGTH_def upt_rec)
  from C3_transition_table [OF a b, of INIT] C3_transition_table [OF a b, of PAUSED] a b
  show ?thesis by (simp add: correspondingOp_def targetStatus_def)
qed

text \<open>
  C4. \<open>changeDirection d\<close> returns false and leaves the state (so the head direction)
  unchanged when the status is not PLAYING or \<open>d\<close> is the opposite of the head direction,
  that is when the head faces UP and \<open>d\<close> is DOWN, DOWN and UP, LEFT and RIGHT, or RIGHT and
  LEFT; otherwise it returns true and the head direction is \<open>d\<close> at once.
\<close>

theorem C4_changeDirection:
  assumes "snake gs = h # rest"
  shows "changeDirection d gs =
     (if gameStatus gs \<noteq> PLAYING
         \<or> (direction h, d) \<in> {(UP, DOWN), (DOWN, UP), (LEFT, RIGHT), (RIGHT, LEFT)}
      then Inr (False, gs)
      else Inr (True, gs\<lparr>snake := h\<lparr>direction := d\<rparr> # rest\<rparr>))"
  using assms by (cases "direction h"; cases d) (simp_all add: changeDirection_def oppositeDirections_def)

theorem C4_changeDirection_witness:
  "snake (headingState UP PLAYING) = (hd exampleSnake)\<lparr>direction := UP\<rparr> # tl exampleSnake
   \<and> changeDirection DOWN (headingState UP PLAYING) = Inr (False, headingState UP PLAYING)
   \<and> changeDirection UP (headingState DOWN PLAYING) = Inr (False, headingState DOWN PLAYING)
   \<and> changeDirection RIGHT (headingState LEFT PLAYING) = Inr (False, headingState LEFT PLAYING)
   \<and> changeDirection LEFT (headingState RIGHT PLAYING) = Inr (False, headingState RIGHT PLAYING)
   \<and> changeDirection UP (headingState RIGHT PAUSED) = Inr (False, headingState RIGHT PAUSED)
   \<and> changeDirection UP (headingState RIGHT PLAYING) = Inr (True, headingState UP PLAYING)
   \<and> changeDirection UP (headingState UP PLAYING) = Inr (True, headingState UP PLAYING)
   \<and> changeDirection LEFT (headingState DOWN PLAYING) = Inr (True, headingState LEFT PLAYING)
   \<and> changeDirection DOWN (headingState LEFT PLAYING) = Inr (True, headingState DOWN PLAYING)"
proof -
  have a: "snake (headingState d st) = (hd exampleSnake)\<lparr>direction := d\<rparr> # tl exampleSnake" for d st
    by (simp add: headingState_def)
  have c: "(headingState d st)\<lparr>snake := (hd exampleSnake)\<lparr>direction := e\<rparr> # tl exampleSnake\<rparr>
           = headingState e st" for d e st
    by (simp add: headingState_def)
  from C4_changeDirection [OF a, of DOWN UP PLAYING] C4_changeDirection [OF a, of UP DOWN PLAYING]
       C4_changeDirection [OF a, of RIGHT LEFT PLAYING] C4_changeDirection [OF a, of LEFT RIGHT PLAYING]
       C4_changeDirection [OF a, of UP RIGHT PAUSED] C4_changeDirection [OF a, of UP RIGHT PLAYING]
       C4_changeDirection [OF a, of UP UP PLAYING] C4_changeDirection [OF a, of LEFT DOWN PLAYING]
       C4_changeDirection [OF a, of DOWN LEFT PLAYING] a
  show ?thesis by (simp add: c) (simp add: headingState_def exampleState_def)
qed

text \<open>
  C5. In a PLAYING state whose head faces \<open>d\<close>, with \<open>p\<close> perpendicular to \<open>d\<close> (LEFT or
  RIGHT when \<open>d\<close> is UP or DOWN, UP or DOWN when \<open>d\<close> is LEFT or RIGHT) and \<open>r\<close> the
  reverse of \<open>d\<close> (DOWN for UP, UP for DOWN, RIGHT for LEFT, LEFT for RIGHT), the calls
  \<open>changeDirection p\<close> and then \<open>changeDirection r\<close>, with no move in between, both
  return true and leave the head facing \<open>r\<close>: a step in direction \<open>r\<close> undoes a step in
  direction \<open>d\<close>.
\<close>

theorem C5_two_call_reversal:
  assumes "gameStatus gs = PLAYING" and "snake gs = h # rest"
      and "(direction h, p, r) \<in> {(UP, LEFT, DOWN), (UP, RIGHT, DOWN), (DOWN, LEFT, UP),
             (DOWN, RIGHT, UP), (LEFT, UP, RIGHT), (LEFT, DOWN, RIGHT), (RIGHT, UP, LEFT),
             (RIGHT, DOWN, LEFT)}"
  shows "changeDirection p gs = Inr (True, gs\<lparr>snake := h\<lparr>direction := p\<rparr> # rest\<rparr>)
       \<and> changeDirection r (gs\<lparr>snake := h\<lparr>direction := p\<rparr> # rest\<rparr>)
           = Inr (True, gs\<lparr>snake := h\<lparr>direction := r\<rparr> # rest\<rparr>)
       \<and> getNextPosition (getNextPosition (position h) (direction h)) r = position h"
  using assms by (auto simp: changeDirection_def oppositeDirections_def getNextPosition_def)

theorem C5_two_call_reversal_witness:
  "gameStatus (headingState RIGHT PLAYING) = PLAYING
   \<and> changeDirection LEFT (headingState UP PLAYING) = Inr (True, headingState LEFT PLAYING)
   \<and> changeDirection DOWN (headingState LEFT PLAYING) = Inr (True, headingState DOWN PLAYING)
   \<and> changeDirection RIGHT (headingState UP PLAYING) = Inr (True, headingState RIGHT PLAYING)
   \<and> changeDirection DOWN (headingState RIGHT PLAYING) = Inr (True, headingState DOWN PLAYING)
   \<and> changeDirection LEFT (headingState DOWN PLAYING) = Inr (True, headingState LEFT PLAYING)
   \<and> changeDirection UP (headingState LEFT PLAYING) = Inr (True, headingState UP PLAYING)
   \<and> changeDirection RIGHT (headingState DOWN PLAYING) = Inr (True, headingState RIGHT PLAYING)
   \<and> changeDirection UP (headingState RIGHT PLAYING) = Inr (True, headingState UP PLAYING)
   \<and> changeDirection RIGHT (headingState UP PLAYING) = Inr (True, headingState RIGHT PLAYING)
   \<and> changeDirection LEFT (headingState UP PLAYING) = Inr (True, headingState LEFT PLAYING)
   \<and> getNextPosition (getNextPosition \<lparr>px = 10, py = 10\<rparr> UP) DOWN = \<lparr>px = 10, py = 10\<rparr>
   \<and> getNextPosition (getNextPosition \<lparr>px = 10, py = 10\<rparr> DOWN) UP = \<lparr>px = 10, py = 10\<rparr>
   \<and> getNextPosition (getNextPosition \<lparr>px = 10, py = 10\<rparr> LEFT) RIGHT = \<lparr>px = 10, py = 10\<rparr>
   \<and> getNextPosition (getNextPosition \<lparr>px = 10, py = 10\<rparr> RIGHT) LEFT = \<lparr>px = 10, py = 10\<rparr>"
proof -
  have a: "gameStatus (headingState d PLAYING) = PLAYING" for d
    by (simp add: headingState_def exampleState_def)
  have b: "snake (headingState d st) = (hd exampleSnake)\<lparr>direction := d\<rparr> # tl exampleSnake" for d st
    by (simp add: headingState_def)
  have c: "(headingState d st)\<lparr>snake := (hd exampleSnake)\<lparr>direction := e\<rparr> # tl exampleSnake\<rparr>
           = headingState e st" for d e st
    by (simp add: headingState_def)
  have p: "position (hd exampleSnake) = \<lparr>px = 10, py = 10\<rparr>"
    by (simp add: exampleSnake_def)
  from C5_two_call_reversal [OF a b, of UP LEFT DOWN] C5_two_call_reversal [OF a b, of UP RIGHT DOWN]
       C5_two_call_reversal [OF a b, of DOWN LEFT UP] C5_two_call_reversal [OF a b, of DOWN RIGHT UP]
       C5_two_call_reversal [OF a b, of LEFT UP RIGHT] C5_two_call_reversal [OF a b, of LEFT DOWN RIGHT]
       C5_two_call_reversal [OF a b, of RIGHT UP LEFT] C5_two_call_reversal [OF a b, of RIGHT DOWN LEFT] a
  show ?thesis by (simp add: c p)
qed

subsection \<open>Food placement and movement\<close>

lemma set_getAllValidPositions:
  "set (getAllValidPositions gs) =
     {p. isPositionValid p (gridSize gs) \<and> \<not> wouldCollideWithSnake p (snake gs)}"
proof -
  have "p \<in> set (getAllValidPositions gs) \<longleftrightarrow>
        isPositionValid p (gridSize gs) \<and> \<not> wouldCollideWithSnake p (snake gs)" for p
  proof -
    have eq: "p = \<lparr> px = px p, py = py p \<rparr>" by simp
    show ?thesis
      apply (subst (1 2 3) eq)
      apply (auto simp: getAllValidPositions_def isPositionValid_def split: if_splits)
      done
  qed
  then show ?thesis by blast
qed

lemma length_updateAges [simp]: "length (updateAges sn) = length sn"
  by (simp add: updateAges_def)

lemma position_updateAges [simp]: "map position (updateAges sn) = map position sn"
proof -
  have "map position (updateAges sn) = map (position \<circ> snd) (enumerate 0 sn)"
    by (simp add: updateAges_def case_prod_unfold comp_def)
  also have "\<dots> = map position (map snd (enumerate 0 sn))"
    by (simp only: map_map)
  also have "\<dots> = map position sn"
    by (simp only: map_snd_enumerate)
  finally show ?thesis .
qed

lemma Position_eq_iff: "(p :: Position) = q \<longleftrightarrow> px p = px q \<and> py p = py q"
  by auto

lemma wouldCollideWithSnake_iff:
  "wouldCollideWithSnake p sn \<longleftrightarrow> p \<in> set (map position sn)"
  by (auto simp: wouldCollideWithSnake_def list_ex_iff image_iff Position_eq_iff; metis)

lemma scaled_draw_bounds:
  fixes r m :: real
  assumes "0 \<le> r" "r < 1" "0 < m"
  shows "0 \<le> r * m" and "r * m < m"
proof -
  show "0 \<le> r * m" using assms by simp
  have "r * m < 1 * m" using assms by (intro mult_strict_right_mono) auto
  then show "r * m < m" by simp
qed

lemma easy_index_in_range:
  fixes n :: nat and r :: real
  assumes "0 < n" "0 \<le> r" "r < 1"
  shows "0 \<le> \<lfloor>r * max 1 (real n * 0.3)\<rfloor>" and "\<lfloor>r * max 1 (real n * 0.3)\<rfloor> < int n"
proof -
  let ?m = "max 1 (real n * 0.3)"
  have m: "0 < ?m" "?m \<le> real n" using assms(1) by auto
  from scaled_draw_bounds [OF assms(2,3) m(1)]
  have b: "0 \<le> r * ?m" "r * ?m < real n" using m(2) by auto
  show "0 \<le> \<lfloor>r * ?m\<rfloor>" using b(1) by simp
  show "\<lfloor>r * ?m\<rfloor> < int n" using b(2) by (simp add: floor_less_iff)
qed

lemma medium_index_in_range:
  fixes n :: nat and r :: real
  assumes "0 < n" "0 \<le> r" "r < 1"
  shows "0 \<le> \<lfloor>real n * 0.3\<rfloor> + \<lfloor>r * max 1 (real n * 0.4)\<rfloor>"
    and "\<lfloor>real n * 0.3\<rfloor> + \<lfloor>r * max 1 (real n * 0.4)\<rfloor> < int n"
proof -
  let ?m = "max 1 (real n * 0.4)"
  have m: "0 < ?m" by auto
  from scaled_draw_bounds [OF assms(2,3) m]
  have b: "0 \<le> r * ?m" "r * ?m < ?m" by auto
  have a: "0 \<le> \<lfloor>real n * 0.3\<rfloor>" by simp
  show "0 \<le> \<lfloor>real n * 0.3\<rfloor> + \<lfloor>r * ?m\<rfloor>" using a b(1) by simp
  have "real_of_int (\<lfloor>real n * 0.3\<rfloor> + \<lfloor>r * ?m\<rfloor>) < real n"
  proof (cases "1 \<le> real n * 0.4")
    case True
    then have "?m = real n * 0.4" by simp
    with b(2) have "r * ?m < real n * 0.4" by simp
    moreover have "real_of_int \<lfloor>real n * 0.3\<rfloor> \<le> real n * 0.3" by (rule of_int_floor_le)
    moreover have "real_of_int \<lfloor>r * ?m\<rfloor> \<le> r * ?m" by (rule of_int_floor_le)
    moreover have "0 < real n" using assms(1) by simp
    ultimately have "real_of_int \<lfloor>real n * 0.3\<rfloor> + real_of_int \<lfloor>r * ?m\<rfloor> < real n"
      by linarith
    then show ?thesis by (simp only: of_int_add)
  next
    case False
    then have mm: "?m = 1" by simp
    with b have "\<lfloor>r * ?m\<rfloor> = 0" by (simp add: floor_eq_iff)
    moreover from False have "real n * 0.3 < 1" by simp
    then have "\<lfloor>real n * 0.3\<rfloor> = 0" by (simp add: floor_eq_iff)
    ultimately show ?thesis using assms(1) by simp
  qed
  then show "\<lfloor>real n * 0.3\<rfloor> + \<lfloor>r * ?m\<rfloor> < int n" by linarith
qed

lemma hard_index_in_range:
  fixes n :: nat and r :: real
  assumes "0 < n" "0 \<le> r" "r < 1"
  shows "0 \<le> \<lfloor>real n * 0.7\<rfloor> + \<lfloor>r * (real n - real_of_int \<lfloor>real n * 0.7\<rfloor>)\<rfloor>"
    and "\<lfloor>real n * 0.7\<rfloor> + \<lfloor>r * (real n - real_of_int \<lfloor>real n * 0.7\<rfloor>)\<rfloor> < int n"
proof -
  let ?f = "\<lfloor>real n * 0.7\<rfloor>"
  let ?m = "real n - real_of_int ?f"
  have f: "real_of_int ?f \<le> real n * 0.7" by (rule of_int_floor_le)
  have "0 < real n" using assms(1) by simp
  with f have m: "0 < ?m" by linarith
  from scaled_draw_bounds [OF assms(2,3) m]
  have b: "0 \<le> r * ?m" "r * ?m < ?m" by auto
  have a: "0 \<le> ?f" by simp
  show "0 \<le> ?f + \<lfloor>r * ?m\<rfloor>" using a b(1) by simp
  have "real_of_int \<lfloor>r * ?m\<rfloor> \<le> r * ?m" by (rule of_int_floor_le)
  with b(2) have "real_of_int ?f + real_of_int \<lfloor>r * ?m\<rfloor> < real n" by linarith
  then have "real_of_int (?f + \<lfloor>r * ?m\<rfloor>) < real n" by (simp only: of_int_add)
  then show "?f + \<lfloor>r * ?m\<rfloor> < int n" by linarith
qed

lemma selectPositionByDifficulty_returns:
  assumes "validPositions \<noteq> []" "0 \<le> rnd" "rnd < 1"
  shows "\<exists>p\<in>set validPositions. selectPositionByDifficulty validPositions snakeHead difficulty rnd = Inr p"
proof -
  define ps where "ps = sort_key snd (map (\<lambda>pos. (pos, calculateDistance snakeHead pos)) validPositions)"
  have len: "length ps = length validPositions" by (simp add: ps_def)
  have n: "0 < length ps" using assms(1) len by simp
  have mem: "fst (ps ! i) \<in> set validPositions" if "i < length ps" for i
  proof -
    have "ps ! i \<in> set ps" using that by simp
    then show ?thesis by (auto simp: ps_def)
  qed
  define idx where "idx =
            (case difficulty of
               easy \<Rightarrow> \<lfloor>rnd * max 1 (real (length ps) * 0.3)\<rfloor>
             | medium \<Rightarrow> \<lfloor>real (length ps) * 0.3\<rfloor> + \<lfloor>rnd * max 1 (real (length ps) * 0.4)\<rfloor>
             | hard \<Rightarrow> \<lfloor>real (length ps) * 0.7\<rfloor>
                        + \<lfloor>rnd * (real (length ps) - real_of_int \<lfloor>real (length ps) * 0.7\<rfloor>)\<rfloor>)"
  have rng: "0 \<le> idx \<and> idx < int (length ps)"
    unfolding idx_def
    using easy_index_in_range [OF n assms(2,3)] medium_index_in_range [OF n assms(2,3)]
          hard_index_in_range [OF n assms(2,3)]
    by (cases difficulty) simp_all
  then have "js_index ps idx = Some (ps ! nat idx)" "nat idx < length ps"
    by (auto simp: js_index_def)
  moreover have "selectPositionByDifficulty validPositions snakeHead difficulty rnd
        = (case js_index ps idx of None \<Rightarrow> Inl TypeError | Some entry \<Rightarrow> Inr (fst entry))"
    by (simp only: selectPositionByDifficulty_def Let_def ps_def [symmetric] idx_def)
  ultimately show ?thesis using mem by auto
qed

lemma default_index_in_range:
  fixes n :: nat and r :: real
  assumes "0 < n" "0 \<le> r" "r < 1"
  shows "0 \<le> \<lfloor>r * real n\<rfloor>" and "\<lfloor>r * real n\<rfloor> < int n"
proof -
  have m: "0 < real n" using assms(1) by simp
  from scaled_draw_bounds [OF assms(2,3) m]
  have b: "0 \<le> r * real n" "r * real n < real n" by auto
  show "0 \<le> \<lfloor>r * real n\<rfloor>" using b(1) by simp
  show "\<lfloor>r * real n\<rfloor> < int n" using b(2) by (simp add: floor_less_iff)
qed

lemma generateOptimalFoodPosition_empty:
  "getAllValidPositions gs = [] \<Longrightarrow> generateOptimalFoodPosition gs aiPreference rnd = Inl NoValidPosition"
  by (simp add: generateOptimalFoodPosition_def)

lemma generateOptimalFoodPosition_returns:
  assumes ne: "getAllValidPositions gs \<noteq> []" and sn: "snake gs \<noteq> [] \<or> aiPreference = None"
      and r: "0 \<le> rnd" "rnd < 1"
  shows "\<exists>p\<in>set (getAllValidPositions gs). generateOptimalFoodPosition gs aiPreference rnd = Inr (Some p)"
proof (cases aiPreference)
  case None
  let ?vs = "getAllValidPositions gs"
  have n: "0 < length ?vs" using ne by simp
  note b = default_index_in_range [OF n r]
  have "js_index ?vs \<lfloor>rnd * real (length ?vs)\<rfloor> = Some (?vs ! nat \<lfloor>rnd * real (length ?vs)\<rfloor>)"
    using b by (simp only: js_index_def) simp
  moreover have "nat \<lfloor>rnd * real (length ?vs)\<rfloor> < length ?vs"
    using b by linarith
  ultimately have "js_index ?vs \<lfloor>rnd * real (length ?vs)\<rfloor> = Some (?vs ! nat \<lfloor>rnd * real (length ?vs)\<rfloor>)"
       "nat \<lfloor>rnd * real (length ?vs)\<rfloor> < length ?vs"
    by blast+
  then show ?thesis using None ne
    by (auto simp: generateOptimalFoodPosition_def Let_def)
next
  case (Some difficulty)
  with sn obtain h rest where h: "snake gs = h # rest" by (cases "snake gs") auto
  from selectPositionByDifficulty_returns [OF ne r, of "position h" difficulty]
  obtain p where "p \<in> set (getAllValidPositions gs)"
      "selectPositionByDifficulty (getAllValidPositions gs) (position h) difficulty rnd = Inr p"
    by blast
  then show ?thesis using Some h ne
    by (auto simp: generateOptimalFoodPosition_def Let_def)
qed

text \<open>
  C6. For a non-empty snake and a random draw in [0, 1), with no difficulty or with any of
  the bands easy, medium and hard: \<open>generateOptimalFoodPosition\<close> throws its
  "no valid position" error exactly when every grid cell holds a snake segment; in every
  other case it returns a position that lies inside the grid and on no snake segment.
\<close>

theorem C6_generateOptimalFoodPosition:
  assumes "snake gs \<noteq> []" and "0 \<le> rnd" and "rnd < 1"
  shows "(generateOptimalFoodPosition gs aiPreference rnd = Inl NoValidPosition
            \<longleftrightarrow> (\<forall>c. 0 \<le> px c \<and> px c < width (gridSize gs) \<and> 0 \<le> py c \<and> py c < height (gridSize gs)
                      \<longrightarrow> (\<exists>seg\<in>set (snake gs). position seg = c)))
       \<and> (generateOptimalFoodPosition gs aiPreference rnd = Inl NoValidPosition
            \<or> (\<exists>p. generateOptimalFoodPosition gs aiPreference rnd = Inr (Some p)
                   \<and> 0 \<le> px p \<and> px p < width (gridSize gs) \<and> 0 \<le> py p \<and> py p < height (gridSize gs)
                   \<and> (\<forall>seg\<in>set (snake gs). position seg \<noteq> p)))"
proof (cases "getAllValidPositions gs = []")
  case True
  then have "set (getAllValidPositions gs) = {}" by simp
  then have full: "\<forall>c. 0 \<le> px c \<and> px c < width (gridSize gs) \<and> 0 \<le> py c \<and> py c < height (gridSize gs)
                      \<longrightarrow> (\<exists>seg\<in>set (snake gs). position seg = c)"
    unfolding set_getAllValidPositions
    by (auto simp: isPositionValid_def wouldCollideWithSnake_iff)
  from generateOptimalFoodPosition_empty [OF True] full show ?thesis by simp
next
  case False
  from generateOptimalFoodPosition_returns [OF False _ assms(2,3), of aiPreference] assms(1)
  obtain p where p: "p \<in> set (getAllValidPositions gs)"
      "generateOptimalFoodPosition gs aiPreference rnd = Inr (Some p)" by blast
  from p(1) have v: "0 \<le> px p \<and> px p < width (gridSize gs) \<and> 0 \<le> py p \<and> py p < height (gridSize gs)"
                  "\<forall>seg\<in>set (snake gs). position seg \<noteq> p"
    unfolding set_getAllValidPositions
    by (auto simp: isPositionValid_def wouldCollideWithSnake_iff)
  then have "\<not> (\<forall>c. 0 \<le> px c \<and> px c < width (gridSize gs) \<and> 0 \<le> py c \<and> py c < height (gridSize gs)
                      \<longrightarrow> (\<exists>seg\<in>set (snake gs). position seg = c))"
    by blast
  with p(2) v show ?thesis by auto
qed

theorem C6_generateOptimalFoodPosition_witness:
  "snake smallGridState \<noteq> [] \<and> (0 :: real) \<le> 1 / 2 \<and> (1 / 2 :: real) < 1
   \<and> generateOptimalFoodPosition fullGridState (Some easy) (1 / 2) = Inl NoValidPosition
   \<and> generateOptimalFoodPosition smallGridState (Some medium) (1 / 2) \<noteq> Inl NoValidPosition
   \<and> (\<exists>p. generateOptimalFoodPosition smallGridState (Some medium) (1 / 2) = Inr (Some p)
          \<and> 0 \<le> px p \<and> px p < width (gridSize smallGridState)
          \<and> 0 \<le> py p \<and> py p < height (gridSize smallGridState)
          \<and> (\<forall>seg\<in>set (snake smallGridState). position seg \<noteq> p))"
proof -
  have a: "snake smallGridState \<noteq> []" by (simp add: smallGridState_def)
  have b: "(0 :: real) \<le> 1 / 2" and c: "(1 / 2 :: real) < 1" by simp_all
  have d: "generateOptimalFoodPosition fullGridState (Some easy) (1 / 2) = Inl NoValidPosition"
    by code_simp
  have e: "generateOptimalFoodPosition smallGridState (Some medium) (1 / 2) \<noteq> Inl NoValidPosition"
    by code_simp
  from C6_generateOptimalFoodPosition [OF a b c, of "Some medium"] a b c d e
  show ?thesis by blast
qed

lemma generateRandomFoodPosition_free:
  "generateRandomFoodPosition sn draws = Some p \<Longrightarrow> p \<notin> occupiedPositions sn"
  by (induction draws) (auto split: if_splits)

lemma createInitialState_foodOffSnake:
  "createInitialState draws = Some s \<Longrightarrow> foodOffSnake s"
  by (auto simp: createInitialState_def foodOffSnake_def occupiedPositions_def
           split: option.splits dest: generateRandomFoodPosition_free)

lemma transitionTo_foodOffSnake:
  "transitionTo st s = (b, s') \<Longrightarrow> foodOffSnake s \<Longrightarrow> foodOffSnake s'"
  by (auto simp: transitionTo_def foodOffSnake_def split: if_splits)

lemma runTransition_foodOffSnake:
  assumes "runTransition op draws s = Some (b, s')" and "foodOffSnake s"
  shows "foodOffSnake s'"
proof (cases op)
  case ResetGame
  with assms show ?thesis
    by (auto simp: runTransition_def resetGame_def split: prod.splits bool.splits option.splits
             dest: createInitialState_foodOffSnake transitionTo_foodOffSnake)
qed (use assms in \<open>auto simp: runTransition_def startGame_def pauseGame_def resumeGame_def
       endGame_def split: if_splits dest: transitionTo_foodOffSnake\<close>)

lemma spawnFoodAt_foodOffSnake:
  "spawnFoodAt p s = (b, s') \<Longrightarrow> foodOffSnake s \<Longrightarrow> foodOffSnake s'"
  using wouldCollideWithSnake_iff [of p "snake s"]
  by (auto simp: spawnFoodAt_def foodOffSnake_def Let_def wouldCollideWithSnake_def split: if_splits)

lemma changeDirection_foodOffSnake:
  "changeDirection d s = Inr (b, s') \<Longrightarrow> foodOffSnake s \<Longrightarrow> foodOffSnake s'"
  by (auto simp: changeDirection_def foodOffSnake_def split: if_splits list.splits)

lemma getAllValidPositions_cong:
  "snake g = snake g' \<Longrightarrow> gridSize g = gridSize g' \<Longrightarrow> getAllValidPositions g = getAllValidPositions g'"
  by (simp add: getAllValidPositions_def)

subsection \<open>Player profiler\<close>

lemma calculateStressLevel_bounds:
  assumes "0 \<le> errorFrequency p"
  shows "0 \<le> calculateStressLevel p" and "calculateStressLevel p \<le> 1"
proof -
  show "calculateStressLevel p \<le> 1"
    unfolding calculateStressLevel_def Let_def case_prod_unfold by simp
  have "0 \<le> errorFrequency p * 0.5" using assms by simp
  then show "0 \<le> calculateStressLevel p"
    unfolding calculateStressLevel_def Let_def case_prod_unfold
    by (auto intro!: divide_nonneg_nonneg add_nonneg_nonneg)
qed

lemma calculateStressLevel_empty_history:
  assumes "reactionTimes p = []" and "inputLatencies (behaviorMetrics p) = []"
      and "errorFrequency p = 0" and "collisionNearMisses (behaviorMetrics p) = 0"
  shows "calculateStressLevel p = 0"
  using assms by (simp add: calculateStressLevel_def sliceLast_def)

lemma analyzeDecisionRisk_frame:
  assumes "analyzeDecisionRisk playerInput gs now p = Inr p' \<or> analyzeDecisionRisk playerInput gs now p = Inl (e, p')"
  shows "errorFrequency p' = errorFrequency p \<and> reactionTimes p' = reactionTimes p
       \<and> behaviorMetrics p' = behaviorMetrics p \<and> collisionHistory p' = collisionHistory p"
  using assms
  by (auto simp: analyzeDecisionRisk_def updateRiskTolerance_def Let_def split: sum.splits)

lemma recordInput_invariant:
  assumes "recordInput playerInput gs now p = Inr p' \<or> recordInput playerInput gs now p = Inl (e, p')"
      and "profilerInvariant p"
  shows "profilerInvariant p'"
proof -
  define rt where "rt = reactionTimes p @ [inputLatency playerInput]"
  define rt' where "rt' = (if length rt > REACTION_TIME_WINDOW then tl rt else rt)"
  define mh where "mh = movementHistory p @ [inputDirection playerInput]"
  define mp where "mp = movementPatterns (behaviorMetrics p) @ [inputDirection playerInput]"
  define p1 where "p1 = p\<lparr>reactionTimes := rt',
       movementHistory := (if length mh > MAX_HISTORY_SIZE then tl mh else mh),
       behaviorMetrics := (behaviorMetrics p)\<lparr>inputLatencies := rt',
          movementPatterns := (if length mh > MAX_HISTORY_SIZE then tl mp else mp)\<rparr>\<rparr>"
  have il: "inputLatencies (behaviorMetrics p) = reactionTimes p"
    using assms(2) by (simp add: profilerInvariant_def)
  have eq: "recordInput playerInput gs now p =
          (case analyzeDecisionRisk playerInput gs now p1 of
             Inl e \<Rightarrow> Inl e
           | Inr p2 \<Rightarrow> Inr (updateSkillProgression gs p2))"
    by (simp add: recordInput_def Let_def p1_def rt'_def rt_def mh_def mp_def il)
  have inv1: "profilerInvariant p1"
    using assms(2) by (simp add: profilerInvariant_def p1_def)
  from assms(1) eq obtain p2 where
    p2: "analyzeDecisionRisk playerInput gs now p1 = Inr p2 \<or> analyzeDecisionRisk playerInput gs now p1 = Inl (e, p2)"
    and p': "p' = p2 \<or> p' = updateSkillProgression gs p2"
    by (auto split: sum.splits)
  from analyzeDecisionRisk_frame [OF p2] inv1 have "profilerInvariant p2"
    by (simp add: profilerInvariant_def)
  with p' show ?thesis
    by (auto simp: profilerInvariant_def updateSkillProgression_def Let_def)
qed

lemma recordCollision_invariant:
  assumes "profilerInvariant p"
  shows "profilerInvariant (recordCollision ctype cpos now currentTime p)"
  using assms
  by (simp add: profilerInvariant_def recordCollision_def calculateErrorFrequency_def Let_def)

lemma recordFoodCollection_invariant:
  assumes "recordFoodCollection gs timeTaken now p = Inr p'" and "profilerInvariant p"
  shows "profilerInvariant p'"
  using assms
  by (auto simp: profilerInvariant_def recordFoodCollection_def Let_def split: sum.splits)

lemma profilerReachable_invariant:
  "profilerReachable p \<Longrightarrow> profilerInvariant p"
proof (induction rule: profilerReachable.induct)
  case (constructed now)
  show ?case by (simp add: profilerInvariant_def newPlayerProfiler_def)
next
  case (input p playerInput gs now p')
  then show ?case using recordInput_invariant by blast
next
  case (input_thrown p playerInput gs now e p')
  then show ?case using recordInput_invariant by blast
next
  case (collision p ctype cpos now currentTime)
  then show ?case by (blast intro: recordCollision_invariant)
next
  case (food_collection p gs timeTaken now p')
  then show ?case using recordFoodCollection_invariant by blast
next
  case (metrics_read p now)
  then show ?case by (simp add: profilerInvariant_def getBehaviorMetrics_def Let_def)
next
  case (reset p now)
  show ?case by (simp add: profilerInvariant_def resetProfiler_def newPlayerProfiler_def)
qed

text \<open>
  C7. In every profiler state reachable through the public methods, \<open>calculateStressLevel\<close>
  lies in [0, 1]; and when no input and no collision is recorded (empty history) it is
  exactly 0.
\<close>

theorem C7_stress_level_bounds:
  assumes "profilerReachable p"
  shows "0 \<le> calculateStressLevel p \<and> calculateStressLevel p \<le> 1
       \<and> (if reactionTimes p = [] \<and> collisionHistory p = [] then calculateStressLevel p = 0 else True)"
proof -
  from profilerReachable_invariant [OF assms] have inv: "profilerInvariant p" .
  then have e: "0 \<le> errorFrequency p" by (simp add: profilerInvariant_def)
  have "calculateStressLevel p = 0" if "reactionTimes p = []" "collisionHistory p = []"
    using inv that by (intro calculateStressLevel_empty_history) (simp_all add: profilerInvariant_def)
  with calculateStressLevel_bounds [OF e] show ?thesis by simp
qed

theorem C7_stress_level_bounds_witness:
  "profilerReachable (newPlayerProfiler 1000)
   \<and> reactionTimes (newPlayerProfiler 1000) = [] \<and> collisionHistory (newPlayerProfiler 1000) = []
   \<and> calculateStressLevel (newPlayerProfiler 1000) = 0
   \<and> profilerReachable (recordCollision ''wall'' \<lparr> px = 20, py = 10 \<rparr> 2000 2000 (newPlayerProfiler 1000))
   \<and> 0 \<le> calculateStressLevel (recordCollision ''wall'' \<lparr> px = 20, py = 10 \<rparr> 2000 2000 (newPlayerProfiler 1000))
   \<and> calculateStressLevel (recordCollision ''wall'' \<lparr> px = 20, py = 10 \<rparr> 2000 2000 (newPlayerProfiler 1000)) \<le> 1"
proof -
  have a: "profilerReachable (newPlayerProfiler 1000)" by (rule profilerReachable.constructed)
  have b: "profilerReachable (recordCollision ''wall'' \<lparr> px = 20, py = 10 \<rparr> 2000 2000 (newPlayerProfiler 1000))"
    by (rule profilerReachable.collision [OF a])
  have c: "reactionTimes (newPlayerProfiler 1000) = []" "collisionHistory (newPlayerProfiler 1000) = []"
    by (simp_all add: newPlayerProfiler_def)
  from C7_stress_level_bounds [OF a] C7_stress_level_bounds [OF b] a b c
  show ?thesis by simp
qed

text \<open>
  C9. The property is that \<open>skillProgression\<close> lies in [0, 1] after every sequence of
  \<open>recordInput\<close> calls. The code does not keep it: the blend clamps the game-time factor to 1
  but neither the score factor nor the length factor, and one \<open>recordInput\<close> on a fresh
  profiler, against a state whose score is 4000, stores 107/80 = 1.3375.
\<close>

theorem C9_skillProgression_exceeds_one:
  "map_sum fst skillProgression
     (recordInput exampleInput ((exampleState PLAYING 1)\<lparr>score := 4000\<rparr>) 1100 (newPlayerProfiler 1000))
   = Inr (107 / 80)"
  by code_simp

subsection \<open>Director: the recovery-mode gate\<close>

lemma categorizeDecision_recovery:
  "categorizeDecision ''Recovery mode activated'' = RECOVERY_TRIGGER"
  "categorizeDecision ''Recovery mode deactivated'' = RECOVERY_TRIGGER"
  by code_simp+

lemma logDecision_appendDecision:
  "logDecision decision reason now profiler d =
     d\<lparr>decisionHistory := appendDecision
          \<lparr> decisionTimestamp = now, decisionType = categorizeDecision decision, reasoning = reason,
            playerMetrics = \<lparr> reactionTime = averageReactionTime profiler,
                              stressLevel = calculateStressLevel profiler,
                              skillLevel = skillProgression profiler \<rparr>,
            gameContext = \<lparr> contextScore = 0, contextSnakeLength = 0, contextGameTime = 0 \<rparr> \<rparr>
          (decisionHistory d)\<rparr>"
  by (simp add: logDecision_def appendDecision_def Let_def MAX_DECISION_HISTORY_def)

lemma evaluateRecoveryMode_flag:
  "recoveryModeActive (evaluateRecoveryMode toFixed2 a now profiler d) = shouldRecover a d"
  by (auto simp: evaluateRecoveryMode_def shouldRecover_def logDecision_appendDecision Let_def)

lemma evaluateRecoveryMode_frame:
  "configuration (evaluateRecoveryMode toFixed2 a now profiler d) = configuration d"
  "consecutivePoorPerformance (evaluateRecoveryMode toFixed2 a now profiler d) = consecutivePoorPerformance d"
  by (auto simp: evaluateRecoveryMode_def logDecision_appendDecision Let_def)

lemma evaluateRecoveryMode_log:
  "decisionHistory (evaluateRecoveryMode toFixed2 a now profiler d) =
     (if shouldRecover a d = recoveryModeActive d then decisionHistory d
      else appendDecision
             (expectedRecoveryDecision (shouldRecover a d) (toFixed2 (risk a))
                (toFixed2 (profileStressLevel a)) now profiler)
             (decisionHistory d))"
  unfolding evaluateRecoveryMode_def shouldRecover_def Let_def logDecision_appendDecision
    categorizeDecision_recovery expectedRecoveryDecision_def
  by auto

lemma evaluateSpeedAdjustment_effect:
  "recoveryModeActive (evaluateSpeedAdjustment toFixed2 gs a now profiler d) = recoveryModeActive d
   \<and> (\<exists>later. length later \<le> 1
        \<and> decisionHistory (evaluateSpeedAdjustment toFixed2 gs a now profiler d)
            = fold appendDecision later (decisionHistory d))"
proof -
  have "evaluateSpeedAdjustment toFixed2 gs a now profiler d = d
        \<or> (\<exists>v x. evaluateSpeedAdjustment toFixed2 gs a now profiler d
                   = d\<lparr>lastSpeedAdjustment := v, decisionHistory := appendDecision x (decisionHistory d)\<rparr>)"
    unfolding evaluateSpeedAdjustment_def Let_def case_prod_unfold logDecision_appendDecision
    by (simp split: if_splits) blast
  then show ?thesis
  proof (elim disjE exE)
    assume e: "evaluateSpeedAdjustment toFixed2 gs a now profiler d = d"
    have "length ([] :: AIDecision list) \<le> 1 \<and> decisionHistory d = fold appendDecision [] (decisionHistory d)"
      by simp
    then show ?thesis unfolding e by blast
  next
    fix v x
    assume e: "evaluateSpeedAdjustment toFixed2 gs a now profiler d
                   = d\<lparr>lastSpeedAdjustment := v, decisionHistory := appendDecision x (decisionHistory d)\<rparr>"
    have "length [x] \<le> 1 \<and> appendDecision x (decisionHistory d) = fold appendDecision [x] (decisionHistory d)"
      by simp
    then show ?thesis unfolding e by (auto intro!: exI [of _ "[x]"])
  qed
qed

lemma updateDifficultyLevel_effect:
  "recoveryModeActive (updateDifficultyLevel toFixed2 a now profiler d) = recoveryModeActive d
   \<and> (\<exists>later. length later \<le> 1
        \<and> decisionHistory (updateDifficultyLevel toFixed2 a now profiler d)
            = fold appendDecision later (decisionHistory d))"
proof -
  have "updateDifficultyLevel toFixed2 a now profiler d = d
        \<or> (\<exists>v x. updateDifficultyLevel toFixed2 a now profiler d
                   = d\<lparr>currentDifficultyLevel := v, decisionHistory := appendDecision x (decisionHistory d)\<rparr>)"
    unfolding updateDifficultyLevel_def Let_def logDecision_appendDecision
    by (simp split: if_splits) blast
  then show ?thesis
  proof (elim disjE exE)
    assume e: "updateDifficultyLevel toFixed2 a now profiler d = d"
    have "length ([] :: AIDecision list) \<le> 1 \<and> decisionHistory d = fold appendDecision [] (decisionHistory d)"
      by simp
    then show ?thesis unfolding e by blast
  next
    fix v x
    assume e: "updateDifficultyLevel toFixed2 a now profiler d
                   = d\<lparr>currentDifficultyLevel := v, decisionHistory := appendDecision x (decisionHistory d)\<rparr>"
    have "length [x] \<le> 1 \<and> appendDecision x (decisionHistory d) = fold appendDecision [x] (decisionHistory d)"
      by simp
    then show ?thesis unfolding e by (auto intro!: exI [of _ "[x]"])
  qed
qed

lemma updatePerformanceStreaks_frame:
  "recoveryModeActive (updatePerformanceStreaks a d) = recoveryModeActive d"
  "decisionHistory (updatePerformanceStreaks a d) = decisionHistory d"
  by (simp_all add: updatePerformanceStreaks_def Let_def)

lemma makeAdaptationDecisions_gate:
  "recoveryModeActive (makeAdaptationDecisions toFixed2 gs a now profiler d) = shouldRecover a d
   \<and> (\<exists>later. length later \<le> 2
        \<and> decisionHistory (makeAdaptationDecisions toFixed2 gs a now profiler d)
            = fold appendDecision later
                (decisionHistory (evaluateRecoveryMode toFixed2 a now profiler d)))"
proof -
  define d1 where "d1 = evaluateRecoveryMode toFixed2 a now profiler d"
  define d2 where "d2 = evaluateSpeedAdjustment toFixed2 gs a now profiler d1"
  define d3 where "d3 = updateDifficultyLevel toFixed2 a now profiler d2"
  have m: "makeAdaptationDecisions toFixed2 gs a now profiler d = updatePerformanceStreaks a d3"
    by (simp add: makeAdaptationDecisions_def Let_def d1_def d2_def d3_def)
  from evaluateSpeedAdjustment_effect [of toFixed2 gs a now profiler d1]
  obtain l1 where l1: "recoveryModeActive d2 = recoveryModeActive d1" "length l1 \<le> 1"
      "decisionHistory d2 = fold appendDecision l1 (decisionHistory d1)"
    unfolding d2_def by blast
  from updateDifficultyLevel_effect [of toFixed2 a now profiler d2]
  obtain l2 where l2: "recoveryModeActive d3 = recoveryModeActive d2" "length l2 \<le> 1"
      "decisionHistory d3 = fold appendDecision l2 (decisionHistory d2)"
    unfolding d3_def by blast
  have "decisionHistory d3 = fold appendDecision (l1 @ l2) (decisionHistory d1)"
    using l1(3) l2(3) by simp
  moreover have "length (l1 @ l2) \<le> 2" using l1(2) l2(2) by simp
  moreover have "recoveryModeActive d3 = shouldRecover a d"
    using l1(1) l2(1) evaluateRecoveryMode_flag [of toFixed2 a now profiler d] by (simp add: d1_def)
  ultimately show ?thesis
    unfolding m updatePerformanceStreaks_frame d1_def [symmetric] by blast
qed

lemma calculateStressLevel_getBehaviorMetrics:
  "calculateStressLevel (snd (getBehaviorMetrics now p)) = calculateStressLevel p"
  by (simp add: calculateStressLevel_def getBehaviorMetrics_def averageReactionTime_def Let_def)

lemma performBehaviorAnalysis_result:
  assumes "performBehaviorAnalysis gs now p d = Inr (a, p')"
  shows "assessRiskLevel gs p' = Inr (risk a)" and "profileStressLevel a = calculateStressLevel p'"
  using assms calculateStressLevel_getBehaviorMetrics [of now p]
  by (auto simp: performBehaviorAnalysis_def Let_def split: sum.splits)

text \<open>
  C8. On a director analysis pass (a call of \<open>analyzePlayerBehavior\<close> that is due and returns),
  recovery mode is active afterwards exactly when the risk exceeds the recovery threshold
  (0.6 by default), or the stress level exceeds 0.7, or the poor-performance streak at the
  start of the pass is at least 3; it is inactive when none of the three holds. When the
  mode changes, the pass appends to the log a recovery decision with the reason, followed
  by at most two further decisions of the same pass (speed and difficulty); when it does
  not change, the log receives only those.
\<close>

theorem C8_recovery_mode_gate:
  assumes due: "\<not> now - lastAnalysisTime d < ANALYSIS_INTERVAL"
      and run: "analyzePlayerBehavior toFixed2 gs playerInput now (p, d) = Inr (p', d')"
  shows "recoveryThreshold defaultConfiguration = 0.6
       \<and> (\<exists>r. assessRiskLevel gs p' = Inr r
              \<and> recoveryModeActive d'
                  = (r > recoveryThreshold (configuration d) \<or> calculateStressLevel p' > 0.7
                     \<or> consecutivePoorPerformance d \<ge> 3)
              \<and> (\<exists>later. length later \<le> 2
                     \<and> decisionHistory d'
                         = fold appendDecision later
                             (if recoveryModeActive d' = recoveryModeActive d then decisionHistory d
                              else appendDecision
                                     (expectedRecoveryDecision (recoveryModeActive d') (toFixed2 r)
                                        (toFixed2 (calculateStressLevel p')) now p')
                                     (decisionHistory d))))"
proof -
  from run due obtain p1 a where
      an: "performBehaviorAnalysis gs now p1 d = Inr (a, p')"
      and d': "d' = (makeAdaptationDecisions toFixed2 gs a now p' d)\<lparr>lastAnalysisTime := now\<rparr>"
    by (auto simp: analyzePlayerBehavior_def Let_def split: sum.splits prod.splits)
  note res = performBehaviorAnalysis_result [OF an]
  from makeAdaptationDecisions_gate [of toFixed2 gs a now p' d]
  obtain later where flag: "recoveryModeActive d' = shouldRecover a d"
      and later: "length later \<le> 2"
      and hist: "decisionHistory d' = fold appendDecision later
                (decisionHistory (evaluateRecoveryMode toFixed2 a now p' d))"
    unfolding d' by auto
  have gate: "recoveryModeActive d'
                  = (risk a > recoveryThreshold (configuration d) \<or> calculateStressLevel p' > 0.7
                     \<or> consecutivePoorPerformance d \<ge> 3)"
    using flag res(2) by (simp add: shouldRecover_def)
  have log: "decisionHistory d' = fold appendDecision later
                             (if recoveryModeActive d' = recoveryModeActive d then decisionHistory d
                              else appendDecision
                                     (expectedRecoveryDecision (recoveryModeActive d') (toFixed2 (risk a))
                                        (toFixed2 (calculateStressLevel p')) now p')
                                     (decisionHistory d))"
    unfolding hist evaluateRecoveryMode_log flag res(2) ..
  have "recoveryThreshold defaultConfiguration = 0.6" by (simp add: defaultConfiguration_def)
  with res(1) gate later log show ?thesis by blast
qed

theorem C8_recovery_mode_gate_witness:
  "\<not> 5000 - lastAnalysisTime strugglingDirector < ANALYSIS_INTERVAL
   \<and> analyzePlayerBehavior showNumber (exampleState PLAYING 1) exampleInput 5000
         (newPlayerProfiler 1000, strugglingDirector) = Inr (fst examplePass, snd examplePass)
   \<and> \<not> recoveryModeActive strugglingDirector
   \<and> recoveryModeActive (snd examplePass)
   \<and> (\<exists>later. length later \<le> 2
          \<and> decisionHistory (snd examplePass)
              = fold appendDecision later
                  (appendDecision
                     (expectedRecoveryDecision True ''#'' ''#'' 5000 (fst examplePass))
                     (decisionHistory strugglingDirector)))"
proof -
  have a: "\<not> 5000 - lastAnalysisTime strugglingDirector < ANALYSIS_INTERVAL"
    by (simp add: strugglingDirector_def newAIGameDirector_def ANALYSIS_INTERVAL_def)
  have b: "analyzePlayerBehavior showNumber (exampleState PLAYING 1) exampleInput 5000
         (newPlayerProfiler 1000, strugglingDirector) = Inr (fst examplePass, snd examplePass)"
    by code_simp
  have c: "\<not> recoveryModeActive strugglingDirector"
    by (simp add: strugglingDirector_def newAIGameDirector_def)
  have d: "consecutivePoorPerformance strugglingDirector \<ge> 3"
    by (simp add: strugglingDirector_def)
  from C8_recovery_mode_gate [OF a b] a b c d
  show ?thesis by (auto simp: showNumber_def)
qed

subsection \<open>Snapshots of the game state\<close>

lemma readSegments_cong:
  "segmentObjects st' = segmentObjects st \<Longrightarrow> positionObjects st' = positionObjects st
   \<Longrightarrow> readSegments st' refs = readSegments st refs"
  by (induction refs) (simp_all add: readSegment_def cong: option.case_cong)

lemma readGameState_cong:
  assumes "gameStateObjects st' a = gameStateObjects st a"
      and "arrayObjects st' = arrayObjects st" and "segmentObjects st' = segmentObjects st"
      and "positionObjects st' = positionObjects st" and "gridSizeObjects st' = gridSizeObjects st"
  shows "readGameState a st' = readGameState a st"
  using assms readSegments_cong [OF assms(3,4)]
  by (simp add: readGameState_def cong: option.case_cong)

text \<open>
  What the spread in \<open>getGameState\<close> does give: the returned value is a new object that
  reads as the manager's state; creating it does not change the manager's state, and no
  assignment to the returned object's own fields changes the manager's state.
\<close>

lemma getGameState_top_level_copy:
  assumes "getGameState manager st = Some (snapshot, st1)" and "manager < nextFree st"
  shows "readGameState snapshot st1 = readGameState manager st
       \<and> readGameState manager st1 = readGameState manager st
       \<and> readGameState manager (snapshotAssign snapshot obj st1) = readGameState manager st"
proof -
  from assms(1) obtain mo where mo: "gameStateObjects st manager = Some mo"
      and snap: "snapshot = nextFree st"
      and st1: "st1 = st\<lparr>gameStateObjects := (gameStateObjects st)(nextFree st \<mapsto> mo),
                         nextFree := nextFree st + 1\<rparr>"
    by (auto simp: getGameState_def split: option.splits)
  have ne: "manager \<noteq> snapshot" using assms(2) snap by simp
  have "readGameState snapshot st1 = readGameState manager st"
    using mo readSegments_cong [of st1 st]
    by (simp add: readGameState_def st1 snap cong: option.case_cong)
  moreover have "readGameState manager st1 = readGameState manager st"
    by (rule readGameState_cong) (use ne in \<open>simp_all add: st1 snap\<close>)
  moreover have "readGameState manager (snapshotAssign snapshot obj st1) = readGameState manager st"
    by (rule readGameState_cong) (use ne in \<open>simp_all add: st1 snap snapshotAssign_def\<close>)
  ultimately show ?thesis by blast
qed

lemma example_snapshot:
  "getGameState managerAddr managerStore = Some (snapshotAddr, snapshotStore)"
proof -
  have "gameStateObjects managerStore managerAddr \<noteq> None"
    by (simp add: managerStore_def managerAddr_def storeGameState_def exampleState_def
        exampleSnake_def allocSegment_def allocPosition_def allocArray_def allocGridSize_def
        emptyStore_def Let_def split_beta)
  then show ?thesis
    by (auto simp: snapshotAddr_def snapshotStore_def getGameState_def split: option.splits)
qed

text \<open>
  C10. \<open>getGameState\<close> is documented as returning a read-only copy of the state, and the
  claim is that no mutation of the returned value changes the state that the manager holds.
  The code returns \<open>{ ...this.gameState }\<close>: a new top-level object that holds the
  manager's own snake array, segment objects and position objects. On the manager holding
  the example state, with \<open>snapshot = getGameState()\<close>: after \<open>snapshot.snake.pop()\<close> the
  manager's snake has lost its tail segment, and after \<open>snapshot.snake[0].position.x = 99\<close>
  the manager's head is at x = 99.
\<close>

theorem C10_snapshot_aliases_manager:
  "getGameState managerAddr managerStore = Some (snapshotAddr, snapshotStore)
   \<and> readGameState managerAddr managerStore = Some (exampleState PLAYING 1)
   \<and> readGameState managerAddr snapshotStore = Some (exampleState PLAYING 1)
   \<and> readGameState managerAddr (snapshotSnakePop snapshotAddr snapshotStore)
       = Some ((exampleState PLAYING 1)\<lparr>snake := butlast exampleSnake\<rparr>)
   \<and> readGameState managerAddr (snapshotSetSegmentX snapshotAddr 0 99 snapshotStore)
       = Some ((exampleState PLAYING 1)\<lparr>snake :=
            (hd exampleSnake)\<lparr>position := \<lparr> px = 99, py = 10 \<rparr>\<rparr> # tl exampleSnake\<rparr>)
   \<and> butlast exampleSnake \<noteq> exampleSnake
   \<and> position (hd exampleSnake) \<noteq> \<lparr> px = 99, py = 10 \<rparr>"
proof -
  have "readGameState managerAddr managerStore = Some (exampleState PLAYING 1)
   \<and> readGameState managerAddr snapshotStore = Some (exampleState PLAYING 1)
   \<and> readGameState managerAddr (snapshotSnakePop snapshotAddr snapshotStore)
       = Some ((exampleState PLAYING 1)\<lparr>snake := butlast exampleSnake\<rparr>)
   \<and> readGameState managerAddr (snapshotSetSegmentX snapshotAddr 0 99 snapshotStore)
       = Some ((exampleState PLAYING 1)\<lparr>snake :=
            (hd exampleSnake)\<lparr>position := \<lparr> px = 99, py = 10 \<rparr>\<rparr> # tl exampleSnake\<rparr>)
   \<and> butlast exampleSnake \<noteq> exampleSnake
   \<and> position (hd exampleSnake) \<noteq> \<lparr> px = 99, py = 10 \<rparr>"
    by code_simp
  with example_snapshot show ?thesis by simp
qed

subsection \<open>Director: food placement\<close>

text \<open>The director's callback, and its fallback alone, answer with a valid food position
  whenever the state has a free cell, whatever the random draws.\<close>

lemma validateFoodPosition_iff:
  "validateFoodPosition p gs \<longleftrightarrow> isValidFoodPosition p gs"
  by (auto simp: validateFoodPosition_def isValidFoodPosition_def isPositionValid_def
      wouldCollideWithSnake_def)

lemma getFallbackFoodPosition_valid:
  assumes "getAllValidPositions gs \<noteq> []"
  shows "isValidFoodPosition (getFallbackFoodPosition gs) gs"
proof -
  let ?cells = "concat (map (\<lambda>cy. map (\<lambda>cx. \<lparr> px = cx, py = cy \<rparr>)
                                           [0 .. width (gridSize gs) - 1])
                                [0 .. height (gridSize gs) - 1])"
  from assms obtain c where "c \<in> set (getAllValidPositions gs)" by (cases "getAllValidPositions gs") auto
  then have c: "isPositionValid c (gridSize gs)" "\<not> wouldCollideWithSnake c (snake gs)"
    by (simp_all add: set_getAllValidPositions)
  have "c \<in> set ?cells"
    using c(1) by (auto simp: isPositionValid_def intro!: bexI [of _ "py c"] image_eqI [of _ _ "px c"])
  moreover have "validateFoodPosition c gs"
    using c by (simp add: validateFoodPosition_iff isValidFoodPosition_def)
  ultimately have ne: "filter (\<lambda>pos. validateFoodPosition pos gs) ?cells \<noteq> []"
    by (auto simp: filter_empty_conv)
  then obtain q others where q: "filter (\<lambda>pos. validateFoodPosition pos gs) ?cells = q # others"
    by (cases "filter (\<lambda>pos. validateFoodPosition pos gs) ?cells") auto
  then have "q \<in> set (filter (\<lambda>pos. validateFoodPosition pos gs) ?cells)" by simp
  then have "validateFoodPosition q gs" by simp
  then show ?thesis
    using q by (auto simp: getFallbackFoodPosition_def Let_def validateFoodPosition_iff)
qed

lemma getFallbackFoodPosition_placesFoodOffSnake:
  "placesFoodOffSnake getFallbackFoodPosition"
  by (simp add: placesFoodOffSnake_def getFallbackFoodPosition_valid)

lemma calculateOptimalFoodPlacement_placesFoodOffSnake:
  "placesFoodOffSnake
     (\<lambda>g. fst (calculateOptimalFoodPlacement toFixed2 numberToString rnd1 rnd2 now profiler d g))"
proof -
  have "isValidFoodPosition
          (fst (calculateOptimalFoodPlacement toFixed2 numberToString rnd1 rnd2 now profiler d g)) g"
    if "getAllValidPositions g \<noteq> []" for g
    using getFallbackFoodPosition_valid [OF that]
    by (auto simp: calculateOptimalFoodPlacement_def Let_def validateFoodPosition_iff
             split: sum.splits option.splits prod.splits)
  then show ?thesis by (simp add: placesFoodOffSnake_def)
qed

subsection \<open>The store holds the state value\<close>

text \<open>Reading back the object graph built for a state value gives that value.\<close>

lemma storeAgrees_refl: "storeAgrees n st st"
  by (simp add: storeAgrees_def)

lemma storeAgrees_trans:
  "storeAgrees n st st' \<Longrightarrow> storeAgrees m st' st'' \<Longrightarrow> n \<le> m \<Longrightarrow> storeAgrees n st st''"
  by (auto simp: storeAgrees_def)

lemma allocSegment_effect:
  assumes "allocSegment seg st = (a, st1)"
  shows "nextFree st1 = nextFree st + 2" and "a < nextFree st1" and "storeAgrees (nextFree st) st st1"
    and "storeAgrees (nextFree st1) st1 st2 \<Longrightarrow> readSegment st2 a = Some seg"
proof -
  from assms have a: "a = nextFree st + 1"
    and st1: "st1 = st\<lparr>positionObjects := (positionObjects st)(nextFree st \<mapsto> position seg),
                       nextFree := nextFree st + 1,
                       segmentObjects := (segmentObjects st)(nextFree st + 1 \<mapsto>
                          \<lparr> segPosition = nextFree st, segDirection = direction seg, segAge = age seg \<rparr>),
                       nextFree := nextFree st + 1 + 1\<rparr>"
    by (auto simp: allocSegment_def allocPosition_def Let_def)
  show "nextFree st1 = nextFree st + 2" by (simp add: st1)
  show "a < nextFree st1" by (simp add: st1 a)
  show "storeAgrees (nextFree st) st st1" by (simp add: st1 storeAgrees_def)
  assume "storeAgrees (nextFree st1) st1 st2"
  then have "segmentObjects st2 a = segmentObjects st1 a"
            "positionObjects st2 (nextFree st) = positionObjects st1 (nextFree st)"
    by (simp_all add: storeAgrees_def st1 a)
  then show "readSegment st2 a = Some seg"
    by (simp add: readSegment_def st1 a)
qed

lemma allocSegments_effect:
  "allocSegments segs st = (refs, st1) \<Longrightarrow>
     nextFree st \<le> nextFree st1 \<and> storeAgrees (nextFree st) st st1
     \<and> (\<forall>st2. storeAgrees (nextFree st1) st1 st2 \<longrightarrow> readSegments st2 refs = Some segs)"
proof (induction segs arbitrary: st refs st1)
  case Nil
  then show ?case by (simp add: storeAgrees_refl)
next
  case (Cons seg segs)
  obtain a sta where a: "allocSegment seg st = (a, sta)" by (cases "allocSegment seg st")
  obtain as stb where as: "allocSegments segs sta = (as, stb)" by (cases "allocSegments segs sta")
  from Cons.prems a as have refs: "refs = a # as" and st1: "st1 = stb" by simp_all
  note e = allocSegment_effect [OF a]
  from Cons.IH [OF as] have ih: "nextFree sta \<le> nextFree stb" "storeAgrees (nextFree sta) sta stb"
      "\<And>st2. storeAgrees (nextFree stb) stb st2 \<Longrightarrow> readSegments st2 as = Some segs"
    by blast+
  have "nextFree st \<le> nextFree st1" using e(1) ih(1) st1 by simp
  moreover have "storeAgrees (nextFree st) st st1"
    using storeAgrees_trans [OF e(3) ih(2)] e(1) st1 by simp
  moreover have "readSegments st2 refs = Some (seg # segs)" if "storeAgrees (nextFree st1) st1 st2" for st2
  proof -
    from that st1 have ag: "storeAgrees (nextFree stb) stb st2" by simp
    have "storeAgrees (nextFree sta) sta st2"
      by (rule storeAgrees_trans [OF ih(2) ag ih(1)])
    from e(4) [OF this] ih(3) [OF ag] show ?thesis by (simp add: refs)
  qed
  ultimately show ?case by blast
qed

lemma readGameState_storeGameState:
  "readGameState (fst (storeGameState gs st)) (snd (storeGameState gs st)) = Some gs"
proof -
  obtain refs st1 where s1: "allocSegments (snake gs) st = (refs, st1)"
    by (cases "allocSegments (snake gs) st")
  define st4 where "st4 = st1\<lparr>arrayObjects := (arrayObjects st1)(nextFree st1 \<mapsto> refs),
                              nextFree := nextFree st1 + 1,
                              positionObjects := (positionObjects st1)(nextFree st1 + 1 \<mapsto> food gs),
                              nextFree := nextFree st1 + 1 + 1,
                              gridSizeObjects := (gridSizeObjects st1)(nextFree st1 + 1 + 1 \<mapsto> gridSize gs),
                              nextFree := nextFree st1 + 1 + 1 + 1\<rparr>"
  define obj where "obj = \<lparr> snakeRef = nextFree st1, foodRef = nextFree st1 + 1, scoreField = score gs,
                    gameStatusField = gameStatus gs, speedField = speed gs,
                    gridSizeRef = nextFree st1 + 1 + 1, gameTimeField = gameTime gs \<rparr>"
  define st5 where "st5 = st4\<lparr>gameStateObjects := (gameStateObjects st4)(nextFree st4 \<mapsto> obj),
                              nextFree := nextFree st4 + 1\<rparr>"
  have sg: "storeGameState gs st = (nextFree st4, st5)"
    by (simp add: storeGameState_def s1 allocArray_def allocPosition_def allocGridSize_def
        Let_def st4_def st5_def obj_def)
  have "storeAgrees (nextFree st1) st1 st5"
    by (simp add: storeAgrees_def st5_def st4_def)
  with allocSegments_effect [OF s1] have rs: "readSegments st5 refs = Some (snake gs)" by blast
  have "readGameState (nextFree st4) st5 = Some gs"
    using rs by (simp add: readGameState_def st5_def st4_def obj_def)
  then show ?thesis by (simp add: sg)
qed

subsection \<open>Rounding to a double\<close>

lemma normalise_nonneg:
  "0 \<le> m \<Longrightarrow> normalise fuel m e = (m', e') \<Longrightarrow> 0 \<le> m'"
proof (induction fuel arbitrary: m e)
  case 0
  then show ?case by simp
next
  case (Suc fuel)
  show ?case
  proof (cases "2 ^ 53 \<le> m")
    case True
    with Suc.prems have "normalise fuel (m / 2) (e + 1) = (m', e')" by simp
    with Suc.IH [of "m / 2" "e + 1"] Suc.prems(1) show ?thesis by simp
  next
    case False
    show ?thesis
    proof (cases "m < 2 ^ 52")
      case True
      with False Suc.prems have "normalise fuel (m * 2) (e - 1) = (m', e')" by simp
      with Suc.IH [of "m * 2" "e - 1"] Suc.prems(1) show ?thesis by simp
    next
      case b: False
      with False Suc.prems show ?thesis by simp
    qed
  qed
qed

lemma normalise_small:
  "0 \<le> m \<Longrightarrow> m < 2 ^ 53 \<Longrightarrow> e \<le> 0 \<Longrightarrow> normalise fuel m e = (m', e')
   \<Longrightarrow> m' * 2 powi e' = m * 2 powi e \<and> e' \<le> 0"
proof (induction fuel arbitrary: m e)
  case 0
  then show ?case by simp
next
  case (Suc fuel)
  show ?case
  proof (cases "m < 2 ^ 52")
    case True
    with Suc.prems have rec: "normalise fuel (m * 2) (e - 1) = (m', e')" by simp
    have "m' * 2 powi e' = (m * 2) * 2 powi (e - 1) \<and> e' \<le> 0"
      by (rule Suc.IH [OF _ _ _ rec]) (use Suc.prems True in auto)
    moreover have "(2 :: real) powi (e - 1) = 2 powi e / 2"
      by (simp add: power_int_diff)
    ultimately show ?thesis by simp
  next
    case False
    with Suc.prems show ?thesis by simp
  qed
qed

lemma roundHalfEven_le_ceiling: "roundHalfEven m \<le> \<lceil>m\<rceil>"
proof -
  have "\<lfloor>m\<rfloor> + 1 \<le> \<lceil>m\<rceil>" if "m - of_int \<lfloor>m\<rfloor> \<ge> 1 / 2"
  proof -
    from that have "of_int \<lfloor>m\<rfloor> < m" by linarith
    then show ?thesis by linarith
  qed
  moreover have "\<lfloor>m\<rfloor> \<le> \<lceil>m\<rceil>" by linarith
  ultimately show ?thesis
    by (auto simp: roundHalfEven_def Let_def)
qed

lemma roundHalfEven_nonneg: "0 \<le> m \<Longrightarrow> 0 \<le> roundHalfEven m"
  by (auto simp: roundHalfEven_def Let_def)

text \<open>Rounding keeps the sign, and it does not step over a whole number: a result that is
  at most \<open>c\<close> in absolute value stays so.\<close>

lemma roundToDouble_nonneg: "0 \<le> x \<Longrightarrow> 0 \<le> roundToDouble x"
proof -
  assume x: "0 \<le> x"
  obtain m e where n: "normalise 2200 \<bar>x\<bar> 0 = (m, e)" by (cases "normalise 2200 \<bar>x\<bar> 0")
  have "0 \<le> m" by (rule normalise_nonneg [OF _ n]) simp
  then have "0 \<le> roundHalfEven m" by (rule roundHalfEven_nonneg)
  moreover have "(0 :: real) < 2 powi e" by simp
  ultimately show ?thesis using x n
    by (simp add: roundToDouble_def sgn_if)
qed

lemma roundToDouble_bound:
  fixes c :: int
  assumes "\<bar>x\<bar> \<le> of_int c" and "c \<le> 2 ^ 52"
  shows "\<bar>roundToDouble x\<bar> \<le> of_int c"
proof (cases "x = 0")
  case True
  with assms show ?thesis by (simp add: roundToDouble_def)
next
  case False
  obtain m e where n: "normalise 2200 \<bar>x\<bar> 0 = (m, e)" by (cases "normalise 2200 \<bar>x\<bar> 0")
  have "real_of_int c \<le> 2 ^ 52" using assms(2) by (metis of_int_le_iff of_int_numeral of_int_power)
  moreover have "(2 :: real) ^ 52 < 2 ^ 53" by simp
  ultimately have small: "\<bar>x\<bar> < 2 ^ 53" using assms(1) by linarith
  have inv: "m * 2 powi e = \<bar>x\<bar> * 2 powi 0 \<and> e \<le> 0"
    by (rule normalise_small [OF _ small _ n]) simp_all
  then have e: "e \<le> 0" and mx: "m * 2 powi e = \<bar>x\<bar>" by simp_all
  have m0: "0 \<le> m" by (rule normalise_nonneg [OF _ n]) simp
  define N where "N = c * 2 ^ nat (- e)"
  have pw: "(2 :: real) powi e * 2 ^ nat (- e) = 1"
    using e by (simp add: power_int_def field_simps flip: power_mult_distrib)
  have "m = m * (2 powi e * 2 ^ nat (- e))" by (simp add: pw)
  also have "\<dots> = \<bar>x\<bar> * 2 ^ nat (- e)" using mx by (simp add: mult.assoc [symmetric])
  also have "\<dots> \<le> of_int c * 2 ^ nat (- e)" using assms(1) by (simp add: mult_right_mono)
  also have "\<dots> = of_int N" by (simp add: N_def)
  finally have "m \<le> of_int N" .
  then have "\<lceil>m\<rceil> \<le> N" by (simp add: ceiling_le_iff)
  with roundHalfEven_le_ceiling [of m] have rn: "roundHalfEven m \<le> N" by linarith
  have r0: "0 \<le> roundHalfEven m" using m0 by (rule roundHalfEven_nonneg)
  have "\<bar>roundToDouble x\<bar> = of_int (roundHalfEven m) * 2 powi e"
    using False n r0 by (simp add: roundToDouble_def abs_mult sgn_if)
  also have "\<dots> \<le> of_int N * 2 powi e"
    using rn by (simp add: mult_right_mono)
  also have "\<dots> = of_int c * (2 powi e * 2 ^ nat (- e))" by (simp add: N_def)
  also have "\<dots> = of_int c" by (simp add: pw)
  finally show ?thesis .
qed

lemma speedBonus_nonneg:
  assumes "1 \<le> v"
  shows "0 \<le> \<lfloor>roundToDouble (roundToDouble (v - 1) * 5)\<rfloor>"
proof -
  have "0 \<le> roundToDouble (v - 1)" using assms by (intro roundToDouble_nonneg) simp
  then have "0 \<le> roundToDouble (roundToDouble (v - 1) * 5)" by (intro roundToDouble_nonneg) simp
  then show ?thesis by simp
qed

lemma speedBonus_lower:
  assumes "0.1 \<le> v"
  shows "- 5 \<le> \<lfloor>roundToDouble (roundToDouble (v - 1) * 5)\<rfloor>"
proof (cases "1 \<le> v")
  case True
  from speedBonus_nonneg [OF this] show ?thesis by linarith
next
  case False
  with assms have "\<bar>v - 1\<bar> \<le> of_int 1" by simp
  then have "\<bar>roundToDouble (v - 1)\<bar> \<le> of_int 1" by (rule roundToDouble_bound) simp
  then have "\<bar>roundToDouble (v - 1) * 5\<bar> \<le> of_int 5" by (simp add: abs_mult)
  then have "\<bar>roundToDouble (roundToDouble (v - 1) * 5)\<bar> \<le> of_int 5"
    by (rule roundToDouble_bound) simp
  then have "(- 5 :: real) \<le> roundToDouble (roundToDouble (v - 1) * 5)" by simp
  then show ?thesis by (simp add: le_floor_iff)
qed

subsection \<open>A move that eats\<close>

lemma direction_updateAges [simp]: "map direction (updateAges sn) = map direction sn"
proof -
  have "map direction (updateAges sn) = map (direction \<circ> snd) (enumerate 0 sn)"
    by (simp add: updateAges_def case_prod_unfold comp_def)
  also have "\<dots> = map direction (map snd (enumerate 0 sn))"
    by (simp only: map_map)
  also have "\<dots> = map direction sn"
    by (simp only: map_snd_enumerate)
  finally show ?thesis .
qed

lemma moveSnake_eats:
  assumes playing: "gameStatus gs = PLAYING"
      and sn: "snake gs = h # rest"
      and hit: "getNextPosition (position h) (direction h) = food gs"
      and free: "isPositionValid c (gridSize gs)" "\<not> wouldCollideWithSnake c (snake gs)" "c \<noteq> food gs"
      and cb: "case onFoodConsumed of None \<Rightarrow> True | Some callback \<Rightarrow> leavesState callback"
  shows "\<exists>p. moveSnake onFoodConsumed rnd gs =
           Inr (gs\<lparr>snake := updateAges (\<lparr> position = food gs, direction = direction h, age = 0 \<rparr> # snake gs),
                   score := score gs + calculateScoreIncrease
                              (gs\<lparr>snake := \<lparr> position = food gs, direction = direction h, age = 0 \<rparr> # snake gs\<rparr>),
                   food := p\<rparr>)"
proof -
  define newHead where "newHead = \<lparr> position = food gs, direction = direction h, age = 0 \<rparr>"
  define gs1 where "gs1 = gs\<lparr>snake := newHead # snake gs\<rparr>"
  define gs' where "gs' = gs1\<lparr>score := score gs1 + calculateScoreIncrease gs1\<rparr>"
  have "c \<in> set (getAllValidPositions gs1)"
    using free by (auto simp: set_getAllValidPositions gs1_def newHead_def wouldCollideWithSnake_def)
  then have ne: "length (getAllValidPositions gs1) \<noteq> 0" by auto
  obtain np where gen: "generateOptimalFoodPosition gs1 None rnd = Inr np"
    using ne by (auto simp: generateOptimalFoodPosition_def Let_def)
  have chk: "checkFoodConsumption gs1 rnd
             = Inr \<lparr> consumed = True, scoreIncrease = calculateScoreIncrease gs1, newFoodPosition = np \<rparr>"
    using gen by (simp add: checkFoodConsumption_def gs1_def newHead_def)
  have mv: "moveSnake onFoodConsumed rnd gs =
              (case onFoodConsumed of
                 Some callback \<Rightarrow>
                   (case callback gs' of
                      Inl thrown \<Rightarrow> Inl thrown
                    | Inr (p, g) \<Rightarrow> Inr (g\<lparr>food := p, snake := updateAges (snake g)\<rparr>))
               | None \<Rightarrow>
                   (case np of
                      Some p \<Rightarrow> Inr (gs'\<lparr>food := p, snake := updateAges (snake gs')\<rparr>)
                    | None \<Rightarrow> Inr (gs'\<lparr>snake := updateAges (snake gs')\<rparr>)))"
  proof -
    have "moveSnake onFoodConsumed rnd gs =
            (case checkFoodConsumption gs1 rnd of
               Inl e \<Rightarrow> Inl (e, gs1)
             | Inr consumptionResult \<Rightarrow>
                 if consumed consumptionResult then
                   let gs' = gs1\<lparr>score := score gs1 + scoreIncrease consumptionResult\<rparr>
                   in case onFoodConsumed of
                        Some callback \<Rightarrow>
                          (case callback gs' of
                             Inl thrown \<Rightarrow> Inl thrown
                           | Inr (p, g) \<Rightarrow> Inr (g\<lparr>food := p, snake := updateAges (snake g)\<rparr>))
                      | None \<Rightarrow>
                          (case newFoodPosition consumptionResult of
                             Some p \<Rightarrow> Inr (gs'\<lparr>food := p, snake := updateAges (snake gs')\<rparr>)
                           | None \<Rightarrow> Inr (gs'\<lparr>snake := updateAges (snake gs')\<rparr>))
                 else Inr (gs1\<lparr>snake := updateAges (butlast (snake gs1))\<rparr>))"
      unfolding moveSnake_def gs1_def newHead_def Let_def
      by (simp only: playing sn hit list.case simp_thms if_False)
    then show ?thesis
      by (simp add: chk gs'_def Let_def cong: option.case_cong)
  qed
  have res: "gs'\<lparr>food := p, snake := updateAges (snake gs')\<rparr>
             = gs\<lparr>snake := updateAges (newHead # snake gs),
                   score := score gs + calculateScoreIncrease gs1, food := p\<rparr>" for p
    by (simp add: gs'_def gs1_def)
  have res0: "gs'\<lparr>snake := updateAges (snake gs')\<rparr>
             = gs\<lparr>snake := updateAges (newHead # snake gs),
                   score := score gs + calculateScoreIncrease gs1, food := food gs\<rparr>"
    by (simp add: gs'_def gs1_def)
  show ?thesis
  proof (cases onFoodConsumed)
    case None
    show ?thesis
    proof (cases np)
      case np: None
      show ?thesis
        unfolding mv newHead_def [symmetric] gs1_def [symmetric]
        using None np by (auto simp: res0 intro!: exI [of _ "food gs"])
    next
      case (Some p)
      with None show ?thesis
        unfolding mv newHead_def [symmetric] gs1_def [symmetric]
        by (auto simp: res)
    qed
  next
    case (Some callback)
    with cb have "leavesState callback" by simp
    moreover have "snake gs' \<noteq> []" by (simp add: gs'_def gs1_def)
    ultimately obtain p where "callback gs' = Inr (p, gs')" by (auto simp: leavesState_def)
    with Some show ?thesis
      unfolding mv newHead_def [symmetric] gs1_def [symmetric]
      by (auto simp: res)
  qed
qed

lemma moveSnake_board_full:
  assumes playing: "gameStatus gs = PLAYING"
      and sn: "snake gs = h # rest"
      and hit: "getNextPosition (position h) (direction h) = food gs"
      and full: "\<And>c. isPositionValid c (gridSize gs) \<Longrightarrow> c = food gs \<or> wouldCollideWithSnake c (snake gs)"
  shows "moveSnake onFoodConsumed rnd gs =
           Inl (NoValidPosition,
                gs\<lparr>snake := \<lparr> position = food gs, direction = direction h, age = 0 \<rparr> # snake gs\<rparr>)"
proof -
  define newHead where "newHead = \<lparr> position = food gs, direction = direction h, age = 0 \<rparr>"
  define gs1 where "gs1 = gs\<lparr>snake := newHead # snake gs\<rparr>"
  have "set (getAllValidPositions gs1) = {}"
    using full by (auto simp: set_getAllValidPositions gs1_def newHead_def wouldCollideWithSnake_def)
  then have "getAllValidPositions gs1 = []" by simp
  then have "generateOptimalFoodPosition gs1 None rnd = Inl NoValidPosition"
    by (rule generateOptimalFoodPosition_empty)
  then have "checkFoodConsumption gs1 rnd = Inl NoValidPosition"
    by (simp add: checkFoodConsumption_def gs1_def newHead_def)
  moreover have "moveSnake onFoodConsumed rnd gs =
            (case checkFoodConsumption gs1 rnd of
               Inl e \<Rightarrow> Inl (e, gs1)
             | Inr consumptionResult \<Rightarrow>
                 if consumed consumptionResult then
                   let gs' = gs1\<lparr>score := score gs1 + scoreIncrease consumptionResult\<rparr>
                   in case onFoodConsumed of
                        Some callback \<Rightarrow>
                          (case callback gs' of
                             Inl thrown \<Rightarrow> Inl thrown
                           | Inr (p, g) \<Rightarrow> Inr (g\<lparr>food := p, snake := updateAges (snake g)\<rparr>))
                      | None \<Rightarrow>
                          (case newFoodPosition consumptionResult of
                             Some p \<Rightarrow> Inr (gs'\<lparr>food := p, snake := updateAges (snake gs')\<rparr>)
                           | None \<Rightarrow> Inr (gs'\<lparr>snake := updateAges (snake gs')\<rparr>))
                 else Inr (gs1\<lparr>snake := updateAges (butlast (snake gs1))\<rparr>))"
    unfolding moveSnake_def gs1_def newHead_def Let_def
    by (simp only: playing sn hit list.case simp_thms if_False)
  ultimately show ?thesis
    by (simp add: gs1_def newHead_def)
qed

subsection \<open>Growth and score\<close>

text \<open>
  C1 (as amended). In a PLAYING state whose head, advanced one cell in its direction, lands on
  the food, and in which some grid cell other than the food cell is free of the snake, one
  \<open>moveSnake\<close> call, with no callback or with a callback that returns a position and leaves
  the state as it was given, returns normally and increases the snake length by exactly 1.
  The score increases by at least 10 when the speed is at least 1, and by at least 5 for
  every speed from 0.1 upwards. For a speed from 0.1 to 5 the increase is exactly
  10 + 5 * (new length div 10) + floor ((speed - 1) * 5), the difference and the product
  each rounded to a double.
\<close>

theorem C1_growth_and_score:
  assumes playing: "gameStatus gs = PLAYING"
      and sn: "snake gs = h # rest"
      and hit: "getNextPosition (position h) (direction h) = food gs"
      and free: "isPositionValid c (gridSize gs)" "\<not> wouldCollideWithSnake c (snake gs)" "c \<noteq> food gs"
      and cb: "case onFoodConsumed of None \<Rightarrow> True | Some callback \<Rightarrow> leavesState callback"
  shows "\<exists>gs'. moveSnake onFoodConsumed rnd gs = Inr gs'
            \<and> length (snake gs') = length (snake gs) + 1
            \<and> (1 \<le> speed gs \<longrightarrow> score gs' \<ge> score gs + 10)
            \<and> (0.1 \<le> speed gs \<longrightarrow> score gs' \<ge> score gs + 5)
            \<and> (0.1 \<le> speed gs \<and> speed gs \<le> 5 \<longrightarrow>
                 score gs' = score gs + (10 + (int (length (snake gs) + 1) div 10) * 5
                               + \<lfloor>roundToDouble (roundToDouble (speed gs - 1) * 5)\<rfloor>))"
proof -
  define gs1 where "gs1 = gs\<lparr>snake := \<lparr> position = food gs, direction = direction h, age = 0 \<rparr> # snake gs\<rparr>"
  from moveSnake_eats [OF playing sn hit free cb, of rnd]
  obtain p where mv: "moveSnake onFoodConsumed rnd gs =
           Inr (gs\<lparr>snake := updateAges (\<lparr> position = food gs, direction = direction h, age = 0 \<rparr> # snake gs),
                   score := score gs + calculateScoreIncrease gs1, food := p\<rparr>)"
    unfolding gs1_def by blast
  have inc: "calculateScoreIncrease gs1 = 10 + (int (length (snake gs) + 1) div 10) * 5
                + \<lfloor>roundToDouble (roundToDouble (speed gs - 1) * 5)\<rfloor>"
    by (simp add: calculateScoreIncrease_def gs1_def)
  have lb: "0 \<le> (int (length (snake gs) + 1) div 10) * 5" by simp
  define gs' where "gs' = gs\<lparr>snake := updateAges (\<lparr> position = food gs, direction = direction h, age = 0 \<rparr> # snake gs),
                   score := score gs + calculateScoreIncrease gs1, food := p\<rparr>"
  have len: "length (snake gs') = length (snake gs) + 1" by (simp add: gs'_def)
  have sc: "score gs' = score gs + calculateScoreIncrease gs1" by (simp add: gs'_def)
  show ?thesis
  proof (intro exI [of _ gs'] conjI impI)
    show "moveSnake onFoodConsumed rnd gs = Inr gs'" unfolding gs'_def by (fact mv)
    show "length (snake gs') = length (snake gs) + 1" by (fact len)
    show "score gs + 10 \<le> score gs'" if "1 \<le> speed gs"
      using sc inc lb speedBonus_nonneg [OF that] by linarith
    show "score gs + 5 \<le> score gs'" if "0.1 \<le> speed gs"
      using sc inc lb speedBonus_lower [OF that] by linarith
    show "score gs' = score gs + (10 + (int (length (snake gs) + 1) div 10) * 5
                               + \<lfloor>roundToDouble (roundToDouble (speed gs - 1) * 5)\<rfloor>)"
      using sc inc by linarith
  qed
qed

lemma foodPlacementCallback_answer:
  assumes "snake g \<noteq> []"
  shows "\<exists>p. foodPlacementCallback toFixed2 numberToString rnd1 rnd2 timeTaken now1 now2 profiler d g
               = Inr (p, g)
            \<and> (getAllValidPositions g \<noteq> [] \<longrightarrow> isValidFoodPosition p g)"
proof -
  have nt: "recordFoodCollection g timeTaken now1 profiler \<noteq> Inl (TypeError, q)" for q
    using assms
    by (cases "snake g")
       (auto simp: recordFoodCollection_def calculateFoodCollectionEfficiency_def Let_def
             split: if_splits sum.splits)
  have ok: "getAllValidPositions g \<noteq> [] \<longrightarrow>
        isValidFoodPosition
          (fst (calculateOptimalFoodPlacement toFixed2 numberToString rnd1 rnd2 now2 q d g)) g" for q
    using calculateOptimalFoodPlacement_placesFoodOffSnake [of toFixed2 numberToString rnd1 rnd2 now2 q d]
    by (simp add: placesFoodOffSnake_def)
  show ?thesis
  proof (cases "recordFoodCollection g timeTaken now1 profiler")
    case (Inl a)
    obtain e q where a: "a = (e, q)" by (cases a)
    with Inl nt [of q] have "e \<noteq> TypeError" by auto
    with Inl a ok [of q] show ?thesis
      by (cases e) (simp_all add: foodPlacementCallback_def)
  next
    case (Inr q)
    with ok [of q] show ?thesis by (simp add: foodPlacementCallback_def)
  qed
qed

lemma foodPlacementCallback_leavesState:
  "leavesState (foodPlacementCallback toFixed2 numberToString rnd1 rnd2 timeTaken now1 now2 profiler d)"
  unfolding leavesState_def
  using foodPlacementCallback_answer by blast

theorem C1_growth_and_score_witness:
  "gameStatus (exampleState PLAYING (5404319552844595 / 2 ^ 53)) = PLAYING
   \<and> snake (exampleState PLAYING (5404319552844595 / 2 ^ 53)) = hd exampleSnake # tl exampleSnake
   \<and> getNextPosition (position (hd exampleSnake)) (direction (hd exampleSnake))
        = food (exampleState PLAYING (5404319552844595 / 2 ^ 53))
   \<and> isPositionValid \<lparr> px = 0, py = 0 \<rparr> (gridSize (exampleState PLAYING (5404319552844595 / 2 ^ 53)))
   \<and> \<not> wouldCollideWithSnake \<lparr> px = 0, py = 0 \<rparr> (snake (exampleState PLAYING (5404319552844595 / 2 ^ 53)))
   \<and> \<lparr> px = 0, py = 0 \<rparr> \<noteq> food (exampleState PLAYING (5404319552844595 / 2 ^ 53))
   \<and> leavesState (foodPlacementCallback showNumber (\<lambda>n. ''#'') 0 0 16 16 16
                     (newPlayerProfiler 0) (newAIGameDirector defaultConfiguration))
   \<and> (0.1 :: real) \<le> 5404319552844595 / 2 ^ 53 \<and> (5404319552844595 / 2 ^ 53 :: real) \<le> 5
   \<and> (\<exists>gs'. moveSnake None 0 (exampleState PLAYING (5404319552844595 / 2 ^ 53)) = Inr gs'
            \<and> length (snake gs') = 4 \<and> score gs' = 8)
   \<and> (\<exists>gs'. moveSnake (Some (foodPlacementCallback showNumber (\<lambda>n. ''#'') 0 0 16 16 16
                     (newPlayerProfiler 0) (newAIGameDirector defaultConfiguration))) 0
                 (exampleState PLAYING (5404319552844595 / 2 ^ 53)) = Inr gs'
            \<and> length (snake gs') = 4 \<and> score gs' = 8)
   \<and> (\<exists>gs'. moveSnake None 0 (exampleState PLAYING 1) = Inr gs'
            \<and> length (snake gs') = 4 \<and> score gs' = 10)"
proof -
  let ?v = "5404319552844595 / 2 ^ 53 :: real"
  let ?cb = "foodPlacementCallback showNumber (\<lambda>n. ''#'') 0 0 16 16 16
                     (newPlayerProfiler 0) (newAIGameDirector defaultConfiguration)"
  have a: "gameStatus (exampleState PLAYING v) = PLAYING" for v by (simp add: exampleState_def)
  have b: "snake (exampleState PLAYING v) = hd exampleSnake # tl exampleSnake" for v
    by (simp add: exampleState_def exampleSnake_def)
  have c: "getNextPosition (position (hd exampleSnake)) (direction (hd exampleSnake)) = food (exampleState PLAYING v)" for v
    by (simp add: exampleState_def exampleSnake_def getNextPosition_def)
  have d: "isPositionValid \<lparr> px = 0, py = 0 \<rparr> (gridSize (exampleState PLAYING v))" for v
    by (simp add: exampleState_def isPositionValid_def)
  have e: "\<not> wouldCollideWithSnake \<lparr> px = 0, py = 0 \<rparr> (snake (exampleState PLAYING v))" for v
    by (simp add: exampleState_def exampleSnake_def wouldCollideWithSnake_def)
  have f: "\<lparr> px = 0, py = 0 \<rparr> \<noteq> food (exampleState PLAYING v)" for v
    by (simp add: exampleState_def)
  have g: "length (snake (exampleState PLAYING v)) = 3" "score (exampleState PLAYING v) = 0"
          "speed (exampleState PLAYING v) = v" for v
    by (simp_all add: exampleState_def exampleSnake_def)
  have n: "case None :: FoodCallback option of None \<Rightarrow> True | Some callback \<Rightarrow> leavesState callback"
    by simp
  have l: "leavesState ?cb" by (rule foodPlacementCallback_leavesState)
  then have s: "case Some ?cb of None \<Rightarrow> True | Some callback \<Rightarrow> leavesState callback"
    by simp
  have r: "(0.1 :: real) \<le> ?v" "?v \<le> 5" by simp_all
  have fl: "\<lfloor>roundToDouble (roundToDouble (?v - 1) * 5)\<rfloor> = - 2" by code_simp
  have one: "\<lfloor>roundToDouble (roundToDouble (1 - 1) * 5)\<rfloor> = 0" by (simp add: roundToDouble_def)
  from C1_growth_and_score [OF a [of ?v] b [of ?v] c [of ?v] d [of ?v] e [of ?v] f [of ?v] n, where rnd = 0]
       C1_growth_and_score [OF a [of ?v] b [of ?v] c [of ?v] d [of ?v] e [of ?v] f [of ?v] s, where rnd = 0]
       C1_growth_and_score [OF a [of 1] b [of 1] c [of 1] d [of 1] e [of 1] f [of 1] n, where rnd = 0]
       a [of ?v] b [of ?v] c [of ?v] d [of ?v] e [of ?v] f [of ?v] l r
  show ?thesis unfolding g fl one by auto
qed

text \<open>
  The claim C1 as first stated (a score increase of at least 10 at every speed in [0.1, 5.0])
  fails: the state below is reached by construction, \<open>startGame\<close> and \<open>setSpeed 0.5\<close>; its
  head lands on the food, and the move adds 7 to the score.
\<close>

theorem C1_counterexample:
  "createInitialState [(0.56, 0.52)] = Some (exampleState INIT 1)
   \<and> startGame (exampleState INIT 1) = (True, exampleState PLAYING 1)
   \<and> setSpeed 0.5 (exampleState PLAYING 1) = exampleState PLAYING 0.5
   \<and> getNextPosition (position (hd (snake (exampleState PLAYING 0.5))))
        (direction (hd (snake (exampleState PLAYING 0.5)))) = food (exampleState PLAYING 0.5)
   \<and> moveSnake None 0 (exampleState PLAYING 0.5) = Inr (exampleAfterMove 7 0.5 \<lparr> px = 0, py = 0 \<rparr>)
   \<and> score (exampleAfterMove 7 0.5 \<lparr> px = 0, py = 0 \<rparr>) < score (exampleState PLAYING 0.5) + 10"
  by code_simp

subsection \<open>The food stays off the snake\<close>

lemma moveSnake_foodOffSnake:
  assumes mv: "moveSnake cb rnd s = Inr s'" and inv: "foodOffSnake s"
      and src: "(cb = None \<and> 0 \<le> rnd \<and> rnd < 1)
              \<or> (\<exists>f. cb = Some f \<and> (\<forall>g. snake g \<noteq> [] \<longrightarrow>
                     (\<exists>p. f g = Inr (p, g) \<and> (getAllValidPositions g \<noteq> [] \<longrightarrow> isValidFoodPosition p g))))"
  shows "foodOffSnake s'"
proof (cases "gameStatus s = PLAYING")
  case False
  with mv inv show ?thesis by (simp add: moveSnake_def)
next
  case True
  with mv obtain h rest where sn: "snake s = h # rest"
    by (cases "snake s") (auto simp: moveSnake_def)
  define newHead where "newHead = \<lparr> position = getNextPosition (position h) (direction h),
                               direction = direction h, age = 0 \<rparr>"
  define gs1 where "gs1 = s\<lparr>snake := newHead # snake s\<rparr>"
  define F :: "FoodConsumptionResult \<Rightarrow> error \<times> GameState + GameState" where "F = (\<lambda>consumptionResult.
                 if consumed consumptionResult then
                   let gs' = gs1\<lparr>score := score gs1 + scoreIncrease consumptionResult\<rparr>
                   in case cb of
                        Some callback \<Rightarrow>
                          (case callback gs' of
                             Inl thrown \<Rightarrow> Inl thrown
                           | Inr (p, g) \<Rightarrow> Inr (g\<lparr>food := p, snake := updateAges (snake g)\<rparr>))
                      | None \<Rightarrow>
                          (case newFoodPosition consumptionResult of
                             Some p \<Rightarrow> Inr (gs'\<lparr>food := p, snake := updateAges (snake gs')\<rparr>)
                           | None \<Rightarrow> Inr (gs'\<lparr>snake := updateAges (snake gs')\<rparr>))
                 else Inr (gs1\<lparr>snake := updateAges (butlast (snake gs1))\<rparr>))"
  have eq: "moveSnake cb rnd s =
              (case checkFoodConsumption gs1 rnd of
                 Inl e \<Rightarrow> Inl (e, gs1)
               | Inr consumptionResult \<Rightarrow> F consumptionResult)"
    unfolding moveSnake_def F_def gs1_def newHead_def Let_def
    by (simp only: True sn list.case simp_thms if_False)
  with mv obtain res where chk: "checkFoodConsumption gs1 rnd = Inr res" and s': "F res = Inr s'"
    by (auto split: sum.splits)
  have sn1: "snake gs1 = newHead # h # rest" "food gs1 = food s"
    by (simp_all add: gs1_def sn)
  show ?thesis
  proof (cases "consumed res")
    case False
    with chk sn1 have nh: "position newHead \<noteq> food s"
      by (auto simp: checkFoodConsumption_def Let_def Position_eq_iff split: if_splits sum.splits)
    have sub: "set (butlast (snake gs1)) \<subseteq> set (snake gs1)"
      by (auto dest: in_set_butlastD)
    have "food s \<notin> position ` set (snake gs1)"
      using inv sn sn1 nh by (auto simp: foodOffSnake_def)
    with sub have "food s \<notin> position ` set (butlast (snake gs1))" by blast
    moreover have "food s' = food s" "map position (snake s') = map position (butlast (snake gs1))"
      using False s' sn1(2) by (auto simp: F_def)
    ultimately show ?thesis by (simp add: foodOffSnake_def)
  next
    case True
    with chk sn1 obtain np where gen: "generateOptimalFoodPosition gs1 None rnd = Inr np"
        and np: "newFoodPosition res = np"
      by (auto simp: checkFoodConsumption_def Let_def split: if_splits sum.splits)
    then have ne: "getAllValidPositions gs1 \<noteq> []"
      by (auto simp: generateOptimalFoodPosition_def Let_def split: if_splits)
    define g' where "g' = gs1\<lparr>score := score gs1 + scoreIncrease res\<rparr>"
    from src show ?thesis
    proof (elim disjE conjE exE)
      assume cb: "cb = None" and r: "0 \<le> rnd" "rnd < 1"
      from generateOptimalFoodPosition_returns [OF ne _ r, of None] gen
      obtain p where p: "p \<in> set (getAllValidPositions gs1)" "np = Some p" by auto
      then have "p \<notin> set (map position (snake gs1))"
        by (simp add: set_getAllValidPositions wouldCollideWithSnake_iff)
      moreover have "s' = g'\<lparr>food := p, snake := updateAges (snake g')\<rparr>"
        using True s' cb np p(2) by (simp add: F_def Let_def g'_def)
      ultimately show ?thesis
        by (simp add: foodOffSnake_def g'_def)
    next
      fix f assume cb: "cb = Some f"
        and ok: "\<forall>g. snake g \<noteq> [] \<longrightarrow>
                     (\<exists>p. f g = Inr (p, g) \<and> (getAllValidPositions g \<noteq> [] \<longrightarrow> isValidFoodPosition p g))"
      have "getAllValidPositions g' = getAllValidPositions gs1"
        by (rule getAllValidPositions_cong) (simp_all add: g'_def)
      moreover have "snake g' \<noteq> []" by (simp add: g'_def sn1)
      ultimately obtain p where p: "f g' = Inr (p, g')" "isValidFoodPosition p g'"
        using ne ok by metis
      then have "p \<notin> set (map position (snake gs1))"
        by (auto simp: isValidFoodPosition_def wouldCollideWithSnake_iff g'_def split: if_splits)
      moreover have "s' = g'\<lparr>food := p, snake := updateAges (snake g')\<rparr>"
        using True s' cb p(1) by (simp add: F_def Let_def g'_def)
      ultimately show ?thesis
        by (simp add: foodOffSnake_def g'_def)
    qed
  qed
qed

lemma reachable_foodOffSnake:
  "reachable thrown s \<Longrightarrow> \<not> thrown \<Longrightarrow> foodOffSnake s"
proof (induction rule: reachable.induct)
  case (initial draws s thrown)
  then show ?case by (blast intro: createInitialState_foodOffSnake)
next
  case (transition thrown s op draws b s')
  then show ?case by (blast intro: runTransition_foodOffSnake)
next
  case (move_default thrown s rnd s')
  then show ?case by (blast intro: moveSnake_foodOffSnake)
next
  case (move_callback thrown s toFixed2 numberToString rnd1 rnd2 timeTaken now1 now2 profiler d rnd s')
  have "\<forall>g. snake g \<noteq> [] \<longrightarrow>
          (\<exists>p. foodPlacementCallback toFixed2 numberToString rnd1 rnd2 timeTaken now1 now2 profiler d g
                  = Inr (p, g)
              \<and> (getAllValidPositions g \<noteq> [] \<longrightarrow> isValidFoodPosition p g))"
    using foodPlacementCallback_answer by blast
  with move_callback show ?case by (blast intro: moveSnake_foodOffSnake)
next
  case (spawn thrown s p b s')
  then show ?case by (blast intro: spawnFoodAt_foodOffSnake)
next
  case (set_speed thrown s v)
  then show ?case by (simp add: foodOffSnake_def setSpeed_def)
next
  case (change_direction thrown s d b s')
  then show ?case by (blast intro: changeDirection_foodOffSnake)
next
  case (game_time thrown s deltaTime)
  then show ?case by (simp add: foodOffSnake_def updateGameTime_def)
qed simp_all

text \<open>
  C2 (as amended). In every state reached from the initial state by the status transitions,
  \<open>moveSnake\<close> with no callback (random draw in [0, 1)) or with the callback that
  \<open>GameController\<close> installs, \<open>spawnFoodAt\<close>, \<open>setSpeed\<close>, \<open>changeDirection\<close> and
  \<open>updateGameTime\<close>, as long as every call has returned normally, the food position is the
  position of no snake segment.
\<close>

theorem C2_food_never_on_snake:
  "reachable False s \<Longrightarrow> food s \<notin> set (map position (snake s))"
  using reachable_foodOffSnake [of False s] by (simp add: foodOffSnake_def)

theorem C2_food_never_on_snake_witness:
  "reachable False (exampleAfterMove 10 1 \<lparr> px = 0, py = 0 \<rparr>)
   \<and> moveSnake None 0 (exampleState PLAYING 1) = Inr (exampleAfterMove 10 1 \<lparr> px = 0, py = 0 \<rparr>)
   \<and> food (exampleAfterMove 10 1 \<lparr> px = 0, py = 0 \<rparr>)
       \<notin> set (map position (snake (exampleAfterMove 10 1 \<lparr> px = 0, py = 0 \<rparr>)))
   \<and> (\<exists>s'. moveSnake (Some (foodPlacementCallback showNumber (\<lambda>n. ''#'') 0 0 16 16 16
                     (newPlayerProfiler 0) (newAIGameDirector defaultConfiguration))) 0
                 (exampleState PLAYING 1) = Inr s'
          \<and> reachable False s' \<and> food s' \<notin> set (map position (snake s')))"
proof -
  let ?cb = "foodPlacementCallback showNumber (\<lambda>n. ''#'') 0 0 16 16 16
                     (newPlayerProfiler 0) (newAIGameDirector defaultConfiguration)"
  have r0: "reachable False (exampleState INIT 1)"
    by (rule reachable.initial [of "[(0.56, 0.52)]"]) code_simp
  have r1: "reachable False (exampleState PLAYING 1)"
    by (rule reachable.transition [OF r0, of StartGame "[]" True]) code_simp
  have m1: "moveSnake None 0 (exampleState PLAYING 1) = Inr (exampleAfterMove 10 1 \<lparr> px = 0, py = 0 \<rparr>)"
    by code_simp
  have r2: "reachable False (exampleAfterMove 10 1 \<lparr> px = 0, py = 0 \<rparr>)"
    by (rule reachable.move_default [OF r1 _ _ m1]) simp_all
  have "\<exists>p. moveSnake (Some ?cb) 0 (exampleState PLAYING 1) =
           Inr ((exampleState PLAYING 1)\<lparr>snake := updateAges (\<lparr> position = food (exampleState PLAYING 1),
                       direction = direction (hd exampleSnake), age = 0 \<rparr> # snake (exampleState PLAYING 1)),
                   score := score (exampleState PLAYING 1) + calculateScoreIncrease
                              ((exampleState PLAYING 1)\<lparr>snake := \<lparr> position = food (exampleState PLAYING 1),
                                  direction = direction (hd exampleSnake), age = 0 \<rparr> # snake (exampleState PLAYING 1)\<rparr>),
                   food := p\<rparr>)"
  proof (rule moveSnake_eats [where c = "\<lparr> px = 0, py = 0 \<rparr>" and rest = "tl exampleSnake"])
    show "case Some ?cb of None \<Rightarrow> True | Some callback \<Rightarrow> leavesState callback"
      by (simp add: foodPlacementCallback_leavesState)
  qed (simp_all add: exampleState_def exampleSnake_def getNextPosition_def isPositionValid_def
         wouldCollideWithSnake_def)
  then obtain s' where m2: "moveSnake (Some ?cb) 0 (exampleState PLAYING 1) = Inr s'" by blast
  have r3: "reachable False s'" by (rule reachable.move_callback [OF r1 m2])
  from C2_food_never_on_snake [OF r2] C2_food_never_on_snake [OF r3] r2 r3 m1 m2
  show ?thesis by blast
qed

subsection \<open>The board is full\<close>

text \<open>The manager's board has 400 cells, so a snake of fewer segments leaves one free.\<close>

lemma board_cells:
  "{c. isPositionValid c \<lparr> width = GRID_WIDTH, height = GRID_HEIGHT \<rparr>}
     = (\<lambda>(cx, cy). \<lparr> px = cx, py = cy \<rparr>) ` ({0 .. 19} \<times> {0 .. 19})"
proof -
  have "c \<in> (\<lambda>(cx, cy). \<lparr> px = cx, py = cy \<rparr>) ` ({0 .. 19} \<times> {0 .. 19})"
    if "0 \<le> px c" "px c < 20" "0 \<le> py c" "py c < 20" for c :: Position
  proof -
    have "c = (\<lambda>(cx, cy). \<lparr> px = cx, py = cy \<rparr>) (px c, py c)" by simp
    moreover have "(px c, py c) \<in> {0 .. 19} \<times> {0 .. 19}" using that by simp
    ultimately show ?thesis by (rule image_eqI)
  qed
  then show ?thesis
    by (auto simp: isPositionValid_def GRID_WIDTH_def GRID_HEIGHT_def)
qed

lemma card_board_cells:
  "finite {c. isPositionValid c \<lparr> width = GRID_WIDTH, height = GRID_HEIGHT \<rparr>}"
  "card {c. isPositionValid c \<lparr> width = GRID_WIDTH, height = GRID_HEIGHT \<rparr>} = 400"
proof -
  have inj: "inj_on (\<lambda>(cx, cy). \<lparr> px = cx, py = cy \<rparr>) ({0 .. 19 :: int} \<times> {0 .. 19 :: int})"
    by (auto simp: inj_on_def)
  show "finite {c. isPositionValid c \<lparr> width = GRID_WIDTH, height = GRID_HEIGHT \<rparr>}"
    unfolding board_cells by simp
  show "card {c. isPositionValid c \<lparr> width = GRID_WIDTH, height = GRID_HEIGHT \<rparr>} = 400"
    unfolding board_cells by (simp add: card_image [OF inj])
qed

lemma free_cell_exists:
  assumes "int (length cells) + 1 < GRID_WIDTH * GRID_HEIGHT"
  shows "\<exists>c'. isPositionValid c' \<lparr> width = GRID_WIDTH, height = GRID_HEIGHT \<rparr>
              \<and> c' \<notin> set cells \<and> c' \<noteq> c"
proof (rule ccontr)
  assume "\<not> ?thesis"
  then have "{c. isPositionValid c \<lparr> width = GRID_WIDTH, height = GRID_HEIGHT \<rparr>} \<subseteq> set (c # cells)"
    by auto
  then have "card {c. isPositionValid c \<lparr> width = GRID_WIDTH, height = GRID_HEIGHT \<rparr>}
               \<le> card (set (c # cells))"
    by (intro card_mono) simp_all
  also have "\<dots> \<le> length (c # cells)" by (rule card_length)
  finally have "400 \<le> length cells + 1" by (simp add: card_board_cells)
  with assms show False by (simp add: GRID_WIDTH_def GRID_HEIGHT_def)
qed

text \<open>One step of the game that fills the board: turn the head, put the food on the cell
  ahead with \<open>spawnFoodAt\<close>, and move.\<close>

lemma grow_step:
  assumes cov: "snakeCovers (h # rest) heading s"
      and ok: "oppositeDirections heading \<noteq> d"
      and valid: "isPositionValid (getNextPosition h d) \<lparr> width = GRID_WIDTH, height = GRID_HEIGHT \<rparr>"
      and fresh: "getNextPosition h d \<notin> set (h # rest)"
      and room: "int (length (h # rest)) + 1 < GRID_WIDTH * GRID_HEIGHT"
  shows "\<exists>s'. snakeCovers (getNextPosition h d # h # rest) d s'"
proof -
  define c where "c = getNextPosition h d"
  from cov have r: "reachable False s" and playing: "gameStatus s = PLAYING"
      and grid: "gridSize s = \<lparr> width = GRID_WIDTH, height = GRID_HEIGHT \<rparr>"
      and cells: "map position (snake s) = h # rest"
      and dir: "map direction (take 1 (snake s)) = [heading]"
    by (simp_all add: snakeCovers_def)
  from cells obtain seg segs where sn: "snake s = seg # segs" and seg: "position seg = h"
      and segs: "map position segs = rest"
    by (cases "snake s") auto
  from dir sn have heading: "direction seg = heading" by simp
  define s1 where "s1 = s\<lparr>snake := seg\<lparr>direction := d\<rparr> # segs\<rparr>"
  have "changeDirection d s = Inr (True, s1)"
    using playing sn heading ok by (simp add: changeDirection_def s1_def)
  with r have r1: "reachable False s1" by (rule reachable.change_direction)
  have cells1: "map position (snake s1) = h # rest" by (simp add: s1_def seg segs)
  have nc: "\<not> wouldCollideWithSnake c (snake s1)"
    using fresh by (simp add: wouldCollideWithSnake_iff cells1 c_def)
  define s2 where "s2 = s1\<lparr>food := c\<rparr>"
  have "spawnFoodAt c s1 = (True, s2)"
    using nc valid
    by (simp add: spawnFoodAt_def wouldCollideWithSnake_def isPositionValid_def c_def s2_def Let_def)
  with r1 have r2: "reachable False s2" by (rule reachable.spawn)
  obtain c' where c': "isPositionValid c' \<lparr> width = GRID_WIDTH, height = GRID_HEIGHT \<rparr>"
      "c' \<notin> set (h # rest)" "c' \<noteq> c"
    using free_cell_exists [OF room] by blast
  have "\<exists>p. moveSnake None 0 s2 =
           Inr (s2\<lparr>snake := updateAges (\<lparr> position = food s2, direction = direction (seg\<lparr>direction := d\<rparr>), age = 0 \<rparr> # snake s2),
                   score := score s2 + calculateScoreIncrease
                              (s2\<lparr>snake := \<lparr> position = food s2, direction = direction (seg\<lparr>direction := d\<rparr>), age = 0 \<rparr> # snake s2\<rparr>),
                   food := p\<rparr>)"
  proof (rule moveSnake_eats [where c = c' and rest = segs])
    show "gameStatus s2 = PLAYING" by (simp add: s2_def s1_def playing)
    show "snake s2 = seg\<lparr>direction := d\<rparr> # segs" by (simp add: s2_def s1_def)
    show "getNextPosition (position (seg\<lparr>direction := d\<rparr>)) (direction (seg\<lparr>direction := d\<rparr>)) = food s2"
      by (simp add: s2_def seg c_def)
    show "isPositionValid c' (gridSize s2)" using c'(1) by (simp add: s2_def s1_def grid)
    show "\<not> wouldCollideWithSnake c' (snake s2)"
      using c'(2) cells1 by (simp add: wouldCollideWithSnake_iff s2_def)
    show "c' \<noteq> food s2" using c'(3) by (simp add: s2_def)
    show "case None of None \<Rightarrow> True | Some callback \<Rightarrow> leavesState callback" by simp
  qed
  then obtain s3 where mv: "moveSnake None 0 s2 = Inr s3"
      and st3: "gameStatus s3 = PLAYING" "gridSize s3 = \<lparr> width = GRID_WIDTH, height = GRID_HEIGHT \<rparr>"
      and sn3: "snake s3 = updateAges (\<lparr> position = c, direction = d, age = 0 \<rparr> # seg\<lparr>direction := d\<rparr> # segs)"
    by (auto simp: s2_def s1_def playing grid)
  have r3: "reachable False s3" by (rule reachable.move_default [OF r2 _ _ mv]) simp_all
  have "map position (snake s3) = c # h # rest"
    by (simp add: sn3 seg segs)
  moreover have "map direction (take 1 (snake s3)) = [d]"
    by (simp add: sn3 take_map [symmetric] del: take_map)
  ultimately show ?thesis using r3 st3 by (auto simp: snakeCovers_def c_def)
qed

lemma walk_reachable:
  "walk cells heading ds = Some (cells', heading') \<Longrightarrow> snakeCovers cells heading s
   \<Longrightarrow> \<exists>s'. snakeCovers cells' heading' s'"
proof (induction ds arbitrary: cells heading s)
  case Nil
  then show ?case by auto
next
  case (Cons d ds)
  from Cons.prems(1) obtain h rest where cells: "cells = h # rest"
    by (cases cells) simp_all
  from Cons.prems(1) cells have ok: "oppositeDirections heading \<noteq> d"
      and valid: "isPositionValid (getNextPosition h d) \<lparr> width = GRID_WIDTH, height = GRID_HEIGHT \<rparr>"
      and fresh: "getNextPosition h d \<notin> set (h # rest)"
      and room: "int (length (h # rest)) + 1 < GRID_WIDTH * GRID_HEIGHT"
      and rec: "walk (getNextPosition h d # h # rest) d ds = Some (cells', heading')"
    by (simp_all add: Let_def split: if_splits)
  from grow_step [OF _ ok valid fresh room] Cons.prems(2) cells
  obtain s1 where "snakeCovers (getNextPosition h d # h # rest) d s1" by blast
  from Cons.IH [OF rec this] show ?case .
qed

lemma walk_cells:
  "walk cells heading ds = Some (cells', heading') \<Longrightarrow> distinct cells
   \<Longrightarrow> set cells \<subseteq> {c. isPositionValid c \<lparr> width = GRID_WIDTH, height = GRID_HEIGHT \<rparr>}
   \<Longrightarrow> distinct cells'
       \<and> set cells' \<subseteq> {c. isPositionValid c \<lparr> width = GRID_WIDTH, height = GRID_HEIGHT \<rparr>}
       \<and> length cells' = length cells + length ds"
proof (induction ds arbitrary: cells heading)
  case Nil
  then show ?case by auto
next
  case (Cons d ds)
  from Cons.prems(1) obtain h rest where cells: "cells = h # rest"
    by (cases cells) simp_all
  from Cons.prems(1) cells
  have valid: "isPositionValid (getNextPosition h d) \<lparr> width = GRID_WIDTH, height = GRID_HEIGHT \<rparr>"
      and fresh: "getNextPosition h d \<notin> set (h # rest)"
      and rec: "walk (getNextPosition h d # h # rest) d ds = Some (cells', heading')"
    by (simp_all add: Let_def split: if_splits)
  have "distinct (getNextPosition h d # h # rest)" using fresh Cons.prems(2) cells by simp
  moreover have "set (getNextPosition h d # h # rest)
                   \<subseteq> {c. isPositionValid c \<lparr> width = GRID_WIDTH, height = GRID_HEIGHT \<rparr>}"
    using valid Cons.prems(3) cells by simp
  ultimately show ?case using Cons.IH [OF rec] cells by simp
qed

lemma reachable_thrown:
  "reachable thrown s \<Longrightarrow> reachable True s"
  by (induction rule: reachable.induct) (blast intro: reachable.intros)+

text \<open>The path can be played: every step but the last is a step of \<open>walk\<close>, and the last
  step leads from (19, 1) up into the one cell that is left.\<close>

lemma fullBoardPath_walk:
  "walk (map position initialSnake) RIGHT (butlast fullBoardPath) = Some (nearlyFullCells, UP)
   \<and> hd nearlyFullCells = \<lparr> px = 19, py = 1 \<rparr> \<and> nearlyFullCells \<noteq> []
   \<and> \<lparr> px = 19, py = 0 \<rparr> \<notin> set nearlyFullCells \<and> length nearlyFullCells = 399"
proof -
  have "case walk (map position initialSnake) RIGHT (butlast fullBoardPath) of
          Some (cells, heading) \<Rightarrow>
            heading = UP \<and> hd cells = \<lparr> px = 19, py = 1 \<rparr>
            \<and> \<lparr> px = 19, py = 0 \<rparr> \<notin> set cells \<and> length cells = 399
        | None \<Rightarrow> False"
    by code_simp
  then show ?thesis
    by (auto simp: nearlyFullCells_def split: option.splits)
qed

lemma board_full_throw:
  "\<exists>s s'. reachable False s \<and> moveSnake None 0 s = Inl (NoValidPosition, s')
         \<and> length (snake s') = 400 \<and> food s' = \<lparr> px = 19, py = 0 \<rparr>
         \<and> position (hd (snake s')) = \<lparr> px = 19, py = 0 \<rparr>"
proof -
  let ?grid = "\<lparr> width = GRID_WIDTH, height = GRID_HEIGHT \<rparr>"
  let ?c = "\<lparr> px = 19, py = 0 \<rparr>"
  note w = fullBoardPath_walk
  have r0: "reachable False (exampleState INIT 1)"
    by (rule reachable.initial [of "[(0.56, 0.52)]"]) code_simp
  have r1: "reachable False (exampleState PLAYING 1)"
    by (rule reachable.transition [OF r0, of StartGame "[]" True]) code_simp
  have init: "map position (snake (exampleState PLAYING 1)) = map position initialSnake"
    by code_simp
  have "snakeCovers (map position initialSnake) RIGHT (exampleState PLAYING 1)"
    using r1 init
    by (simp add: snakeCovers_def) (simp add: exampleState_def exampleSnake_def GRID_WIDTH_def GRID_HEIGHT_def)
  with walk_reachable w obtain s where cov: "snakeCovers nearlyFullCells UP s" by blast
  then have r: "reachable False s" and playing: "gameStatus s = PLAYING"
      and grid: "gridSize s = ?grid"
      and cells: "map position (snake s) = nearlyFullCells"
      and dir: "map direction (take 1 (snake s)) = [UP]"
    by (simp_all add: snakeCovers_def)
  from cells w obtain seg segs where sn: "snake s = seg # segs"
    by (cases "snake s") auto
  have "hd (map position (snake s)) = \<lparr> px = 19, py = 1 \<rparr>" using cells w by simp
  with sn dir have seg: "position seg = \<lparr> px = 19, py = 1 \<rparr>" "direction seg = UP"
    by simp_all
  have nc: "\<not> wouldCollideWithSnake ?c (snake s)"
    using w by (simp add: wouldCollideWithSnake_iff cells)
  define s2 where "s2 = s\<lparr>food := ?c\<rparr>"
  have "spawnFoodAt ?c s = (True, s2)"
    using nc
    by (simp add: spawnFoodAt_def wouldCollideWithSnake_def s2_def Let_def GRID_WIDTH_def GRID_HEIGHT_def)
  with r have r2: "reachable False s2" by (rule reachable.spawn)
  have "distinct (map position initialSnake)
        \<and> list_all (\<lambda>c. isPositionValid c ?grid) (map position initialSnake)"
    by code_simp
  then have "distinct (map position initialSnake)
        \<and> set (map position initialSnake) \<subseteq> {c. isPositionValid c ?grid}"
    by (auto simp: list_all_iff)
  with walk_cells [of "map position initialSnake" RIGHT "butlast fullBoardPath" nearlyFullCells UP] w
  have d: "distinct nearlyFullCells" and v: "set nearlyFullCells \<subseteq> {c. isPositionValid c ?grid}"
    by simp_all
  have "set (?c # nearlyFullCells) = {c. isPositionValid c ?grid}"
  proof (rule card_subset_eq)
    show "finite {c. isPositionValid c ?grid}" by (rule card_board_cells)
    show "set (?c # nearlyFullCells) \<subseteq> {c. isPositionValid c ?grid}"
      using v by (simp add: isPositionValid_def GRID_WIDTH_def GRID_HEIGHT_def)
    have "card (set (?c # nearlyFullCells)) = length (?c # nearlyFullCells)"
      using d w by (intro distinct_card) simp
    then show "card (set (?c # nearlyFullCells)) = card {c. isPositionValid c ?grid}"
      using w by (simp add: card_board_cells)
  qed
  then have full: "c = ?c \<or> wouldCollideWithSnake c (snake s)" if "isPositionValid c ?grid" for c
    using that by (auto simp: wouldCollideWithSnake_iff cells)
  have mv: "moveSnake None 0 s2 =
           Inl (NoValidPosition,
                s2\<lparr>snake := \<lparr> position = food s2, direction = direction seg, age = 0 \<rparr> # snake s2\<rparr>)"
  proof (rule moveSnake_board_full [where rest = segs])
    show "gameStatus s2 = PLAYING" by (simp add: s2_def playing)
    show "snake s2 = seg # segs" by (simp add: s2_def sn)
    show "getNextPosition (position seg) (direction seg) = food s2"
      by (simp add: s2_def seg getNextPosition_def)
    show "c = food s2 \<or> wouldCollideWithSnake c (snake s2)" if "isPositionValid c (gridSize s2)" for c
      using full [of c] that by (simp add: s2_def grid)
  qed
  define s3 where "s3 = s2\<lparr>snake := \<lparr> position = food s2, direction = direction seg, age = 0 \<rparr> # snake s2\<rparr>"
  have "length (map position (snake s)) = 399" using cells w by simp
  then have "length (snake s3) = 400" by (simp add: s3_def s2_def)
  moreover have "food s3 = ?c" "position (hd (snake s3)) = ?c" by (simp_all add: s3_def s2_def)
  moreover have "moveSnake None 0 s2 = Inl (NoValidPosition, s3)" using mv by (simp add: s3_def)
  ultimately show ?thesis using r2 by blast
qed

text \<open>
  The claim C2 as first stated fails: a game can fill the board. When the head moves onto the
  food in the last free cell, \<open>moveSnake\<close> puts the new head on the snake, finds no cell for
  the next food and throws, and the state that the manager then holds has the food under
  the head of the snake.
\<close>

theorem C2_counterexample:
  "\<not> (\<forall>s. reachable True s \<longrightarrow> food s \<notin> set (map position (snake s)))"
proof -
  from board_full_throw obtain s s' where r: "reachable False s"
      and mv: "moveSnake None 0 s = Inl (NoValidPosition, s')"
      and len: "length (snake s') = 400"
      and f: "food s' = position (hd (snake s'))"
    by auto
  from r have "reachable True s" by (rule reachable_thrown)
  then have "reachable True s'" by (rule reachable.move_default_thrown [OF _ _ _ mv]) simp_all
  moreover from len have "snake s' \<noteq> []" by auto
  then have "position (hd (snake s')) \<in> set (map position (snake s'))" by (cases "snake s'") auto
  ultimately show ?thesis using f by auto
qed

subsection \<open>When a move throws\<close>

text \<open>The snake of a reachable state has a head, and a move throws for one reason only:
  it has eaten the food, and the snake with its new head covers every cell of the grid.\<close>

lemma moveSnake_playing:
  assumes "gameStatus s = PLAYING" and "snake s = h # rest"
  shows "moveSnake cb rnd s =
     (let newHead = \<lparr> position = getNextPosition (position h) (direction h),
                               direction = direction h, age = 0 \<rparr>;
          gs1 = s\<lparr>snake := newHead # snake s\<rparr>
      in case checkFoodConsumption gs1 rnd of
           Inl e \<Rightarrow> Inl (e, gs1)
         | Inr consumptionResult \<Rightarrow>
             if consumed consumptionResult then
               let gs' = gs1\<lparr>score := score gs1 + scoreIncrease consumptionResult\<rparr>
               in case cb of
                    Some callback \<Rightarrow>
                      (case callback gs' of
                         Inl thrown \<Rightarrow> Inl thrown
                       | Inr (p, g) \<Rightarrow> Inr (g\<lparr>food := p, snake := updateAges (snake g)\<rparr>))
                  | None \<Rightarrow>
                      (case newFoodPosition consumptionResult of
                         Some p \<Rightarrow> Inr (gs'\<lparr>food := p, snake := updateAges (snake gs')\<rparr>)
                       | None \<Rightarrow> Inr (gs'\<lparr>snake := updateAges (snake gs')\<rparr>))
             else Inr (gs1\<lparr>snake := updateAges (butlast (snake gs1))\<rparr>))"
  unfolding moveSnake_def by (simp only: assms list.case simp_thms if_False)

lemma moveSnake_returns_snake:
  assumes mv: "moveSnake cb rnd s = Inr s'" and ne: "snake s \<noteq> []"
      and src: "cb = None \<or> (\<exists>f. cb = Some f \<and> leavesState f)"
  shows "snake s' \<noteq> []"
proof (cases "gameStatus s = PLAYING")
  case False
  with mv ne show ?thesis by (simp add: moveSnake_def)
next
  case True
  from ne obtain h rest where sn: "snake s = h # rest" by (cases "snake s") auto
  define newHead where "newHead = \<lparr> position = getNextPosition (position h) (direction h),
                               direction = direction h, age = 0 \<rparr>"
  define gs1 where "gs1 = s\<lparr>snake := newHead # snake s\<rparr>"
  note eq = moveSnake_playing [OF True sn, of cb rnd]
  from mv eq obtain res where chk: "checkFoodConsumption gs1 rnd = Inr res"
    by (auto simp: Let_def gs1_def newHead_def split: sum.splits)
  show ?thesis
  proof (cases "consumed res")
    case False
    with mv eq chk have "s' = gs1\<lparr>snake := updateAges (butlast (snake gs1))\<rparr>"
      by (simp add: Let_def gs1_def newHead_def)
    then have "length (snake s') = length (snake s)" by (simp add: sn gs1_def)
    with ne show ?thesis by auto
  next
    case consumed: True
    define g' where "g' = gs1\<lparr>score := score gs1 + scoreIncrease res\<rparr>"
    from src show ?thesis
    proof
      assume "cb = None"
      with mv eq chk consumed have "length (snake s') = length (snake gs1)"
        by (auto simp: Let_def gs1_def newHead_def split: option.splits)
      then show ?thesis by (auto simp: gs1_def)
    next
      assume "\<exists>f. cb = Some f \<and> leavesState f"
      then obtain f where f: "cb = Some f" "leavesState f" by blast
      have "snake g' \<noteq> []" by (simp add: g'_def gs1_def)
      with f(2) obtain p where "f g' = Inr (p, g')" by (auto simp: leavesState_def)
      with mv eq chk consumed f(1) have "s' = g'\<lparr>food := p, snake := updateAges (snake g')\<rparr>"
        by (simp add: Let_def g'_def gs1_def newHead_def)
      then have "length (snake s') = length (snake gs1)" by (simp add: g'_def)
      then show ?thesis by (auto simp: gs1_def)
    qed
  qed
qed

lemma moveSnake_throws:
  assumes mv: "moveSnake cb rnd s = Inl (e, s')" and ne: "snake s \<noteq> []"
      and src: "cb = None \<or> (\<exists>f. cb = Some f \<and> leavesState f)"
  shows "e = NoValidPosition \<and> getAllValidPositions s' = []
       \<and> food s' = position (hd (snake s')) \<and> tl (snake s') = snake s"
proof -
  from mv have playing: "gameStatus s = PLAYING" by (auto simp: moveSnake_def split: if_splits)
  from ne obtain h rest where sn: "snake s = h # rest" by (cases "snake s") auto
  define newHead where "newHead = \<lparr> position = getNextPosition (position h) (direction h),
                               direction = direction h, age = 0 \<rparr>"
  define gs1 where "gs1 = s\<lparr>snake := newHead # snake s\<rparr>"
  note eq = moveSnake_playing [OF playing sn, of cb rnd]
  have "\<exists>s''. moveSnake cb rnd s = Inr s''" if chk: "checkFoodConsumption gs1 rnd = Inr res" for res
  proof (cases "consumed res")
    case False
    with eq chk show ?thesis by (simp add: Let_def gs1_def newHead_def)
  next
    case consumed: True
    define g' where "g' = gs1\<lparr>score := score gs1 + scoreIncrease res\<rparr>"
    from src show ?thesis
    proof
      assume "cb = None"
      with eq chk consumed show ?thesis
        by (auto simp: Let_def gs1_def newHead_def split: option.splits)
    next
      assume "\<exists>f. cb = Some f \<and> leavesState f"
      then obtain f where f: "cb = Some f" "leavesState f" by blast
      have "snake g' \<noteq> []" by (simp add: g'_def gs1_def)
      with f(2) obtain p where "f g' = Inr (p, g')" by (auto simp: leavesState_def)
      with eq chk consumed f(1) show ?thesis
        by (simp add: Let_def g'_def gs1_def newHead_def)
    qed
  qed
  with mv obtain e' where chk: "checkFoodConsumption gs1 rnd = Inl e'"
    by (cases "checkFoodConsumption gs1 rnd") auto
  with mv eq have e: "e = e'" and s': "s' = gs1" by (simp_all add: Let_def gs1_def newHead_def)
  have sn1: "snake gs1 = newHead # snake s" by (simp add: gs1_def)
  from chk sn1 have hit: "position newHead = food gs1"
      and gen: "generateOptimalFoodPosition gs1 None rnd = Inl e'"
    by (auto simp: checkFoodConsumption_def Let_def Position_eq_iff split: if_splits sum.splits)
  from gen have "e' = NoValidPosition \<and> getAllValidPositions gs1 = []"
    by (auto simp: generateOptimalFoodPosition_def Let_def split: if_splits)
  with e s' hit sn1 show ?thesis by simp
qed

lemma reachable_snake_nonempty:
  "reachable thrown s \<Longrightarrow> snake s \<noteq> []"
proof (induction rule: reachable.induct)
  case (initial draws s thrown)
  then show ?case
    by (auto simp: createInitialState_def initialSnake_def INITIAL_SNAKE_LENGTH_def Let_def
             split: option.splits)
next
  case (transition thrown s op draws b s')
  then show ?case
    by (cases op)
       (auto simp: runTransition_def startGame_def pauseGame_def resumeGame_def endGame_def
                   resetGame_def transitionTo_def createInitialState_def initialSnake_def
                   INITIAL_SNAKE_LENGTH_def Let_def
             split: if_splits option.splits prod.splits)
next
  case (move_default thrown s rnd s')
  show ?case
    by (rule moveSnake_returns_snake [OF move_default(4) move_default(5)]) simp
next
  case (move_callback thrown s toFixed2 numberToString rnd1 rnd2 timeTaken now1 now2 profiler d rnd s')
  show ?case
    by (rule moveSnake_returns_snake [OF move_callback(2) move_callback(3)])
       (simp add: foodPlacementCallback_leavesState)
next
  case (move_default_thrown s rnd e s')
  from moveSnake_throws [OF move_default_thrown(4) move_default_thrown(5)] move_default_thrown(5)
  show ?case by auto
next
  case (move_callback_thrown s toFixed2 numberToString rnd1 rnd2 timeTaken now1 now2 profiler d rnd e s')
  from moveSnake_throws [OF move_callback_thrown(2) move_callback_thrown(3)]
       move_callback_thrown(3) foodPlacementCallback_leavesState
  show ?case by (metis list.sel(2))
next
  case (spawn thrown s p b s')
  then show ?case by (auto simp: spawnFoodAt_def Let_def split: if_splits)
next
  case (set_speed thrown s v)
  then show ?case by (simp add: setSpeed_def)
next
  case (change_direction thrown s d b s')
  then show ?case by (auto simp: changeDirection_def split: if_splits list.splits)
next
  case (game_time thrown s deltaTime)
  then show ?case by (simp add: updateGameTime_def)
qed

lemma moveSnake_throws_only_when_full:
  assumes "reachable thrown s"
      and "onFoodConsumed = None
           \<or> onFoodConsumed = Some (foodPlacementCallback toFixed2 numberToString rnd1 rnd2
                                       timeTaken now1 now2 profiler d)"
      and "moveSnake onFoodConsumed rnd s = Inl (e, s')"
  shows "e = NoValidPosition \<and> getAllValidPositions s' = []
       \<and> food s' = position (hd (snake s')) \<and> tl (snake s') = snake s"
proof (rule moveSnake_throws [OF assms(3) reachable_snake_nonempty [OF assms(1)]])
  show "onFoodConsumed = None \<or> (\<exists>f. onFoodConsumed = Some f \<and> leavesState f)"
    using assms(2) foodPlacementCallback_leavesState by blast
qed

end
